theory Spec2Isabelle
  imports Main
begin

section \<open>Python values and exceptions\<close>

text \<open>
  The plugin (\<^verbatim>\<open>quark/plugin.py\<close>) is Python 2. Its unbounded integers are
  \<^typ>\<open>int\<close>, its byte strings are \<^typ>\<open>string\<close>, \<^verbatim>\<open>None\<close> is
  \<^term>\<open>None\<close>. Every exception a modelled function can raise is a constructor of
  \<open>exn\<close>, and a function that can raise returns \<open>exn + 'a\<close> with \<open>Inl\<close> for
  the raise.
\<close>

type_synonym uuid = string

record ipnetwork =
  version :: nat
  ip_value :: int
  prefixlen :: nat

datatype exn =
    NetworkNotFound uuid
  | NetworkInUse uuid
  | SubnetNotFound uuid
  | SubnetInUse uuid
  | PortNotFound uuid
  | NotFound "uuid list"
  | RouteConflict uuid ipnetwork
  | InvalidMacAddressRange string
  | AddrFormatError
  | ValueError
  | IpAddressGenerationFailure uuid
  | MacAddressGenerationFailure uuid
  | BackendFailure string

subsection \<open>Characters, \<^verbatim>\<open>str.split\<close>, \<^verbatim>\<open>str.replace\<close>, \<^verbatim>\<open>int()\<close>, \<^verbatim>\<open>str()\<close>\<close>

definition is_digit :: "char \<Rightarrow> bool" where
  "is_digit c = (48 \<le> (of_char c :: nat) \<and> (of_char c :: nat) \<le> 57)"

definition is_hex :: "char \<Rightarrow> bool" where
  "is_hex c =
     ((48 \<le> (of_char c :: nat) \<and> (of_char c :: nat) \<le> 57) \<or>
      (65 \<le> (of_char c :: nat) \<and> (of_char c :: nat) \<le> 70) \<or>
      (97 \<le> (of_char c :: nat) \<and> (of_char c :: nat) \<le> 102))"

definition is_space :: "char \<Rightarrow> bool" where
  "is_space c = ((of_char c :: nat) = 32 \<or> (9 \<le> (of_char c :: nat) \<and> (of_char c :: nat) \<le> 13))"

definition hex_val :: "char \<Rightarrow> int" where
  "hex_val c =
     (if (of_char c :: nat) \<le> 57 then int (of_char c) - 48
      else if (of_char c :: nat) \<le> 70 then int (of_char c) - 55
      else int (of_char c) - 87)"

definition hex_to_int :: "string \<Rightarrow> int" where
  "hex_to_int s = foldl (\<lambda>acc c. 16 * acc + hex_val c) 0 s"

definition dec_to_int :: "string \<Rightarrow> int" where
  "dec_to_int s = foldl (\<lambda>acc c. 10 * acc + (int (of_char c) - 48)) 0 s"

text \<open>\<^verbatim>\<open>s.split(c)\<close> for a one-character separator: never empty, one more part than
  there are separators.\<close>

fun split_str :: "char \<Rightarrow> string \<Rightarrow> string list" where
  "split_str c [] = [[]]"
| "split_str c (x # xs) =
     (if x = c then [] # split_str c xs
      else (case split_str c xs of [] \<Rightarrow> [[x]] | p # ps \<Rightarrow> (x # p) # ps))"

text \<open>\<^verbatim>\<open>s.replace(c, '')\<close> and \<^verbatim>\<open>s.replace(c, d)\<close> for single characters.\<close>

definition remove_char :: "char \<Rightarrow> string \<Rightarrow> string" where
  "remove_char c s = filter (\<lambda>x. x \<noteq> c) s"

definition replace_char :: "char \<Rightarrow> char \<Rightarrow> string \<Rightarrow> string" where
  "replace_char c d s = map (\<lambda>x. if x = c then d else x) s"

definition py_strip :: "string \<Rightarrow> string" where
  "py_strip s = rev (dropWhile is_space (rev (dropWhile is_space s)))"

text \<open>\<^verbatim>\<open>int(s)\<close> on a byte string: surrounding whitespace, an optional sign, then decimal
  digits and nothing else; \<^term>\<open>None\<close> is the \<^verbatim>\<open>ValueError\<close>.\<close>

definition py_int :: "string \<Rightarrow> int option" where
  "py_int s =
     (case py_strip s of
        [] \<Rightarrow> None
      | c # r \<Rightarrow>
          (let ds = (if c = CHR ''-'' \<or> c = CHR ''+'' then r else c # r) in
           if ds = [] then None
           else if list_all is_digit ds
             then Some (if c = CHR ''-'' then - dec_to_int ds else dec_to_int ds)
           else None))"

text \<open>\<^verbatim>\<open>int(s, base=16)\<close>: as above, with an optional \<^verbatim>\<open>0x\<close> or \<^verbatim>\<open>0X\<close> after the
  sign and hexadecimal digits of either case.\<close>

definition strip_0x :: "string \<Rightarrow> string" where
  "strip_0x s = (if take 2 s = ''0x'' \<or> take 2 s = ''0X'' then drop 2 s else s)"

definition py_int16 :: "string \<Rightarrow> int option" where
  "py_int16 s =
     (case py_strip s of
        [] \<Rightarrow> None
      | c # r \<Rightarrow>
          (let ds = strip_0x (if c = CHR ''-'' \<or> c = CHR ''+'' then r else c # r) in
           if ds = [] then None
           else if list_all is_hex ds
             then Some (if c = CHR ''-'' then - hex_to_int ds else hex_to_int ds)
           else None))"

text \<open>\<^verbatim>\<open>str(n)\<close> of an integer: a minus sign if negative, then the decimal digits,
  most significant first.\<close>

function str_nat :: "nat \<Rightarrow> string" where
  "str_nat n =
     (if n < 10 then [char_of (48 + n)]
      else str_nat (n div 10) @ [char_of (48 + n mod 10)])"
  by pat_completeness auto
termination
  by (relation "measure id") auto

declare str_nat.simps [simp del]

definition str_int :: "int \<Rightarrow> string" where
  "str_int i = (if i < 0 then CHR ''-'' # str_nat (nat (- i)) else str_nat (nat i))"

subsection \<open>\<^verbatim>\<open>netaddr.EUI\<close>\<close>

text \<open>
  \<^verbatim>\<open>netaddr\<close> is an external library. Its functions are modelled on the inputs described
  with each of them; what the library does on any other input is not modelled but taken
  as a parameter, a field of the record \<open>netaddr_rest\<close>, so that nothing below depends on
  it.
\<close>

datatype eui_module = EUI48 | EUI64

record eui =
  eui_value :: int
  eui_module :: eui_module

record netaddr_rest =
  other_IPNetwork :: "string \<Rightarrow> exn + ipnetwork"
  other_IPAddress :: "string \<Rightarrow> exn + int"
  str_ipv6 :: "int \<Rightarrow> string"
  other_EUI :: "string \<Rightarrow> exn + eui"
  EUI_int_error :: "int \<Rightarrow> exn"
  str_eui64_unix :: "int \<Rightarrow> string"

text \<open>
  \<^verbatim>\<open>EUI(text)\<close> tries the MAC notations of EUI-48, each a regular expression anchored
  with \<^verbatim>\<open>^\<close> and \<^verbatim>\<open>$\<close> and matched ignoring case; when none matches it tries \<^verbatim>\<open>int(text)\<close>
  and takes the value if it lies in \<open>0 .. 2^48 - 1\<close>; then it does the same for EUI-64.
  Modelled are the notations without \<^verbatim>\<open>:\<close> and \<^verbatim>\<open>-\<close>, namely the dotted one (three groups
  of one to four hexadecimal digits) and the bare ones (twelve or eleven hexadecimal
  digits), and the \<^verbatim>\<open>int(text)\<close> fallback of EUI-48. A text that matches one of these
  notations matches no other, and a text that \<^verbatim>\<open>int\<close> accepts matches no notation with a
  separator, so the order among them is immaterial. \<^verbatim>\<open>$\<close> also matches before one final
  newline, which \<open>chomp\<close> removes. Every other text is left to \<open>other_EUI\<close>.

  \<^verbatim>\<open>EUI(n)\<close> on an integer is an EUI-48 for \<open>0 \<le> n < 2^48\<close> and an EUI-64 for
  \<open>2^48 \<le> n < 2^64\<close>; any other integer is refused, with the exception \<open>EUI_int_error\<close>.
\<close>

definition chomp :: "string \<Rightarrow> string" where
  "chomp s = (if s \<noteq> [] \<and> last s = CHR 0x0A then butlast s else s)"

definition hex_group :: "string \<Rightarrow> bool" where
  "hex_group g = (1 \<le> length g \<and> length g \<le> 4 \<and> list_all is_hex g)"

definition eui48_str_to_int :: "string \<Rightarrow> int option" where
  "eui48_str_to_int s =
     (case split_str CHR ''.'' (chomp s) of
        [a, b, c] \<Rightarrow>
          (if hex_group a \<and> hex_group b \<and> hex_group c
           then Some (hex_to_int a * 2 ^ 32 + hex_to_int b * 2 ^ 16 + hex_to_int c)
           else None)
      | _ \<Rightarrow>
          (if (length (chomp s) = 12 \<or> length (chomp s) = 11) \<and> list_all is_hex (chomp s)
           then Some (hex_to_int (chomp s))
           else None))"

definition EUI :: "netaddr_rest \<Rightarrow> string \<Rightarrow> exn + eui" where
  "EUI lib s =
     (case eui48_str_to_int s of
        Some v \<Rightarrow> Inr \<lparr>eui_value = v, eui_module = EUI48\<rparr>
      | None \<Rightarrow>
          (case py_int s of
             Some v \<Rightarrow>
               if 0 \<le> v \<and> v < 2 ^ 48 then Inr \<lparr>eui_value = v, eui_module = EUI48\<rparr>
               else other_EUI lib s
           | None \<Rightarrow> other_EUI lib s))"

definition EUI_int :: "netaddr_rest \<Rightarrow> int \<Rightarrow> exn + eui" where
  "EUI_int lib n =
     (if 0 \<le> n \<and> n < 2 ^ 48 then Inr \<lparr>eui_value = n, eui_module = EUI48\<rparr>
      else if 0 \<le> n \<and> n < 2 ^ 64 then Inr \<lparr>eui_value = n, eui_module = EUI64\<rparr>
      else Inl (EUI_int_error lib n))"

text \<open>\<^verbatim>\<open>str(EUI)\<close> in the default dialect: the bytes of the value as groups \<^verbatim>\<open>%.2X\<close> joined
  by \<^verbatim>\<open>-\<close>, six groups for an EUI-48 and eight for an EUI-64.\<close>

definition hex_upper :: "int \<Rightarrow> char" where
  "hex_upper n = (if n < 10 then char_of (48 + n) else char_of (55 + n))"

definition hex_byte :: "int \<Rightarrow> string" where
  "hex_byte b = [hex_upper (b div 16 mod 16), hex_upper (b mod 16)]"

definition str_eui48 :: "int \<Rightarrow> string" where
  "str_eui48 v =
     hex_byte (v div 2 ^ 40 mod 256) @ ''-'' @
     hex_byte (v div 2 ^ 32 mod 256) @ ''-'' @
     hex_byte (v div 2 ^ 24 mod 256) @ ''-'' @
     hex_byte (v div 2 ^ 16 mod 256) @ ''-'' @
     hex_byte (v div 2 ^ 8 mod 256) @ ''-'' @
     hex_byte (v mod 256)"

definition str_EUI :: "eui \<Rightarrow> string" where
  "str_EUI e =
     (case eui_module e of
        EUI48 \<Rightarrow> str_eui48 (eui_value e)
      | EUI64 \<Rightarrow>
          hex_byte (eui_value e div 2 ^ 56 mod 256) @ ''-'' @
          hex_byte (eui_value e div 2 ^ 48 mod 256) @ ''-'' @
          str_eui48 (eui_value e))"

section \<open>The MAC-range codec: \<^verbatim>\<open>Plugin._to_mac_range\<close>\<close>

text \<open>
  \<^verbatim>\<open>
  def _to_mac_range(self, val):
      cidr_parts = val.split("/")
      prefix = cidr_parts[0]
      prefix = prefix.replace(':', '')
      prefix = prefix.replace('-', '')
      prefix_length = len(prefix)
      if prefix_length < 6 or prefix_length > 10:
          raise quark_exceptions.InvalidMacAddressRange(cidr=val)
      diff = 12 - len(prefix)
      if len(cidr_parts) > 1:
          mask = int(cidr_parts[1])
      else:
          mask = 48 - diff * 4
      mask_size = 1 << (48 - mask)
      prefix = "%s%s" % (prefix, "0" * diff)
      try:
          cidr = "%s/%s" % (str(netaddr.EUI(prefix)).replace("-", ":"), mask)
      except netaddr.AddrFormatError:
          raise quark_exceptions.InvalidMacAddressRange(cidr=val)
      prefix_int = int(prefix, base=16)
      return cidr, prefix_int, prefix_int + mask_size
  \<close>
  \<open>mac_prefix\<close> is \<^verbatim>\<open>prefix\<close> after the two \<^verbatim>\<open>replace\<close> calls, \<open>mac_padded\<close> is
  \<^verbatim>\<open>prefix\<close> after the zero padding, \<open>mac_mask\<close> is \<^verbatim>\<open>mask\<close> (\<^term>\<open>None\<close> when
  \<^verbatim>\<open>int\<close> raises). A negative shift count is Python's \<^verbatim>\<open>ValueError\<close>.
\<close>

definition mac_prefix :: "string \<Rightarrow> string" where
  "mac_prefix val = remove_char CHR ''-'' (remove_char CHR '':'' (hd (split_str CHR ''/'' val)))"

definition mac_padded :: "string \<Rightarrow> string" where
  "mac_padded val = mac_prefix val @ replicate (12 - length (mac_prefix val)) CHR ''0''"

definition mac_mask :: "string \<Rightarrow> int option" where
  "mac_mask val =
     (if length (split_str CHR ''/'' val) > 1 then py_int (split_str CHR ''/'' val ! 1)
      else Some (48 - int (12 - length (mac_prefix val)) * 4))"

definition to_mac_range :: "netaddr_rest \<Rightarrow> string \<Rightarrow> exn + (string \<times> int \<times> int)" where
  "to_mac_range lib val =
     (if length (mac_prefix val) < 6 \<or> length (mac_prefix val) > 10
        then Inl (InvalidMacAddressRange val)
      else
        (case mac_mask val of
           None \<Rightarrow> Inl ValueError
         | Some mask' \<Rightarrow>
             if 48 - mask' < 0 then Inl ValueError
             else
               (case EUI lib (mac_padded val) of
                  Inl e \<Rightarrow> Inl (InvalidMacAddressRange val)
                | Inr eui \<Rightarrow>
                    (case py_int16 (mac_padded val) of
                       None \<Rightarrow> Inl ValueError
                     | Some prefix_int \<Rightarrow>
                         Inr (replace_char CHR ''-'' CHR '':'' (str_EUI eui) @ ''/'' @ str_int mask',
                              prefix_int,
                              prefix_int + 2 ^ nat (48 - mask'))))))"

section \<open>\<^verbatim>\<open>netaddr.IPNetwork\<close> and \<^verbatim>\<open>netaddr.IPAddress\<close>\<close>

text \<open>
  Of \<^verbatim>\<open>netaddr\<close>'s networks and addresses the plugin uses \<^verbatim>\<open>IPNetwork(text)\<close>, equality of
  two networks, \<^verbatim>\<open>a in b\<close> for two networks, \<^verbatim>\<open>net.first\<close>, \<^verbatim>\<open>IPAddress(text)\<close>,
  \<^verbatim>\<open>IPAddress(int)\<close> and \<^verbatim>\<open>str\<close> of an address. A network is the record \<open>ipnetwork\<close>:
  the IP version, the address as written (host bits included) and the prefix length.

  The text forms modelled here are the IPv4 ones: four decimal octets without leading
  zeros, for a network optionally followed by \<^verbatim>\<open>/\<close> and an integer prefix (read by
  Python's \<^verbatim>\<open>int\<close>, as netaddr does). What netaddr does with any other text (IPv6,
  abbreviated IPv4, a netmask after the slash) and how it prints an IPv6 address are not
  modelled: they are the functions \<open>other_IPNetwork\<close>, \<open>other_IPAddress\<close> and \<open>str_ipv6\<close>
  of the record \<open>netaddr_rest\<close>.
\<close>

definition width :: "nat \<Rightarrow> nat" where
  "width v = (if v = 4 then 32 else 128)"

definition net_first :: "ipnetwork \<Rightarrow> int" where
  "net_first n =
     ip_value n div 2 ^ (width (version n) - prefixlen n) * 2 ^ (width (version n) - prefixlen n)"

definition net_last :: "ipnetwork \<Rightarrow> int" where
  "net_last n = net_first n + 2 ^ (width (version n) - prefixlen n) - 1"

text \<open>\<^verbatim>\<open>a == b\<close> compares \<^verbatim>\<open>(version, first, last)\<close>; \<^verbatim>\<open>other in self\<close> holds when the
  versions agree and \<^verbatim>\<open>other\<close>'s range lies within \<^verbatim>\<open>self\<close>'s.\<close>

definition net_eq :: "ipnetwork \<Rightarrow> ipnetwork \<Rightarrow> bool" where
  "net_eq a b = (version a = version b \<and> net_first a = net_first b \<and> net_last a = net_last b)"

definition net_in :: "ipnetwork \<Rightarrow> ipnetwork \<Rightarrow> bool" where
  "net_in other self =
     (version self = version other \<and> net_first self \<le> net_first other \<and>
      net_last other \<le> net_last self)"

definition dec_octet :: "string \<Rightarrow> int option" where
  "dec_octet s =
     (if 1 \<le> length s \<and> length s \<le> 3 \<and> list_all is_digit s \<and>
         (if length s = 1 then True else hd s \<noteq> CHR ''0'') \<and> dec_to_int s \<le> 255
      then Some (dec_to_int s) else None)"

definition parse_ipv4 :: "string \<Rightarrow> int option" where
  "parse_ipv4 s =
     (case map dec_octet (split_str CHR ''.'' s) of
        [Some a, Some b, Some c, Some d] \<Rightarrow> Some (((a * 256 + b) * 256 + c) * 256 + d)
      | _ \<Rightarrow> None)"

definition IPNetwork :: "netaddr_rest \<Rightarrow> string \<Rightarrow> exn + ipnetwork" where
  "IPNetwork lib addr =
     (case parse_ipv4 (takeWhile (\<lambda>c. c \<noteq> CHR ''/'') addr) of
        None \<Rightarrow> other_IPNetwork lib addr
      | Some v \<Rightarrow>
          if CHR ''/'' \<in> set addr then
            (case py_int (drop 1 (dropWhile (\<lambda>c. c \<noteq> CHR ''/'') addr)) of
               None \<Rightarrow> other_IPNetwork lib addr
             | Some p \<Rightarrow>
                 if 0 \<le> p \<and> p \<le> 32
                 then Inr \<lparr>version = 4, ip_value = v, prefixlen = nat p\<rparr>
                 else Inl AddrFormatError)
          else Inr \<lparr>version = 4, ip_value = v, prefixlen = 32\<rparr>)"

definition IPAddress :: "netaddr_rest \<Rightarrow> string \<Rightarrow> exn + int" where
  "IPAddress lib s = (case parse_ipv4 s of Some v \<Rightarrow> Inr v | None \<Rightarrow> other_IPAddress lib s)"

definition str_ipv4 :: "int \<Rightarrow> string" where
  "str_ipv4 v =
     str_int (v div 2 ^ 24 mod 256) @ ''.'' @ str_int (v div 2 ^ 16 mod 256) @ ''.'' @
     str_int (v div 2 ^ 8 mod 256) @ ''.'' @ str_int (v mod 256)"

text \<open>\<^verbatim>\<open>str(netaddr.IPAddress(n))\<close> for an integer \<^verbatim>\<open>n\<close>: IPv4 below \<open>2^32\<close>, IPv6 below
  \<open>2^128\<close>, \<^verbatim>\<open>AddrFormatError\<close> otherwise.\<close>

definition str_IPAddress :: "netaddr_rest \<Rightarrow> int \<Rightarrow> exn + string" where
  "str_IPAddress lib n =
     (if 0 \<le> n \<and> n < 2 ^ 32 then Inr (str_ipv4 n)
      else if 0 \<le> n \<and> n < 2 ^ 128 then Inr (str_ipv6 lib n)
      else Inl AddrFormatError)"

text \<open>\<^verbatim>\<open>DEFAULT_ROUTE = netaddr.IPNetwork("0.0.0.0/0")\<close>, a module constant.\<close>

definition DEFAULT_ROUTE :: ipnetwork where
  "DEFAULT_ROUTE = \<lparr>version = 4, ip_value = 0, prefixlen = 0\<rparr>"

definition str_DEFAULT_ROUTE :: string where
  "str_DEFAULT_ROUTE = ''0.0.0.0/0''"

text \<open>\<^verbatim>\<open>str(netaddr.EUI(n, dialect=netaddr.mac_unix))\<close>: for an EUI-48 six groups \<^verbatim>\<open>%x\<close>
  joined by \<^verbatim>\<open>:\<close>. How an EUI-64 prints in that dialect is not modelled: it is
  \<open>str_eui64_unix\<close>.\<close>

definition hex_lower :: "int \<Rightarrow> char" where
  "hex_lower n = (if n < 10 then char_of (48 + n) else char_of (87 + n))"

definition hex_word :: "int \<Rightarrow> string" where
  "hex_word b = (if b < 16 then [hex_lower b] else [hex_lower (b div 16 mod 16), hex_lower (b mod 16)])"

definition str_eui48_unix :: "int \<Rightarrow> string" where
  "str_eui48_unix v =
     hex_word (v div 2 ^ 40 mod 256) @ '':'' @
     hex_word (v div 2 ^ 32 mod 256) @ '':'' @
     hex_word (v div 2 ^ 24 mod 256) @ '':'' @
     hex_word (v div 2 ^ 16 mod 256) @ '':'' @
     hex_word (v div 2 ^ 8 mod 256) @ '':'' @
     hex_word (v mod 256)"

definition str_EUI_unix :: "netaddr_rest \<Rightarrow> eui \<Rightarrow> string" where
  "str_EUI_unix lib e =
     (case eui_module e of
        EUI48 \<Rightarrow> str_eui48_unix (eui_value e)
      | EUI64 \<Rightarrow> str_eui64_unix lib (eui_value e))"

section \<open>Records of the persistence layer and the API dictionaries\<close>

text \<open>
  The model objects returned by \<^verbatim>\<open>quark.db.api\<close> are records of the attributes the
  plugin reads. \<^verbatim>\<open>address.formatted()\<close> is a method of the model class, which is not
  part of the sources at hand: its result is carried as the field \<open>ip_formatted\<close>.
  A relationship attribute that the plugin only reads (\<^verbatim>\<open>subnet["routes"]\<close>,
  \<^verbatim>\<open>subnet["dns_nameservers"]\<close>, \<^verbatim>\<open>subnet.allocated_ips\<close>, \<^verbatim>\<open>net["subnets"]\<close>,
  \<^verbatim>\<open>net.ports\<close>) is a field holding the collection as it was loaded with the object.
\<close>

record route_model =
  r_id :: uuid
  r_cidr :: string
  r_gateway :: "string option"
  r_subnet_id :: uuid

record dns_model =
  d_ip :: int

record ip_model =
  ip_id :: uuid
  ip_network_id :: uuid
  ip_subnet_id :: uuid
  ip_formatted :: string
  ip_deallocated :: bool

record port_model =
  p_id :: uuid
  p_name :: string
  p_network_id :: uuid
  p_tenant_id :: string
  p_mac_address :: int
  p_admin_state_up :: bool
  p_status :: string
  p_device_id :: string
  p_device_owner :: string
  p_backend_key :: string

record subnet_model =
  s_id :: uuid
  s_name :: string
  s_tenant_id :: string
  s_network_id :: uuid
  s_ip_version :: int
  s_cidr :: string
  s_enable_dhcp :: bool
  s_routes :: "route_model list"
  s_dns_nameservers :: "dns_model list"
  s_allocated_ips :: "ip_model list"

record network_model =
  n_id :: uuid
  n_name :: string
  n_subnets :: "subnet_model list"
  n_ports :: "port_model list"

record mac_model =
  m_address :: int

record mac_range_model =
  mr_id :: uuid
  mr_cidr :: string

record backend_port =
  bp_uuid :: string

text \<open>Request bodies. \<^verbatim>\<open>ATTR_NOT_SPECIFIED\<close> is the API layer's sentinel for an attribute
  the caller left out of a create request; in an update request a key is simply absent
  (\<^term>\<open>None\<close>).\<close>

datatype 'a attr = ATTR_NOT_SPECIFIED | Given 'a

record host_route =
  destination :: string
  nexthop :: "string option"

record create_subnet_body =
  cs_network_id :: uuid
  cs_cidr :: string
  cs_name :: string
  cs_tenant_id :: string
  cs_ip_version :: int
  cs_enable_dhcp :: bool
  cs_gateway_ip :: "string option attr"
  cs_dns_nameservers :: "string list attr"
  cs_host_routes :: "host_route list attr"

text \<open>The keyword arguments \<^verbatim>\<open>**s\<close> that reach \<^verbatim>\<open>subnet_create\<close>: the body without
  the popped keys. \<^verbatim>\<open>host_routes\<close> is popped only when it is truthy, so an empty list
  stays in.\<close>

record subnet_kwargs =
  sk_network_id :: uuid
  sk_cidr :: string
  sk_name :: string
  sk_tenant_id :: string
  sk_ip_version :: int
  sk_enable_dhcp :: bool
  sk_host_routes :: "host_route list option"

record update_subnet_body =
  us_name :: "string option"
  us_enable_dhcp :: "bool option"
  us_gateway_ip :: "string option"
  us_dns_nameservers :: "string list option"
  us_host_routes :: "host_route list option"

record subnet_update_kwargs =
  uk_name :: "string option"
  uk_enable_dhcp :: "bool option"

record create_port_body =
  cp_network_id :: uuid
  cp_name :: string
  cp_tenant_id :: string
  cp_admin_state_up :: bool
  cp_device_id :: string
  cp_device_owner :: string

record port_kwargs =
  pk_id :: uuid
  pk_network_id :: uuid
  pk_name :: string
  pk_tenant_id :: string
  pk_admin_state_up :: bool
  pk_device_id :: string
  pk_device_owner :: string

record route_body =
  rb_subnet_id :: uuid
  rb_cidr :: string
  rb_gateway :: "string option"

text \<open>The dictionaries the plugin returns. A key that a dictionary may lack is an
  option: \<open>sd_gateway_ip = None\<close> is a dictionary without \<^verbatim>\<open>gateway_ip\<close>,
  \<open>Some None\<close> is \<^verbatim>\<open>"gateway_ip": None\<close>.\<close>

record route_dict =
  rd_id :: uuid
  rd_cidr :: string
  rd_gateway :: "string option"
  rd_subnet_id :: uuid

record subnet_dict =
  sd_id :: uuid
  sd_name :: string
  sd_tenant_id :: string
  sd_network_id :: uuid
  sd_ip_version :: int
  sd_dns_nameservers :: "string list"
  sd_cidr :: string
  sd_enable_dhcp :: bool
  sd_routes :: "route_dict list"
  sd_host_routes :: "host_route list"
  sd_gateway_ip :: "string option option"

record fixed_ip =
  fi_subnet_id :: uuid
  fi_ip_address :: string

record port_dict =
  pd_id :: uuid
  pd_name :: string
  pd_network_id :: uuid
  pd_tenant_id :: string
  pd_mac_address :: string
  pd_admin_state_up :: bool
  pd_status :: string
  pd_device_id :: string
  pd_device_owner :: string
  pd_fixed_ips :: "fixed_ip list"

record mac_range_dict =
  mrd_id :: uuid
  mrd_cidr :: string

record ip_dict =
  ipd_id :: uuid
  ipd_network_id :: uuid
  ipd_address :: string
  ipd_port_ids :: "uuid list"
  ipd_subnet_id :: uuid

section \<open>The collaborators\<close>

text \<open>
  The plugin is glue over three collaborators whose code is not part of the sources at
  hand: the persistence layer \<^verbatim>\<open>quark.db.api\<close>, the IPAM driver and the network driver
  (both loaded by class name from the configuration). They are parameters of the model:
  the record \<open>env\<close> holds one function per entry point the plugin calls, each a state
  transformer on the collaborators' state that returns a value or raises. A find with
  \<^verbatim>\<open>scope=ONE\<close> returns an option, a find without a scope the list of matches.

  \<^verbatim>\<open>create_route\<close> passes \<^verbatim>\<open>id=id\<close> to \<^verbatim>\<open>subnet_find\<close>, where \<^verbatim>\<open>id\<close> is Python's builtin
  function (the method has no parameter or local of that name); \<open>py_id\<close> is the type
  of such a filter value.
\<close>

datatype py_id = Id uuid | Builtin_id

text \<open>
  Modelled from the spec: the relationship between ports and IP addresses. The spec's
  data model gives an \<^verbatim>\<open>IpAddress\<close> an ``association to zero-or-more ports
  (many-to-many)'' and its design notes name the ``implicit backref/association-table
  relationships (many-to-many port\<open>\<leftrightarrow>\<close>address)''; the declaration itself is in the model
  module, which is not part of the sources at hand (the sibling declaration in
  \<^verbatim>\<open>security_groups_db.py\<close> has the same shape, with \<^verbatim>\<open>backref="security_groups"\<close>).
  So \<^verbatim>\<open>port["ip_addresses"]\<close> and \<^verbatim>\<open>address["ports"]\<close> are the two live collections of one
  association, kept in the session: \<open>port_ip_addresses\<close> maps a port id to the port's
  collection and \<open>ip_address_ports\<close> an address id to the address's collection, and a
  change made through one side is applied to the other side by the backref.
  \<open>ext\<close> is whatever else the collaborators keep.
\<close>

record 'x session =
  port_ip_addresses :: "uuid \<Rightarrow> ip_model list"
  ip_address_ports :: "uuid \<Rightarrow> port_model list"
  ext :: 'x

type_synonym ('a, 'x) op = "'x session \<Rightarrow> (exn + 'a) \<times> 'x session"

record 'x env =
  lib :: netaddr_rest
  ipam_reuse_after :: int
  generate_uuid :: "(uuid, 'x) op"
  network_find_all :: "uuid \<Rightarrow> (network_model list, 'x) op"
  network_find_one :: "uuid \<Rightarrow> (network_model option, 'x) op"
  network_delete :: "network_model \<Rightarrow> (unit, 'x) op"
  subnet_find_all :: "py_id \<Rightarrow> (subnet_model list, 'x) op"
  subnet_find_one :: "uuid \<Rightarrow> (subnet_model option, 'x) op"
  subnet_create :: "subnet_kwargs \<Rightarrow> (subnet_model, 'x) op"
  subnet_update :: "subnet_model \<Rightarrow> subnet_update_kwargs \<Rightarrow> (subnet_model, 'x) op"
  subnet_delete :: "subnet_model \<Rightarrow> (unit, 'x) op"
  dns_create :: "int \<Rightarrow> uuid \<Rightarrow> (unit, 'x) op"
  dns_delete :: "dns_model \<Rightarrow> (unit, 'x) op"
  route_find_one :: "string \<Rightarrow> uuid \<Rightarrow> (route_model option, 'x) op"
  route_find_all :: "uuid \<Rightarrow> (route_model list, 'x) op"
  route_create :: "string \<Rightarrow> string option \<Rightarrow> uuid \<Rightarrow> (route_model, 'x) op"
  route_update :: "route_model \<Rightarrow> string option \<Rightarrow> (unit, 'x) op"
  route_delete :: "route_model \<Rightarrow> (unit, 'x) op"
  port_find_one :: "uuid \<Rightarrow> (port_model option, 'x) op"
  port_find_all :: "string \<Rightarrow> uuid list \<Rightarrow> (port_model list, 'x) op"
  port_create :: "ip_model list \<Rightarrow> int \<Rightarrow> string \<Rightarrow> port_kwargs \<Rightarrow> (port_model, 'x) op"
  port_delete :: "port_model \<Rightarrow> (unit, 'x) op"
  ip_address_find_one :: "uuid \<Rightarrow> string \<Rightarrow> (ip_model option, 'x) op"
  mac_address_range_create :: "string \<Rightarrow> int \<Rightarrow> int \<Rightarrow> (mac_range_model, 'x) op"
  allocate_ip_address :: "uuid \<Rightarrow> uuid \<Rightarrow> int \<Rightarrow> (ip_model, 'x) op"
  allocate_mac_address :: "uuid \<Rightarrow> uuid \<Rightarrow> int \<Rightarrow> (mac_model, 'x) op"
  deallocate_mac_address :: "int \<Rightarrow> (unit, 'x) op"
  deallocate_ip_address :: "port_model \<Rightarrow> int \<Rightarrow> (unit, 'x) op"
  driver_create_port :: "uuid \<Rightarrow> uuid \<Rightarrow> (backend_port, 'x) op"
  driver_delete_port :: "string \<Rightarrow> (unit, 'x) op"
  driver_delete_network :: "uuid \<Rightarrow> (unit, 'x) op"

text \<open>
  So that a statement can say which collaborator is invoked, with what and in which
  order, the model keeps the trace of the plugin's calls to its collaborators beside
  their state: \<open>invoke c f\<close> runs the collaborator function \<open>f\<close> on the session and
  appends \<open>c\<close> to the trace, whether \<open>f\<close> returns or raises. The collaborators
  neither see nor change the trace.
\<close>

datatype call =
    Generate_uuid
  | Network_find uuid
  | Network_delete network_model
  | Subnet_find py_id
  | Subnet_create subnet_kwargs
  | Subnet_update subnet_model subnet_update_kwargs
  | Subnet_delete subnet_model
  | Dns_create int uuid
  | Dns_delete dns_model
  | Route_find_one string uuid
  | Route_find_all uuid
  | Route_create string "string option" uuid
  | Route_update route_model "string option"
  | Route_delete route_model
  | Port_find uuid
  | Port_find_all string "uuid list"
  | Port_create "ip_model list" int string port_kwargs
  | Port_delete port_model
  | Ip_address_find uuid string
  | Mac_address_range_create string int int
  | Allocate_ip_address uuid uuid int
  | Allocate_mac_address uuid uuid int
  | Deallocate_mac_address int
  | Deallocate_ip_address port_model int
  | Driver_create_port uuid uuid
  | Driver_delete_port string
  | Driver_delete_network uuid

record 'x world =
  calls :: "call list"
  session :: "'x session"

type_synonym ('a, 'x) act = "'x world \<Rightarrow> (exn + 'a) \<times> 'x world"

definition ret :: "'a \<Rightarrow> ('a, 'x) act" where
  "ret v w = (Inr v, w)"

definition raise :: "exn \<Rightarrow> ('a, 'x) act" where
  "raise e w = (Inl e, w)"

text \<open>A pure computation that may raise.\<close>

definition lift :: "exn + 'a \<Rightarrow> ('a, 'x) act" where
  "lift r w = (r, w)"

text \<open>Sequencing: an exception of the first action ends the whole.\<close>

definition seq :: "('a, 'x) act \<Rightarrow> ('a \<Rightarrow> ('b, 'x) act) \<Rightarrow> ('b, 'x) act" where
  "seq m f w = (case m w of (Inl e, w') \<Rightarrow> (Inl e, w') | (Inr v, w') \<Rightarrow> f v w')"

definition invoke :: "call \<Rightarrow> ('a, 'x) op \<Rightarrow> ('a, 'x) act" where
  "invoke c f w =
     (case f (session w) of (r, s') \<Rightarrow> (r, \<lparr>calls = calls w @ [c], session = s'\<rparr>))"

text \<open>A step on the session's own collections (no collaborator is called).\<close>

definition on_session :: "('a, 'x) op \<Rightarrow> ('a, 'x) act" where
  "on_session f w = (case f (session w) of (r, s') \<Rightarrow> (r, w\<lparr>session := s'\<rparr>))"

section \<open>The plugin: dictionaries\<close>

text \<open>
  \<^verbatim>\<open>
  def _make_route_dict(self, route):
      return {"id": route["id"], "cidr": route["cidr"],
              "gateway": route["gateway"], "subnet_id": route["subnet_id"]}
  def _make_mac_range_dict(self, mac_range):
      return {"id": mac_range["id"], "cidr": mac_range["cidr"]}
  \<close>
\<close>

definition make_route_dict :: "route_model \<Rightarrow> route_dict" where
  "make_route_dict route =
     \<lparr>rd_id = r_id route, rd_cidr = r_cidr route, rd_gateway = r_gateway route,
      rd_subnet_id = r_subnet_id route\<rparr>"

definition make_mac_range_dict :: "mac_range_model \<Rightarrow> mac_range_dict" where
  "make_mac_range_dict mac_range = \<lparr>mrd_id = mr_id mac_range, mrd_cidr = mr_cidr mac_range\<rparr>"

text \<open>
  \<^verbatim>\<open>
  def _subnet_dict(self, subnet, fields=None):
      dns_nameservers = [str(netaddr.IPAddress(dns["ip"]))
                         for dns in subnet.get("dns_nameservers")]
      return {"id": subnet.get('id'), "name": subnet.get('name'), ...
              "allocation_pools": [], "dns_nameservers": dns_nameservers or [],
              "cidr": subnet.get('cidr'), "enable_dhcp": subnet.get('enable_dhcp')}

  def _make_subnet_dict(self, subnet, fields=None):
      res = self._subnet_dict(subnet, fields)
      res["routes"] = [self._make_route_dict(r) for r in subnet["routes"]]
      def _host_route(route):
          return {"destination": route["cidr"], "nexthop": route["gateway"]}
      res["host_routes"] = [_host_route(r) for r in subnet["routes"]]
      for route in subnet["routes"]:
          if netaddr.IPNetwork(route["cidr"]) == DEFAULT_ROUTE:
              res["gateway_ip"] = route["gateway"]
              break
      return res
  \<close>
  \<^verbatim>\<open>allocation_pools\<close> is always the empty list and is left out of \<open>subnet_dict\<close>.
\<close>

fun dns_strings :: "netaddr_rest \<Rightarrow> dns_model list \<Rightarrow> exn + string list" where
  "dns_strings l [] = Inr []"
| "dns_strings l (dns # rest) =
     (case str_IPAddress l (d_ip dns) of
        Inl e \<Rightarrow> Inl e
      | Inr a \<Rightarrow> (case dns_strings l rest of Inl e \<Rightarrow> Inl e | Inr as \<Rightarrow> Inr (a # as)))"

definition host_route_of :: "route_model \<Rightarrow> host_route" where
  "host_route_of route = \<lparr>destination = r_cidr route, nexthop = r_gateway route\<rparr>"

fun gateway_of_routes :: "netaddr_rest \<Rightarrow> route_model list \<Rightarrow> exn + string option option" where
  "gateway_of_routes l [] = Inr None"
| "gateway_of_routes l (route # rest) =
     (case IPNetwork l (r_cidr route) of
        Inl e \<Rightarrow> Inl e
      | Inr n \<Rightarrow> if net_eq n DEFAULT_ROUTE then Inr (Some (r_gateway route))
                 else gateway_of_routes l rest)"

definition make_subnet_dict :: "netaddr_rest \<Rightarrow> subnet_model \<Rightarrow> exn + subnet_dict" where
  "make_subnet_dict l subnet =
     (case dns_strings l (s_dns_nameservers subnet) of
        Inl e \<Rightarrow> Inl e
      | Inr dns_nameservers \<Rightarrow>
          (case gateway_of_routes l (s_routes subnet) of
             Inl e \<Rightarrow> Inl e
           | Inr gw \<Rightarrow>
               Inr \<lparr>sd_id = s_id subnet, sd_name = s_name subnet,
                    sd_tenant_id = s_tenant_id subnet, sd_network_id = s_network_id subnet,
                    sd_ip_version = s_ip_version subnet,
                    sd_dns_nameservers = dns_nameservers,
                    sd_cidr = s_cidr subnet, sd_enable_dhcp = s_enable_dhcp subnet,
                    sd_routes = map make_route_dict (s_routes subnet),
                    sd_host_routes = map host_route_of (s_routes subnet),
                    sd_gateway_ip = gw\<rparr>))"

text \<open>
  \<^verbatim>\<open>
  def _port_dict(self, port, fields=None):
      res = {"id": port.get("id"), ..., "mac_address": port.get("mac_address"), ...}
      if isinstance(res["mac_address"], (int, long)):
          res["mac_address"] = str(netaddr.EUI(res["mac_address"],
                                   dialect=netaddr.mac_unix))
      return res
  def _make_port_address_dict(self, ip):
      return {'subnet_id': ip.get("subnet_id"), 'ip_address': ip.formatted()}
  def _make_port_dict(self, port, fields=None):
      res = self._port_dict(port)
      res["fixed_ips"] = [self._make_port_address_dict(ip)
                          for ip in port.ip_addresses]
      return res
  def _make_ip_dict(self, address):
      return {"id": address["id"], "network_id": address["network_id"],
              "address": address.formatted(),
              "port_ids": [port["id"] for port in address["ports"]],
              "subnet_id": address["subnet_id"]}
  \<close>
\<close>

definition make_port_address_dict :: "ip_model \<Rightarrow> fixed_ip" where
  "make_port_address_dict ip = \<lparr>fi_subnet_id = ip_subnet_id ip, fi_ip_address = ip_formatted ip\<rparr>"

definition make_port_dict :: "netaddr_rest \<Rightarrow> port_model \<Rightarrow> (port_dict, 'x) act" where
  "make_port_dict l port =
     seq (lift (EUI_int l (p_mac_address port))) (\<lambda>mac. \<lambda>w.
       (Inr \<lparr>pd_id = p_id port, pd_name = p_name port, pd_network_id = p_network_id port,
             pd_tenant_id = p_tenant_id port, pd_mac_address = str_EUI_unix l mac,
             pd_admin_state_up = p_admin_state_up port, pd_status = p_status port,
             pd_device_id = p_device_id port, pd_device_owner = p_device_owner port,
             pd_fixed_ips =
               map make_port_address_dict (port_ip_addresses (session w) (p_id port))\<rparr>,
        w))"

definition make_ip_dict :: "ip_model \<Rightarrow> (ip_dict, 'x) act" where
  "make_ip_dict address w =
     (Inr \<lparr>ipd_id = ip_id address, ipd_network_id = ip_network_id address,
           ipd_address = ip_formatted address,
           ipd_port_ids = map p_id (ip_address_ports (session w) (ip_id address)),
           ipd_subnet_id = ip_subnet_id address\<rparr>,
      w)"

section \<open>The plugin: subnets\<close>

text \<open>
  \<^verbatim>\<open>
  def create_subnet(self, context, subnet):
      net_id = subnet["subnet"]["network_id"]
      net = db_api.network_find(context, net_id, scope=db_api.ONE)
      if not net:
          raise exceptions.NetworkNotFound(net_id=net_id)
      s = subnet["subnet"]
      cidr = netaddr.IPNetwork(s["cidr"])
      gateway_ip = s.pop("gateway_ip")
      if gateway_ip is attributes.ATTR_NOT_SPECIFIED:
          gateway_ip = str(netaddr.IPAddress(cidr.first + 1))
      dns_ips = []
      if s["dns_nameservers"] is attributes.ATTR_NOT_SPECIFIED:
          s.pop("dns_nameservers")
      else:
          dns_ips = s.pop("dns_nameservers", [])
      routes = []
      if s.get("host_routes"):
          if s["host_routes"] is attributes.ATTR_NOT_SPECIFIED:
              s.pop("host_routes")
          else:
              routes = s.pop("host_routes")
      default_route = None
      for route in routes:
          if netaddr.IPNetwork(route["destination"]) == DEFAULT_ROUTE:
              default_route = route
              break
      if default_route is None:
          routes.append(dict(destination=str(DEFAULT_ROUTE), nexthop=gateway_ip))
      else:
          gateway_ip = default_route["nexthop"]
      new_subnet = db_api.subnet_create(context, **s)
      subnet_dict = self._make_subnet_dict(new_subnet)
      for dns_ip in dns_ips:
          db_api.dns_create(context, ip=netaddr.IPAddress(dns_ip),
                            subnet_id=new_subnet["id"])
          subnet_dict["dns_nameservers"].append(dns_ip)
      for route in routes:
          db_api.route_create(context, cidr=route["destination"],
                              gateway=route["nexthop"], subnet_id=new_subnet["id"])
          subnet_dict["host_routes"].append(route)
      subnet_dict["gateway_ip"] = gateway_ip
      return subnet_dict
  \<close>
\<close>

text \<open>The list a create request carries under a key, \<^verbatim>\<open>[]\<close> for \<^verbatim>\<open>ATTR_NOT_SPECIFIED\<close>.\<close>

definition attr_list :: "'a list attr \<Rightarrow> 'a list" where
  "attr_list a = (case a of ATTR_NOT_SPECIFIED \<Rightarrow> [] | Given xs \<Rightarrow> xs)"

fun find_default_route :: "netaddr_rest \<Rightarrow> host_route list \<Rightarrow> exn + host_route option" where
  "find_default_route l [] = Inr None"
| "find_default_route l (route # rest) =
     (case IPNetwork l (destination route) of
        Inl e \<Rightarrow> Inl e
      | Inr n \<Rightarrow> if net_eq n DEFAULT_ROUTE then Inr (Some route)
                 else find_default_route l rest)"

fun create_dns :: "'x env \<Rightarrow> string list \<Rightarrow> uuid \<Rightarrow> subnet_dict \<Rightarrow> (subnet_dict, 'x) act" where
  "create_dns env [] subnet_id subnet_dict = ret subnet_dict"
| "create_dns env (dns_ip # rest) subnet_id subnet_dict =
     seq (lift (IPAddress (lib env) dns_ip)) (\<lambda>ip.
     seq (invoke (Dns_create ip subnet_id) (dns_create env ip subnet_id)) (\<lambda>_.
     create_dns env rest subnet_id
       (subnet_dict\<lparr>sd_dns_nameservers := sd_dns_nameservers subnet_dict @ [dns_ip]\<rparr>)))"

fun create_routes :: "'x env \<Rightarrow> host_route list \<Rightarrow> uuid \<Rightarrow> subnet_dict \<Rightarrow> (subnet_dict, 'x) act" where
  "create_routes env [] subnet_id subnet_dict = ret subnet_dict"
| "create_routes env (route # rest) subnet_id subnet_dict =
     seq (invoke (Route_create (destination route) (nexthop route) subnet_id)
            (route_create env (destination route) (nexthop route) subnet_id)) (\<lambda>_.
     create_routes env rest subnet_id
       (subnet_dict\<lparr>sd_host_routes := sd_host_routes subnet_dict @ [route]\<rparr>))"

definition kwargs_of_body :: "create_subnet_body \<Rightarrow> subnet_kwargs" where
  "kwargs_of_body s =
     \<lparr>sk_network_id = cs_network_id s, sk_cidr = cs_cidr s, sk_name = cs_name s,
      sk_tenant_id = cs_tenant_id s, sk_ip_version = cs_ip_version s,
      sk_enable_dhcp = cs_enable_dhcp s,
      sk_host_routes = (case cs_host_routes s of Given [] \<Rightarrow> Some [] | _ \<Rightarrow> None)\<rparr>"

definition create_subnet :: "'x env \<Rightarrow> create_subnet_body \<Rightarrow> (subnet_dict, 'x) act" where
  "create_subnet env s =
     seq (invoke (Network_find (cs_network_id s)) (network_find_one env (cs_network_id s))) (\<lambda>net.
     case net of
       None \<Rightarrow> raise (NetworkNotFound (cs_network_id s))
     | Some _ \<Rightarrow>
     seq (lift (IPNetwork (lib env) (cs_cidr s))) (\<lambda>cidr.
     seq (case cs_gateway_ip s of
            ATTR_NOT_SPECIFIED \<Rightarrow>
              seq (lift (str_IPAddress (lib env) (net_first cidr + 1))) (\<lambda>g. ret (Some g))
          | Given g \<Rightarrow> ret g) (\<lambda>gateway_ip.
     let dns_ips = attr_list (cs_dns_nameservers s);
         routes = attr_list (cs_host_routes s)
     in
     seq (lift (find_default_route (lib env) routes)) (\<lambda>default_route.
     let routes' = (case default_route of
                      None \<Rightarrow> routes @ [\<lparr>destination = str_DEFAULT_ROUTE, nexthop = gateway_ip\<rparr>]
                    | Some _ \<Rightarrow> routes);
         gateway_ip' = (case default_route of None \<Rightarrow> gateway_ip | Some r \<Rightarrow> nexthop r)
     in
     seq (invoke (Subnet_create (kwargs_of_body s)) (subnet_create env (kwargs_of_body s))) (\<lambda>new_subnet.
     seq (lift (make_subnet_dict (lib env) new_subnet)) (\<lambda>subnet_dict.
     seq (create_dns env dns_ips (s_id new_subnet) subnet_dict) (\<lambda>subnet_dict.
     seq (create_routes env routes' (s_id new_subnet) subnet_dict) (\<lambda>subnet_dict.
     ret (subnet_dict\<lparr>sd_gateway_ip := Some gateway_ip'\<rparr>)))))))))"

text \<open>
  \<^verbatim>\<open>
  def update_subnet(self, context, id, subnet):
      subnet_db = db_api.subnet_find(context, id=id, scope=db_api.ONE)
      if not subnet_db:
          raise exceptions.SubnetNotFound(id=id)
      s = subnet["subnet"]
      dns_ips = s.pop("dns_nameservers", [])
      routes = s.pop("host_routes", [])
      gateway_ip = s.pop("gateway_ip", None)
      if gateway_ip:
          default_route = None
          for route in routes:
              if netaddr.IPNetwork(route["destination"]) == DEFAULT_ROUTE:
                  default_route = route
                  break
          if default_route is None:
              route_model = db_api.route_find(context, cidr=str(DEFAULT_ROUTE),
                                              subnet_id=id, scope=db_api.ONE)
              if route_model:
                  db_api.route_update(context, route_model, gateway=gateway_ip)
              else:
                  db_api.route_create(context, cidr=str(DEFAULT_ROUTE),
                                      gateway=gateway_ip, subnet_id=id)
      subnet = db_api.subnet_update(context, subnet_db, **s)
      subnet_dict = self._make_subnet_dict(subnet)
      if dns_ips:
          dns_models = subnet_db["dns_nameservers"]
          for dns_model in dns_models:
              db_api.dns_delete(context, dns_model)
          subnet_dict["dns_nameservers"] = []
      for dns_ip in dns_ips:
          db_api.dns_create(context, ip=netaddr.IPAddress(dns_ip),
                            subnet_id=subnet["id"])
          subnet_dict["dns_nameservers"].append(dns_ip)
      if routes:
          route_models = subnet_db["routes"]
          for route_model in route_models:
              db_api.route_delete(context, route_model)
          subnet_dict["host_routes"] = []
          subnet_dict["gateway_ip"] = None
      for route in routes:
          db_api.route_create(context, cidr=route["destination"],
                              gateway=route["nexthop"], subnet_id=subnet["id"])
          if netaddr.IPNetwork(route["destination"]) == DEFAULT_ROUTE:
              subnet_dict["gateway_ip"] = route["nexthop"]
          subnet_dict["host_routes"].append(route)
      return subnet_dict
  \<close>
  The four blocks of the body are \<open>update_gateway\<close> (\<^verbatim>\<open>if gateway_ip:\<close>),
  \<open>replace_dns\<close>, \<open>replace_routes\<close> and, around them, \<open>update_subnet\<close>.
\<close>

definition truthy :: "string option \<Rightarrow> bool" where
  "truthy v = (case v of None \<Rightarrow> False | Some s \<Rightarrow> s \<noteq> [])"

definition update_gateway :: "'x env \<Rightarrow> uuid \<Rightarrow> host_route list \<Rightarrow> string option \<Rightarrow> (unit, 'x) act" where
  "update_gateway env id' routes gateway_ip =
     (if truthy gateway_ip then
        seq (lift (find_default_route (lib env) routes)) (\<lambda>default_route.
        case default_route of
          Some _ \<Rightarrow> ret ()
        | None \<Rightarrow>
            seq (invoke (Route_find_one str_DEFAULT_ROUTE id')
                   (route_find_one env str_DEFAULT_ROUTE id')) (\<lambda>route_model.
            case route_model of
              Some m \<Rightarrow> invoke (Route_update m gateway_ip) (route_update env m gateway_ip)
            | None \<Rightarrow>
                seq (invoke (Route_create str_DEFAULT_ROUTE gateway_ip id')
                       (route_create env str_DEFAULT_ROUTE gateway_ip id')) (\<lambda>_. ret ())))
      else ret ())"

fun delete_dns :: "'x env \<Rightarrow> dns_model list \<Rightarrow> (unit, 'x) act" where
  "delete_dns env [] = ret ()"
| "delete_dns env (dns_model # rest) =
     seq (invoke (Dns_delete dns_model) (dns_delete env dns_model)) (\<lambda>_. delete_dns env rest)"

fun delete_routes :: "'x env \<Rightarrow> route_model list \<Rightarrow> (unit, 'x) act" where
  "delete_routes env [] = ret ()"
| "delete_routes env (route_model # rest) =
     seq (invoke (Route_delete route_model) (route_delete env route_model)) (\<lambda>_.
     delete_routes env rest)"

fun update_routes :: "'x env \<Rightarrow> host_route list \<Rightarrow> uuid \<Rightarrow> subnet_dict \<Rightarrow> (subnet_dict, 'x) act" where
  "update_routes env [] subnet_id subnet_dict = ret subnet_dict"
| "update_routes env (route # rest) subnet_id subnet_dict =
     seq (invoke (Route_create (destination route) (nexthop route) subnet_id)
            (route_create env (destination route) (nexthop route) subnet_id)) (\<lambda>_.
     seq (lift (IPNetwork (lib env) (destination route))) (\<lambda>n.
     let d = (if net_eq n DEFAULT_ROUTE then subnet_dict\<lparr>sd_gateway_ip := Some (nexthop route)\<rparr>
              else subnet_dict)
     in update_routes env rest subnet_id (d\<lparr>sd_host_routes := sd_host_routes d @ [route]\<rparr>)))"

definition replace_dns ::
  "'x env \<Rightarrow> subnet_model \<Rightarrow> uuid \<Rightarrow> string list \<Rightarrow> subnet_dict \<Rightarrow> (subnet_dict, 'x) act" where
  "replace_dns env subnet_db subnet_id dns_ips subnet_dict =
     seq (if dns_ips \<noteq> [] then
            seq (delete_dns env (s_dns_nameservers subnet_db)) (\<lambda>_.
            ret (subnet_dict\<lparr>sd_dns_nameservers := []\<rparr>))
          else ret subnet_dict) (\<lambda>subnet_dict.
     create_dns env dns_ips subnet_id subnet_dict)"

definition replace_routes ::
  "'x env \<Rightarrow> subnet_model \<Rightarrow> uuid \<Rightarrow> host_route list \<Rightarrow> subnet_dict \<Rightarrow> (subnet_dict, 'x) act" where
  "replace_routes env subnet_db subnet_id routes subnet_dict =
     seq (if routes \<noteq> [] then
            seq (delete_routes env (s_routes subnet_db)) (\<lambda>_.
            ret (subnet_dict\<lparr>sd_host_routes := [], sd_gateway_ip := Some None\<rparr>))
          else ret subnet_dict) (\<lambda>subnet_dict.
     update_routes env routes subnet_id subnet_dict)"

definition update_subnet :: "'x env \<Rightarrow> uuid \<Rightarrow> update_subnet_body \<Rightarrow> (subnet_dict, 'x) act" where
  "update_subnet env id' s =
     seq (invoke (Subnet_find (Id id')) (subnet_find_one env id')) (\<lambda>found.
     case found of
       None \<Rightarrow> raise (SubnetNotFound id')
     | Some subnet_db \<Rightarrow>
     let dns_ips = (case us_dns_nameservers s of None \<Rightarrow> [] | Some ds \<Rightarrow> ds);
         routes = (case us_host_routes s of None \<Rightarrow> [] | Some rs \<Rightarrow> rs);
         gateway_ip = us_gateway_ip s;
         kwargs = \<lparr>uk_name = us_name s, uk_enable_dhcp = us_enable_dhcp s\<rparr>
     in
     seq (update_gateway env id' routes gateway_ip) (\<lambda>_.
     seq (invoke (Subnet_update subnet_db kwargs) (subnet_update env subnet_db kwargs)) (\<lambda>subnet.
     seq (lift (make_subnet_dict (lib env) subnet)) (\<lambda>subnet_dict.
     seq (replace_dns env subnet_db (s_id subnet) dns_ips subnet_dict) (\<lambda>subnet_dict.
     replace_routes env subnet_db (s_id subnet) routes subnet_dict)))))"

text \<open>
  \<^verbatim>\<open>
  def _delete_subnet(self, context, subnet):
      if subnet.allocated_ips:
          raise exceptions.SubnetInUse(subnet_id=subnet["id"])
      db_api.subnet_delete(context, subnet)

  def delete_subnet(self, context, id):
      subnet = db_api.subnet_find(context, id=id, scope=db_api.ONE)
      if not subnet:
          raise exceptions.SubnetNotFound(subnet_id=id)
      self._delete_subnet(context, subnet)
  \<close>
\<close>

definition delete_subnet_internal :: "'x env \<Rightarrow> subnet_model \<Rightarrow> (unit, 'x) act" where
  "delete_subnet_internal env subnet =
     (if s_allocated_ips subnet \<noteq> [] then raise (SubnetInUse (s_id subnet))
      else invoke (Subnet_delete subnet) (subnet_delete env subnet))"

definition delete_subnet :: "'x env \<Rightarrow> uuid \<Rightarrow> (unit, 'x) act" where
  "delete_subnet env id' =
     seq (invoke (Subnet_find (Id id')) (subnet_find_one env id')) (\<lambda>found.
     case found of
       None \<Rightarrow> raise (SubnetNotFound id')
     | Some subnet \<Rightarrow> delete_subnet_internal env subnet)"

section \<open>The plugin: networks\<close>

text \<open>
  \<^verbatim>\<open>
  def delete_network(self, context, id):
      net = db_api.network_find(context, id=id, scope=db_api.ONE)
      if not net:
          raise exceptions.NetworkNotFound(net_id=id)
      if net.ports:
          raise exceptions.NetworkInUse(net_id=id)
      self.net_driver.delete_network(context, id)
      for subnet in net["subnets"]:
          self._delete_subnet(context, subnet)
      db_api.network_delete(context, net)
  \<close>
\<close>

fun delete_subnets :: "'x env \<Rightarrow> subnet_model list \<Rightarrow> (unit, 'x) act" where
  "delete_subnets env [] = ret ()"
| "delete_subnets env (subnet # rest) =
     seq (delete_subnet_internal env subnet) (\<lambda>_. delete_subnets env rest)"

definition delete_network :: "'x env \<Rightarrow> uuid \<Rightarrow> (unit, 'x) act" where
  "delete_network env id' =
     seq (invoke (Network_find id') (network_find_one env id')) (\<lambda>found.
     case found of
       None \<Rightarrow> raise (NetworkNotFound id')
     | Some net \<Rightarrow>
         if n_ports net \<noteq> [] then raise (NetworkInUse id')
         else
           seq (invoke (Driver_delete_network id') (driver_delete_network env id')) (\<lambda>_.
           seq (delete_subnets env (n_subnets net)) (\<lambda>_.
           invoke (Network_delete net) (network_delete env net))))"

section \<open>The plugin: ports\<close>

text \<open>
  \<^verbatim>\<open>
  def create_port(self, context, port):
      garbage = ["fixed_ips", "mac_address"]
      for k in garbage:
          if k in port["port"]:
              port["port"].pop(k)
      addresses = []
      port_id = uuidutils.generate_uuid()
      net_id = port["port"]["network_id"]
      net = db_api.network_find(context, id=net_id)
      if not net:
          raise exceptions.NetworkNotFound(net_id=net_id)
      addresses.append(self.ipam_driver.allocate_ip_address(
          context, net_id, port_id, self.ipam_reuse_after))
      mac = self.ipam_driver.allocate_mac_address(context, net_id, port_id,
                                                  self.ipam_reuse_after)
      backend_port = self.net_driver.create_port(context, net_id, port_id=port_id)
      port["port"]["id"] = port_id
      new_port = db_api.port_create(
          context, addresses=addresses, mac_address=mac["address"],
          backend_key=backend_port["uuid"], **port["port"])
      return self._make_port_dict(new_port)
  \<close>
  The two popped keys never reach a collaborator and are not fields of
  \<open>create_port_body\<close>.
\<close>

definition port_kwargs_of :: "uuid \<Rightarrow> create_port_body \<Rightarrow> port_kwargs" where
  "port_kwargs_of port_id p =
     \<lparr>pk_id = port_id, pk_network_id = cp_network_id p, pk_name = cp_name p,
      pk_tenant_id = cp_tenant_id p, pk_admin_state_up = cp_admin_state_up p,
      pk_device_id = cp_device_id p, pk_device_owner = cp_device_owner p\<rparr>"

definition create_port :: "'x env \<Rightarrow> create_port_body \<Rightarrow> (port_dict, 'x) act" where
  "create_port env p =
     seq (invoke Generate_uuid (generate_uuid env)) (\<lambda>port_id.
     seq (invoke (Network_find (cp_network_id p)) (network_find_all env (cp_network_id p))) (\<lambda>net.
     if net = [] then raise (NetworkNotFound (cp_network_id p))
     else
     seq (invoke (Allocate_ip_address (cp_network_id p) port_id (ipam_reuse_after env))
            (allocate_ip_address env (cp_network_id p) port_id (ipam_reuse_after env))) (\<lambda>address.
     seq (invoke (Allocate_mac_address (cp_network_id p) port_id (ipam_reuse_after env))
            (allocate_mac_address env (cp_network_id p) port_id (ipam_reuse_after env))) (\<lambda>mac.
     seq (invoke (Driver_create_port (cp_network_id p) port_id)
            (driver_create_port env (cp_network_id p) port_id)) (\<lambda>backend_port.
     seq (invoke (Port_create [address] (m_address mac) (bp_uuid backend_port)
                    (port_kwargs_of port_id p))
            (port_create env [address] (m_address mac) (bp_uuid backend_port)
               (port_kwargs_of port_id p))) (\<lambda>new_port.
     make_port_dict (lib env) new_port))))))"

text \<open>
  \<^verbatim>\<open>
  def delete_port(self, context, id):
      port = db_api.port_find(context, id=id, scope=db_api.ONE)
      if not port:
          raise exceptions.PortNotFound(net_id=id)
      backend_key = port["backend_key"]
      mac_address = netaddr.EUI(port["mac_address"]).value
      self.ipam_driver.deallocate_mac_address(context, mac_address)
      self.ipam_driver.deallocate_ip_address(
          context, port, ipam_reuse_after=self.ipam_reuse_after)
      db_api.port_delete(context, port)
      self.net_driver.delete_port(context, backend_key)
  \<close>
\<close>

definition delete_port :: "'x env \<Rightarrow> uuid \<Rightarrow> (unit, 'x) act" where
  "delete_port env id' =
     seq (invoke (Port_find id') (port_find_one env id')) (\<lambda>found.
     case found of
       None \<Rightarrow> raise (PortNotFound id')
     | Some port \<Rightarrow>
         seq (lift (EUI_int (lib env) (p_mac_address port))) (\<lambda>eui.
         let mac_address = eui_value eui in
         seq (invoke (Deallocate_mac_address mac_address)
                (deallocate_mac_address env mac_address)) (\<lambda>_.
         seq (invoke (Deallocate_ip_address port (ipam_reuse_after env))
                (deallocate_ip_address env port (ipam_reuse_after env))) (\<lambda>_.
         seq (invoke (Port_delete port) (port_delete env port)) (\<lambda>_.
         invoke (Driver_delete_port (p_backend_key port))
           (driver_delete_port env (p_backend_key port)))))))"

section \<open>The plugin: MAC address ranges and routes\<close>

text \<open>
  \<^verbatim>\<open>
  def create_mac_address_range(self, context, mac_range):
      cidr = mac_range["mac_address_range"]["cidr"]
      cidr, first_address, last_address = self._to_mac_range(cidr)
      new_range = db_api.mac_address_range_create(
          context, cidr=cidr, first_address=first_address,
          last_address=last_address)
      return self._make_mac_range_dict(new_range)
  \<close>
\<close>

definition create_mac_address_range :: "'x env \<Rightarrow> string \<Rightarrow> (mac_range_dict, 'x) act" where
  "create_mac_address_range env cidr =
     seq (lift (to_mac_range (lib env) cidr)) (\<lambda>(cidr', first_address, last_address).
     seq (invoke (Mac_address_range_create cidr' first_address last_address)
            (mac_address_range_create env cidr' first_address last_address)) (\<lambda>new_range.
     ret (make_mac_range_dict new_range)))"

text \<open>
  \<^verbatim>\<open>
  def create_route(self, context, route):
      route = route["route"]
      subnet_id = route["subnet_id"]
      subnet = db_api.subnet_find(context, id=id)
      if not subnet:
          raise exceptions.SubnetNotFound(subnet_id=subnet_id)
      route_cidr = netaddr.IPNetwork(route["cidr"])
      subnet_routes = db_api.route_find(context, subnet_id=subnet_id)
      for sub_route in subnet_routes:
          sub_route_cidr = netaddr.IPNetwork(sub_route["cidr"])
          if route_cidr in sub_route_cidr or sub_route_cidr in route_cidr:
              raise quark_exceptions.RouteConflict(route_id=sub_route["id"],
                                                   cidr=str(route_cidr))
      new_route = db_api.route_create(context, **route)
      return self._make_route_dict(new_route)
  \<close>
  The exception carries the parsed network rather than its text.
\<close>

fun check_route_conflict :: "netaddr_rest \<Rightarrow> ipnetwork \<Rightarrow> route_model list \<Rightarrow> exn + unit" where
  "check_route_conflict l route_cidr [] = Inr ()"
| "check_route_conflict l route_cidr (sub_route # rest) =
     (case IPNetwork l (r_cidr sub_route) of
        Inl e \<Rightarrow> Inl e
      | Inr sub_route_cidr \<Rightarrow>
          if net_in route_cidr sub_route_cidr \<or> net_in sub_route_cidr route_cidr
          then Inl (RouteConflict (r_id sub_route) route_cidr)
          else check_route_conflict l route_cidr rest)"

definition create_route :: "'x env \<Rightarrow> route_body \<Rightarrow> (route_dict, 'x) act" where
  "create_route env route =
     seq (invoke (Subnet_find Builtin_id) (subnet_find_all env Builtin_id)) (\<lambda>subnet.
     if subnet = [] then raise (SubnetNotFound (rb_subnet_id route))
     else
     seq (lift (IPNetwork (lib env) (rb_cidr route))) (\<lambda>route_cidr.
     seq (invoke (Route_find_all (rb_subnet_id route))
            (route_find_all env (rb_subnet_id route))) (\<lambda>subnet_routes.
     seq (lift (check_route_conflict (lib env) route_cidr subnet_routes)) (\<lambda>_.
     seq (invoke (Route_create (rb_cidr route) (rb_gateway route) (rb_subnet_id route))
            (route_create env (rb_cidr route) (rb_gateway route) (rb_subnet_id route))) (\<lambda>new_route.
     ret (make_route_dict new_route))))))"

section \<open>The plugin: IP addresses\<close>

text \<open>
  \<^verbatim>\<open>
  def update_ip_address(self, context, id, ip_address):
      address = db_api.ip_address_find(
          context, id=id, tenant_id=context.tenant_id, scope=db_api.ONE)
      if not address:
          raise exceptions.NotFound(
              message="No IP address found with id=%s" % id)
      old_ports = address['ports']
      port_ids = ip_address['ip_address'].get('port_ids')
      if port_ids is None:
          return self._make_ip_dict(address)
      for port in old_ports:
          port['ip_addresses'].remove(address)
      if port_ids:
          ports = db_api.port_find(
              context, tenant_id=context.tenant_id, id=port_ids,
              scope=db_api.ALL)
          if len(ports) != len(port_ids):
              raise exceptions.NotFound(
                  message="No ports not found with ids=%s" % port_ids)
          for port in ports:
              port['ip_addresses'].extend([address])
      return self._make_ip_dict(address)
  \<close>
  \<^verbatim>\<open>old_ports\<close> is not a copy: it is the collection \<^verbatim>\<open>address['ports']\<close> itself, and the
  \<^verbatim>\<open>for\<close> loop walks it by position while its body changes it through the backref. A
  Python list iterator holds an index; each step compares the index with the current
  length, takes the element at the index and increments it. \<open>remove_old_ports address i\<close>
  is the loop from index \<open>i\<close> on. \<^verbatim>\<open>list.remove\<close> deletes the first occurrence and raises
  \<^verbatim>\<open>ValueError\<close> when there is none; model objects are compared by identity, which within
  a session is their id.
\<close>

fun remove_ip :: "ip_model \<Rightarrow> ip_model list \<Rightarrow> ip_model list option" where
  "remove_ip a [] = None"
| "remove_ip a (x # xs) =
     (if ip_id x = ip_id a then Some xs
      else (case remove_ip a xs of None \<Rightarrow> None | Some ys \<Rightarrow> Some (x # ys)))"

fun remove_port :: "port_model \<Rightarrow> port_model list \<Rightarrow> port_model list" where
  "remove_port p [] = []"
| "remove_port p (x # xs) = (if p_id x = p_id p then xs else x # remove_port p xs)"

text \<open>\<^verbatim>\<open>port['ip_addresses'].remove(address)\<close> with its backref on \<^verbatim>\<open>address['ports']\<close>, and
  \<^verbatim>\<open>port['ip_addresses'].extend([address])\<close> with its.\<close>

definition ip_addresses_remove :: "port_model \<Rightarrow> ip_model \<Rightarrow> (unit, 'x) op" where
  "ip_addresses_remove port address s =
     (case remove_ip address (port_ip_addresses s (p_id port)) of
        None \<Rightarrow> (Inl ValueError, s)
      | Some rest \<Rightarrow>
          (Inr (),
           s\<lparr>port_ip_addresses := (port_ip_addresses s)(p_id port := rest),
             ip_address_ports :=
               (ip_address_ports s)
                 (ip_id address := remove_port port (ip_address_ports s (ip_id address)))\<rparr>))"

definition ip_addresses_extend :: "port_model \<Rightarrow> ip_model \<Rightarrow> (unit, 'x) op" where
  "ip_addresses_extend port address s =
     (Inr (),
      s\<lparr>port_ip_addresses :=
          (port_ip_addresses s)(p_id port := port_ip_addresses s (p_id port) @ [address]),
        ip_address_ports :=
          (ip_address_ports s)(ip_id address := ip_address_ports s (ip_id address) @ [port])\<rparr>)"

function remove_old_ports :: "ip_model \<Rightarrow> nat \<Rightarrow> (unit, 'x) op" where
  "remove_old_ports address i s =
     (if i < length (ip_address_ports s (ip_id address)) then
        (case ip_addresses_remove (ip_address_ports s (ip_id address) ! i) address s of
           (Inl e, s') \<Rightarrow> (Inl e, s')
         | (Inr _, s') \<Rightarrow> remove_old_ports address (Suc i) s')
      else (Inr (), s))"
  by pat_completeness auto
termination
proof (relation "measure (\<lambda>(address, i, s). length (ip_address_ports s (ip_id address)) - i)",
    goal_cases)
  case 1
  show ?case by simp
next
  case (2 address i s x y b)
  have len: "p \<in> set xs \<Longrightarrow> Suc (length (remove_port p xs)) = length xs"
    for p :: port_model and xs
    by (induction xs) auto
  from 2(1) have "ip_address_ports s (ip_id address) ! i \<in> set (ip_address_ports s (ip_id address))"
    by simp
  from len [OF this] 2(2,3)
  have "Suc (length (ip_address_ports y (ip_id address))) = length (ip_address_ports s (ip_id address))"
    by (auto simp: ip_addresses_remove_def split: option.splits)
  with 2(1) show ?case by simp
qed

declare remove_old_ports.simps [simp del]

fun extend_ports :: "ip_model \<Rightarrow> port_model list \<Rightarrow> (unit, 'x) op" where
  "extend_ports address [] s = (Inr (), s)"
| "extend_ports address (port # rest) s =
     (case ip_addresses_extend port address s of
        (Inl e, s') \<Rightarrow> (Inl e, s')
      | (Inr _, s') \<Rightarrow> extend_ports address rest s')"

text \<open>\<^verbatim>\<open>exceptions.NotFound\<close> carries the ids its message names.\<close>

definition update_ip_address ::
  "'x env \<Rightarrow> string \<Rightarrow> uuid \<Rightarrow> uuid list option \<Rightarrow> (ip_dict, 'x) act" where
  "update_ip_address env tenant_id id' port_ids =
     seq (invoke (Ip_address_find id' tenant_id) (ip_address_find_one env id' tenant_id)) (\<lambda>found.
     case found of
       None \<Rightarrow> raise (NotFound [id'])
     | Some address \<Rightarrow>
         (case port_ids of
            None \<Rightarrow> make_ip_dict address
          | Some port_ids \<Rightarrow>
              seq (on_session (remove_old_ports address 0)) (\<lambda>_.
              seq (if port_ids \<noteq> [] then
                     seq (invoke (Port_find_all tenant_id port_ids)
                            (port_find_all env tenant_id port_ids)) (\<lambda>ports.
                     if length ports \<noteq> length port_ids then raise (NotFound port_ids)
                     else on_session (extend_ports address ports))
                   else ret ()) (\<lambda>_.
              make_ip_dict address))))"

section \<open>Vocabulary of the statements\<close>

text \<open>A host route is a default route when its destination parses to a network equal to
  \<^verbatim>\<open>DEFAULT_ROUTE\<close>; the gateway an update reports is the next hop of the last default
  route of the list, \<^verbatim>\<open>None\<close> if there is none.\<close>

definition is_default_route :: "netaddr_rest \<Rightarrow> host_route \<Rightarrow> bool" where
  "is_default_route l route =
     (case IPNetwork l (destination route) of Inl e \<Rightarrow> False | Inr n \<Rightarrow> net_eq n DEFAULT_ROUTE)"

definition last_default_gateway :: "netaddr_rest \<Rightarrow> host_route list \<Rightarrow> string option" where
  "last_default_gateway l routes =
     (case filter (is_default_route l) routes of [] \<Rightarrow> None | r # rs \<Rightarrow> nexthop (last (r # rs)))"

definition parses :: "netaddr_rest \<Rightarrow> string \<Rightarrow> bool" where
  "parses l cidr = (case IPNetwork l cidr of Inl e \<Rightarrow> False | Inr n \<Rightarrow> True)"

fun is_route_create :: "call \<Rightarrow> bool" where
  "is_route_create (Route_create cidr gateway subnet_id) = True"
| "is_route_create c = False"

fun is_route_delete :: "call \<Rightarrow> bool" where
  "is_route_delete (Route_delete route) = True"
| "is_route_delete c = False"

fun is_subnet_delete :: "call \<Rightarrow> bool" where
  "is_subnet_delete (Subnet_delete subnet) = True"
| "is_subnet_delete c = False"

text \<open>The calls a run added to the trace.\<close>

definition new_calls :: "'x world \<Rightarrow> 'x world \<Rightarrow> call list" where
  "new_calls w w' = drop (length (calls w)) (calls w')"

definition route_create_of :: "uuid \<Rightarrow> host_route \<Rightarrow> call" where
  "route_create_of subnet_id route = Route_create (destination route) (nexthop route) subnet_id"

section \<open>Test doubles\<close>

text \<open>
  The repository's tests replace the collaborators by mocks with fixed answers. The
  concrete inputs of the examples below do the same: \<open>mock\<close> is an environment in
  which every collaborator call raises, and each example overrides the entry points it
  expects to be called. The state the doubles keep is the list of the ids of the IP
  addresses and the list of the MAC addresses that are currently allocated.
\<close>

record mock_state =
  active_ips :: "uuid list"
  active_macs :: "int list"

definition unexpected :: "string \<Rightarrow> ('a, mock_state) op" where
  "unexpected name s = (Inl (BackendFailure name), s)"

definition answer :: "'a \<Rightarrow> ('a, mock_state) op" where
  "answer v s = (Inr v, s)"

definition mock_lib :: netaddr_rest where
  "mock_lib =
     \<lparr>other_IPNetwork = (\<lambda>_. Inl AddrFormatError),
      other_IPAddress = (\<lambda>_. Inl AddrFormatError),
      str_ipv6 = (\<lambda>_. []),
      other_EUI = (\<lambda>_. Inl AddrFormatError),
      EUI_int_error = (\<lambda>_. AddrFormatError),
      str_eui64_unix = (\<lambda>_. [])\<rparr>"

definition mock :: "mock_state env" where
  "mock =
     \<lparr>lib = mock_lib,
      ipam_reuse_after = 7200,
      generate_uuid = unexpected ''generate_uuid'',
      network_find_all = (\<lambda>_. unexpected ''network_find''),
      network_find_one = (\<lambda>_. unexpected ''network_find''),
      network_delete = (\<lambda>_. unexpected ''network_delete''),
      subnet_find_all = (\<lambda>_. unexpected ''subnet_find''),
      subnet_find_one = (\<lambda>_. unexpected ''subnet_find''),
      subnet_create = (\<lambda>_. unexpected ''subnet_create''),
      subnet_update = (\<lambda>_ _. unexpected ''subnet_update''),
      subnet_delete = (\<lambda>_. unexpected ''subnet_delete''),
      dns_create = (\<lambda>_ _. unexpected ''dns_create''),
      dns_delete = (\<lambda>_. unexpected ''dns_delete''),
      route_find_one = (\<lambda>_ _. unexpected ''route_find''),
      route_find_all = (\<lambda>_. unexpected ''route_find''),
      route_create = (\<lambda>_ _ _. unexpected ''route_create''),
      route_update = (\<lambda>_ _. unexpected ''route_update''),
      route_delete = (\<lambda>_. unexpected ''route_delete''),
      port_find_one = (\<lambda>_. unexpected ''port_find''),
      port_find_all = (\<lambda>_ _. unexpected ''port_find''),
      port_create = (\<lambda>_ _ _ _. unexpected ''port_create''),
      port_delete = (\<lambda>_. unexpected ''port_delete''),
      ip_address_find_one = (\<lambda>_ _. unexpected ''ip_address_find''),
      mac_address_range_create = (\<lambda>_ _ _. unexpected ''mac_address_range_create''),
      allocate_ip_address = (\<lambda>_ _ _. unexpected ''allocate_ip_address''),
      allocate_mac_address = (\<lambda>_ _ _. unexpected ''allocate_mac_address''),
      deallocate_mac_address = (\<lambda>_. unexpected ''deallocate_mac_address''),
      deallocate_ip_address = (\<lambda>_ _. unexpected ''deallocate_ip_address''),
      driver_create_port = (\<lambda>_ _. unexpected ''create_port''),
      driver_delete_port = (\<lambda>_. unexpected ''delete_port''),
      driver_delete_network = (\<lambda>_. unexpected ''delete_network'')\<rparr>"

definition empty_session :: "mock_state session" where
  "empty_session =
     \<lparr>port_ip_addresses = (\<lambda>_. []), ip_address_ports = (\<lambda>_. []),
      ext = \<lparr>active_ips = [], active_macs = []\<rparr>\<rparr>"

definition start :: "mock_state world" where
  "start = \<lparr>calls = [], session = empty_session\<rparr>"

text \<open>\<^verbatim>\<open>mac_address_range_create\<close> answers with a row of id \<^verbatim>\<open>1\<close> and the given CIDR, as
  the stub of \<^verbatim>\<open>test_create_range\<close> does.\<close>

definition mock_mac_ranges :: "mock_state env" where
  "mock_mac_ranges =
     mock\<lparr>mac_address_range_create :=
            (\<lambda>cidr first_address last_address. answer \<lparr>mr_id = ''1'', mr_cidr = cidr\<rparr>)\<rparr>"

definition net1 :: network_model where
  "net1 = \<lparr>n_id = ''net-1'', n_name = ''private'', n_subnets = [], n_ports = []\<rparr>"

definition ip1 :: ip_model where
  "ip1 = \<lparr>ip_id = ''ip-1'', ip_network_id = ''net-1'', ip_subnet_id = ''subnet-1'',
           ip_formatted = ''10.0.0.2'', ip_deallocated = False\<rparr>"

definition port1 :: port_model where
  "port1 = \<lparr>p_id = ''port-1'', p_name = ''eth0'', p_network_id = ''net-1'',
             p_tenant_id = ''tenant'', p_mac_address = 187723558158337,
             p_admin_state_up = True, p_status = ''ACTIVE'', p_device_id = ''vm-1'',
             p_device_owner = ''compute'', p_backend_key = ''backend-1''\<rparr>"

definition port2 :: port_model where
  "port2 = port1\<lparr>p_id := ''port-2'', p_mac_address := 187723558158338,
                  p_device_id := ''vm-2'', p_backend_key := ''backend-2''\<rparr>"

definition route1 :: route_model where
  "route1 = \<lparr>r_id = ''route-1'', r_cidr = ''0.0.0.0/0'', r_gateway = Some ''10.0.0.1'',
              r_subnet_id = ''subnet-1''\<rparr>"

definition subnet1 :: subnet_model where
  "subnet1 = \<lparr>s_id = ''subnet-1'', s_name = ''sub'', s_tenant_id = ''tenant'',
               s_network_id = ''net-1'', s_ip_version = 4, s_cidr = ''10.0.0.0/24'',
               s_enable_dhcp = False, s_routes = [route1], s_dns_nameservers = [],
               s_allocated_ips = []\<rparr>"

definition port_body :: create_port_body where
  "port_body = \<lparr>cp_network_id = ''net-1'', cp_name = ''eth0'', cp_tenant_id = ''tenant'',
                 cp_admin_state_up = True, cp_device_id = ''vm-1'',
                 cp_device_owner = ''compute''\<rparr>"

text \<open>An IPAM double that keeps book: allocation adds to the active addresses,
  deallocation of a port's addresses removes them.\<close>

definition ipam_allocate_ip :: "uuid \<Rightarrow> uuid \<Rightarrow> int \<Rightarrow> (ip_model, mock_state) op" where
  "ipam_allocate_ip net_id port_id reuse_after s =
     (Inr ip1, s\<lparr>ext := (ext s)\<lparr>active_ips := active_ips (ext s) @ [ip_id ip1]\<rparr>\<rparr>)"

definition ipam_deallocate_ip :: "port_model \<Rightarrow> int \<Rightarrow> (unit, mock_state) op" where
  "ipam_deallocate_ip port reuse_after s = (Inr (), s\<lparr>ext := (ext s)\<lparr>active_ips := []\<rparr>\<rparr>)"

definition ipam_deallocate_mac :: "int \<Rightarrow> (unit, mock_state) op" where
  "ipam_deallocate_mac mac s =
     (Inr (), s\<lparr>ext := (ext s)\<lparr>active_macs := removeAll mac (active_macs (ext s))\<rparr>\<rparr>)"

definition ipam_no_mac :: "uuid \<Rightarrow> uuid \<Rightarrow> int \<Rightarrow> (mac_model, mock_state) op" where
  "ipam_no_mac net_id port_id reuse_after s = (Inl (MacAddressGenerationFailure net_id), s)"

text \<open>Port creation on a network whose MAC ranges are exhausted.\<close>

definition mock_mac_exhausted :: "mock_state env" where
  "mock_mac_exhausted =
     mock\<lparr>generate_uuid := answer ''port-1'',
          network_find_all := (\<lambda>_. answer [net1]),
          allocate_ip_address := ipam_allocate_ip,
          allocate_mac_address := ipam_no_mac,
          deallocate_ip_address := ipam_deallocate_ip\<rparr>"

text \<open>Port deletion where the MAC deallocator raises, and where the IP deallocator
  raises; \<open>allocated\<close> is a state in which the port's address and MAC are active.\<close>

definition allocated :: "mock_state world" where
  "allocated =
     \<lparr>calls = [],
      session = empty_session\<lparr>ext := \<lparr>active_ips = [''ip-1''], active_macs = [187723558158337]\<rparr>\<rparr>\<rparr>"

definition mock_mac_dealloc_fails :: "mock_state env" where
  "mock_mac_dealloc_fails =
     mock\<lparr>port_find_one := (\<lambda>_. answer (Some port1)),
          deallocate_ip_address := ipam_deallocate_ip,
          port_delete := (\<lambda>_. answer ()),
          driver_delete_port := (\<lambda>_. answer ())\<rparr>"

definition mock_ip_dealloc_fails :: "mock_state env" where
  "mock_ip_dealloc_fails =
     mock\<lparr>port_find_one := (\<lambda>_. answer (Some port1)),
          deallocate_mac_address := ipam_deallocate_mac,
          port_delete := (\<lambda>_. answer ()),
          driver_delete_port := (\<lambda>_. answer ())\<rparr>"

text \<open>Route creation on a subnet that has the route \<^verbatim>\<open>0.0.0.0/0 -> 10.0.0.1\<close>.\<close>

definition mock_routes :: "mock_state env" where
  "mock_routes =
     mock\<lparr>subnet_find_all := (\<lambda>_. answer [subnet1]),
          route_find_all := (\<lambda>_. answer [route1]),
          route_create := (\<lambda>cidr gateway subnet_id.
            answer \<lparr>r_id = ''route-2'', r_cidr = cidr, r_gateway = gateway,
                    r_subnet_id = subnet_id\<rparr>)\<rparr>"

text \<open>Subnet creation: the persistence layer answers with the new row, which has no
  routes and no name servers yet.\<close>

definition mock_subnets :: "mock_state env" where
  "mock_subnets =
     mock\<lparr>network_find_one := (\<lambda>_. answer (Some net1)),
          subnet_create := (\<lambda>kw.
            answer \<lparr>s_id = ''subnet-1'', s_name = sk_name kw, s_tenant_id = sk_tenant_id kw,
                    s_network_id = sk_network_id kw, s_ip_version = sk_ip_version kw,
                    s_cidr = sk_cidr kw, s_enable_dhcp = sk_enable_dhcp kw, s_routes = [],
                    s_dns_nameservers = [], s_allocated_ips = []\<rparr>),
          subnet_find_one := (\<lambda>_. answer (Some subnet1)),
          subnet_update := (\<lambda>subnet_db kw. answer subnet_db),
          dns_create := (\<lambda>_ _. answer ()),
          dns_delete := (\<lambda>_. answer ()),
          route_delete := (\<lambda>_. answer ()),
          route_create := (\<lambda>cidr gateway subnet_id.
            answer \<lparr>r_id = ''route-2'', r_cidr = cidr, r_gateway = gateway,
                    r_subnet_id = subnet_id\<rparr>)\<rparr>"

definition subnet_body :: create_subnet_body where
  "subnet_body =
     \<lparr>cs_network_id = ''net-1'', cs_cidr = ''10.0.0.0/24'', cs_name = ''sub'',
      cs_tenant_id = ''tenant'', cs_ip_version = 4, cs_enable_dhcp = False,
      cs_gateway_ip = ATTR_NOT_SPECIFIED, cs_dns_nameservers = ATTR_NOT_SPECIFIED,
      cs_host_routes = ATTR_NOT_SPECIFIED\<rparr>"

definition update_body :: update_subnet_body where
  "update_body =
     \<lparr>us_name = None, us_enable_dhcp = None, us_gateway_ip = None,
      us_dns_nameservers = None, us_host_routes = None\<rparr>"

text \<open>Deletion of a subnet that has an allocated address, alone and as the second
  subnet of a network.\<close>

definition subnet_in_use :: subnet_model where
  "subnet_in_use = subnet1\<lparr>s_id := ''subnet-2'', s_cidr := ''10.0.1.0/24'', s_routes := [],
                           s_allocated_ips := [ip1]\<rparr>"

definition mock_delete :: "mock_state env" where
  "mock_delete =
     mock\<lparr>subnet_find_one := (\<lambda>_. answer (Some subnet_in_use)),
          network_find_one := (\<lambda>_. answer (Some (net1\<lparr>n_subnets := [subnet1, subnet_in_use]\<rparr>))),
          driver_delete_network := (\<lambda>_. answer ()),
          subnet_delete := (\<lambda>_. answer ()),
          network_delete := (\<lambda>_. answer ())\<rparr>"

text \<open>An IP address shared by two ports.\<close>

definition mock_addresses :: "mock_state env" where
  "mock_addresses = mock\<lparr>ip_address_find_one := (\<lambda>_ _. answer (Some ip1))\<rparr>"

definition shared :: "mock_state world" where
  "shared =
     \<lparr>calls = [],
      session =
        \<lparr>port_ip_addresses = (\<lambda>_. [])(''port-1'' := [ip1], ''port-2'' := [ip1]),
         ip_address_ports = (\<lambda>_. [])(''ip-1'' := [port1, port2]),
         ext = \<lparr>active_ips = [''ip-1''], active_macs = []\<rparr>\<rparr>\<rparr>"

definition single :: "mock_state world" where
  "single =
     \<lparr>calls = [],
      session =
        \<lparr>port_ip_addresses = (\<lambda>_. [])(''port-1'' := [ip1]),
         ip_address_ports = (\<lambda>_. [])(''ip-1'' := [port1]),
         ext = \<lparr>active_ips = [''ip-1''], active_macs = []\<rparr>\<rparr>\<rparr>"

text \<open>The same subnet behind a persistence layer that applies the filters it is given:
  \<^verbatim>\<open>subnet_find\<close> returns the rows whose id is the filter value, and no row has Python's
  builtin function \<^verbatim>\<open>id\<close> as its id; \<^verbatim>\<open>route_find\<close> returns the routes of the subnet
  asked for.\<close>

definition subnets_by_id :: "subnet_model list \<Rightarrow> py_id \<Rightarrow> subnet_model list" where
  "subnets_by_id rows k =
     (case k of Id i \<Rightarrow> filter (\<lambda>s. s_id s = i) rows | Builtin_id \<Rightarrow> [])"

definition mock_routes_by_id :: "mock_state env" where
  "mock_routes_by_id =
     mock\<lparr>subnet_find_all := (\<lambda>k. answer (subnets_by_id [subnet1] k)),
          route_find_all := (\<lambda>subnet_id. answer (filter (\<lambda>r. r_subnet_id r = subnet_id) [route1])),
          route_create := (\<lambda>cidr gateway subnet_id.
            answer \<lparr>r_id = ''route-2'', r_cidr = cidr, r_gateway = gateway,
                    r_subnet_id = subnet_id\<rparr>)\<rparr>"

section \<open>Facts about strings and numbers\<close>

lemma split_str_nonempty: "split_str c s \<noteq> []"
  by (induction s) (auto split: list.splits)

lemma hd_split_str: "hd (split_str c s) = takeWhile (\<lambda>x. x \<noteq> c) s"
  by (induction s) (auto split: list.splits simp: split_str_nonempty)

lemma length_split_str: "(1 < length (split_str c s)) = (c \<in> set s)"
  by (induction s) (auto split: list.splits simp: split_str_nonempty)

lemma is_hex_not_space: "is_hex c \<Longrightarrow> \<not> is_space c"
  by (auto simp: is_hex_def is_space_def)

lemma hex_val_bounds: "is_hex c \<Longrightarrow> 0 \<le> hex_val c \<and> hex_val c \<le> 15"
  unfolding is_hex_def hex_val_def
  by auto

lemma hex_to_int_snoc: "hex_to_int (s @ [c]) = 16 * hex_to_int s + hex_val c"
  by (simp add: hex_to_int_def)

lemma hex_to_int_bounds:
  "list_all is_hex s \<Longrightarrow> 0 \<le> hex_to_int s \<and> hex_to_int s < 16 ^ length s"
proof (induction s rule: rev_induct)
  case Nil
  then show ?case by (simp add: hex_to_int_def)
next
  case (snoc c s)
  then have "0 \<le> hex_to_int s" "hex_to_int s < 16 ^ length s" "0 \<le> hex_val c" "hex_val c \<le> 15"
    using hex_val_bounds [of c] by auto
  then show ?case by (simp add: hex_to_int_snoc)
qed

lemma hex_val_zero: "hex_val CHR ''0'' = 0"
  by (simp add: hex_val_def)

lemma hex_to_int_pad: "hex_to_int (s @ replicate d CHR ''0'') = hex_to_int s * 16 ^ d"
proof (induction d)
  case 0
  then show ?case by simp
next
  case (Suc d)
  have "hex_to_int (s @ replicate (Suc d) CHR ''0'') =
        hex_to_int ((s @ replicate d CHR ''0'') @ [CHR ''0''])"
    by (simp add: replicate_append_same)
  also have "\<dots> = 16 * hex_to_int (s @ replicate d CHR ''0'')"
    by (simp only: hex_to_int_snoc hex_val_zero)
  finally show ?case using Suc by simp
qed

lemma py_strip_id:
  assumes "s \<noteq> []" "\<not> is_space (hd s)" "\<not> is_space (last s)"
  shows "py_strip s = s"
proof -
  have a: "dropWhile is_space s = s" using assms by (cases s) auto
  have "dropWhile is_space (rev s) = rev s"
    using assms by (cases "rev s") (auto simp: hd_rev)
  with a show ?thesis by (simp add: py_strip_def)
qed

lemma is_hex_not_sign:
  "is_hex c \<Longrightarrow>
     c \<noteq> CHR ''-'' \<and> c \<noteq> CHR ''+'' \<and> c \<noteq> CHR ''x'' \<and> c \<noteq> CHR ''X'' \<and> c \<noteq> CHR ''.''"
  by (auto simp: is_hex_def)

lemma strip_0x_hex: "list_all is_hex s \<Longrightarrow> strip_0x s = s"
proof (cases s)
  case Nil
  then show ?thesis by (simp add: strip_0x_def)
next
  case (Cons a r)
  assume h: "list_all is_hex s"
  show ?thesis
  proof (cases r)
    case Nil
    with Cons show ?thesis by (simp add: strip_0x_def)
  next
    case (Cons b r')
    with \<open>s = a # r\<close> h have "is_hex b" by simp
    then have "b \<noteq> CHR ''x''" "b \<noteq> CHR ''X''" using is_hex_not_sign by blast+
    with Cons \<open>s = a # r\<close> show ?thesis by (simp add: strip_0x_def)
  qed
qed

text \<open>On a non-empty string of hexadecimal digits \<^verbatim>\<open>int(s, 16)\<close> is the value of the
  digits.\<close>

lemma py_int16_hex:
  assumes "list_all is_hex s" "s \<noteq> []"
  shows "py_int16 s = Some (hex_to_int s)"
proof -
  obtain c r where s: "s = c # r" using assms(2) by (cases s) auto
  have "is_hex (hd s)" "is_hex (last s)"
    using assms by (auto simp: list_all_iff)
  then have st: "py_strip s = s"
    using py_strip_id assms(2) is_hex_not_space by blast
  have c: "c \<noteq> CHR ''-''" "c \<noteq> CHR ''+''"
    using \<open>is_hex (hd s)\<close> s is_hex_not_sign by auto
  show ?thesis
    using assms c strip_0x_hex [OF assms(1)]
    by (simp add: py_int16_def st s [symmetric]) (simp add: s)
qed

text \<open>\<^verbatim>\<open>strip\<close> only removes from the front of a string that does not end in
  whitespace.\<close>

lemma py_strip_drop:
  assumes "s \<noteq> []" "\<not> is_space (last s)"
  shows "\<exists>k. py_strip s = drop k s \<and> k < length s"
proof -
  let ?t = "dropWhile is_space s"
  have "last s \<in> set s" using assms(1) by simp
  with assms(2) have t: "?t \<noteq> []" by (auto simp: dropWhile_eq_Nil_conv)
  have "s = takeWhile is_space s @ ?t" by simp
  then have "last s = last ?t" using t by (metis last_appendR)
  with assms(2) t have "dropWhile is_space (rev ?t) = rev ?t"
    by (cases "rev ?t") (auto simp: hd_rev)
  then have "py_strip s = ?t" by (simp add: py_strip_def)
  moreover have "?t = drop (length (takeWhile is_space s)) s"
    by (rule dropWhile_eq_drop)
  moreover have "length (takeWhile is_space s) < length s"
    using t by (metis calculation(2) drop_eq_Nil not_le)
  ultimately show ?thesis by metis
qed

lemma py_strip_subset: "set (py_strip s) \<subseteq> set s"
proof -
  have "set (py_strip s) = set (dropWhile is_space (rev (dropWhile is_space s)))"
    by (simp add: py_strip_def)
  also have "\<dots> \<subseteq> set (rev (dropWhile is_space s))"
    by (meson set_dropWhileD subsetI)
  also have "\<dots> \<subseteq> set s"
    by (auto dest: set_dropWhileD)
  finally show ?thesis .
qed

text \<open>What \<^verbatim>\<open>int(s, 16)\<close> returns on a string without \<^verbatim>\<open>-\<close> that does not end in
  whitespace: the value of the hexadecimal digits that remain after whitespace, sign and
  \<^verbatim>\<open>0x\<close> are taken from the front.\<close>

lemma py_int16_drop:
  assumes "py_int16 s = Some p" "s \<noteq> []" "\<not> is_space (last s)" "CHR ''-'' \<notin> set s"
  shows "\<exists>k. list_all is_hex (drop k s) \<and> p = hex_to_int (drop k s)"
proof -
  from py_strip_drop [OF assms(2,3)] obtain k1 where k1: "py_strip s = drop k1 s" "k1 < length s"
    by blast
  then have "py_strip s \<noteq> []" by simp
  then obtain c r where cr: "py_strip s = c # r" by (cases "py_strip s") auto
  have "c \<in> set s" using py_strip_subset [of s] cr by auto
  with assms(4) have c: "c \<noteq> CHR ''-''" by auto
  let ?ds0 = "if c = CHR ''-'' \<or> c = CHR ''+'' then r else c # r"
  have r: "r = drop (Suc k1) s"
    using cr k1(1) by (metis drop_Suc list.sel(3) tl_drop)
  have "\<exists>k2. ?ds0 = drop k2 s" using r cr k1(1) by metis
  then obtain k2 where k2: "?ds0 = drop k2 s" by blast
  have "strip_0x ?ds0 = ?ds0 \<or> strip_0x ?ds0 = drop 2 ?ds0" by (simp add: strip_0x_def)
  then have "\<exists>k3. strip_0x ?ds0 = drop k3 s"
    unfolding k2 by (metis drop_drop)
  then obtain k3 where k3: "strip_0x ?ds0 = drop k3 s" by blast
  from assms(1) cr c have "list_all is_hex (strip_0x ?ds0) \<and> p = hex_to_int (strip_0x ?ds0)"
    by (simp add: py_int16_def Let_def split: if_splits)
  with k3 show ?thesis by metis
qed

lemma hex_to_int_zeros: "hex_to_int (replicate j CHR ''0'') = 0"
  using hex_to_int_pad [of "[]" j] by (simp add: hex_to_int_def)

text \<open>The value of the digits that remain of a zero-padded string is a multiple of the
  padding.\<close>

lemma hex_to_int_drop_pad:
  assumes "list_all is_hex (drop k (x @ replicate d CHR ''0''))"
  shows "\<exists>q. 0 \<le> q \<and> q < 16 ^ length x \<and>
           hex_to_int (drop k (x @ replicate d CHR ''0'')) = q * 16 ^ d"
proof (cases "k \<le> length x")
  case True
  then have e: "drop k (x @ replicate d CHR ''0'') = drop k x @ replicate d CHR ''0''"
    by simp
  with assms have h: "list_all is_hex (drop k x)" by simp
  from hex_to_int_bounds [OF h]
  have "0 \<le> hex_to_int (drop k x)" "hex_to_int (drop k x) < 16 ^ (length x - k)" by simp_all
  moreover have "(16::int) ^ (length x - k) \<le> 16 ^ length x"
    by (rule power_increasing) simp_all
  ultimately have "0 \<le> hex_to_int (drop k x) \<and> hex_to_int (drop k x) < 16 ^ length x"
    by linarith
  moreover have "hex_to_int (drop k (x @ replicate d CHR ''0'')) = hex_to_int (drop k x) * 16 ^ d"
    unfolding e by (rule hex_to_int_pad)
  ultimately show ?thesis by blast
next
  case False
  then have "drop k (x @ replicate d CHR ''0'') = replicate (d - (k - length x)) CHR ''0''"
    by simp
  then have "hex_to_int (drop k (x @ replicate d CHR ''0'')) = 0 * 16 ^ d"
    by (simp add: hex_to_int_zeros)
  moreover have "(0::int) \<le> 0 \<and> (0::int) < 16 ^ length x" by simp
  ultimately show ?thesis by blast
qed

lemma is_hex_zeros: "list_all is_hex (replicate n CHR ''0'')"
  by (induction n) (simp_all add: is_hex_def)

lemma split_str_no_sep: "c \<notin> set s \<Longrightarrow> split_str c s = [s]"
  by (induction s) auto

text \<open>\<^verbatim>\<open>netaddr.EUI\<close> reads twelve hexadecimal digits as their value.\<close>

lemma EUI_bare:
  assumes "length s = 12" "list_all is_hex s"
  shows "EUI nl s = Inr \<lparr>eui_value = hex_to_int s, eui_module = EUI48\<rparr>"
proof -
  have "s \<noteq> []" using assms(1) by auto
  then have "is_hex (last s)" using assms(2) by (simp add: list_all_iff)
  then have "last s \<noteq> CHR 0x0A" by (auto simp: is_hex_def)
  then have c: "chomp s = s" by (simp add: chomp_def)
  have "CHR ''.'' \<notin> set s"
    using assms(2) is_hex_not_sign by (auto simp: list_all_iff)
  then have "split_str CHR ''.'' s = [s]" by (rule split_str_no_sep)
  with c assms have "eui48_str_to_int s = Some (hex_to_int s)"
    by (simp add: eui48_str_to_int_def)
  then show ?thesis by (simp add: EUI_def)
qed

lemma hex_upper_mod:
  fixes k :: int
  shows "hex_upper (k mod 16) \<noteq> CHR ''-'' \<and> hex_upper (k mod 16) \<noteq> CHR '':'' \<and>
         hex_upper (k mod 16) \<noteq> CHR ''/''"
proof -
  define n where "n = k mod 16"
  have r: "0 \<le> n" "n < 16" by (simp_all add: n_def)
  have "(of_char (hex_upper n) :: int) = (if n < 10 then 48 + n else 55 + n)"
    using r by (simp add: hex_upper_def)
  then have "(of_char (hex_upper n) :: int) \<noteq> 45 \<and> (of_char (hex_upper n) :: int) \<noteq> 58 \<and>
             (of_char (hex_upper n) :: int) \<noteq> 47"
    using r by auto
  then show ?thesis unfolding n_def by auto
qed

lemma hex_byte_remove:
  "remove_char CHR ''-'' (remove_char CHR '':'' (replace_char CHR ''-'' CHR '':'' (hex_byte b @ r))) =
   hex_byte b @ remove_char CHR ''-'' (remove_char CHR '':'' (replace_char CHR ''-'' CHR '':'' r))"
  using hex_upper_mod [of "b div 16"] hex_upper_mod [of b]
  by (simp add: hex_byte_def remove_char_def replace_char_def)

lemma hex_byte_chars: "CHR ''/'' \<notin> set (hex_byte b)"
  using hex_upper_mod [of "b div 16"] hex_upper_mod [of b]
  by (auto simp: hex_byte_def)

lemma str_eui48_no_slash: "CHR ''/'' \<notin> set (str_eui48 v)"
  by (simp add: str_eui48_def hex_byte_chars)

lemma str_EUI_no_slash: "CHR ''/'' \<notin> set (str_EUI e)"
  by (cases "eui_module e") (simp_all add: str_EUI_def hex_byte_chars str_eui48_no_slash)

lemma mac_text_no_slash: "CHR ''/'' \<notin> set (replace_char CHR ''-'' CHR '':'' (str_EUI e))"
  using str_EUI_no_slash [of e] by (auto simp: replace_char_def)

lemma eui48_text_stripped:
  "length (remove_char CHR ''-'' (remove_char CHR '':''
     (replace_char CHR ''-'' CHR '':'' (str_eui48 v)))) = 12"
proof -
  have sep: "\<And>r. remove_char CHR ''-'' (remove_char CHR '':''
       (replace_char CHR ''-'' CHR '':'' (''-'' @ r))) =
     remove_char CHR ''-'' (remove_char CHR '':'' (replace_char CHR ''-'' CHR '':'' r))"
    by (simp add: remove_char_def replace_char_def)
  have last: "\<And>b. remove_char CHR ''-'' (remove_char CHR '':''
       (replace_char CHR ''-'' CHR '':'' (hex_byte b))) = hex_byte b"
    using hex_byte_remove [of _ "[]"] by (simp add: remove_char_def replace_char_def)
  have len: "\<And>b. length (hex_byte b) = 2" by (simp add: hex_byte_def)
  show ?thesis
    unfolding str_eui48_def by (simp only: hex_byte_remove sep last length_append len)
qed

text \<open>The text of an EUI has twelve or sixteen hexadecimal digits.\<close>

lemma mac_text_stripped:
  "10 < length (remove_char CHR ''-'' (remove_char CHR '':''
     (replace_char CHR ''-'' CHR '':'' (str_EUI e))))"
proof (cases "eui_module e")
  case EUI48
  then show ?thesis by (simp add: str_EUI_def eui48_text_stripped)
next
  case EUI64
  have sep: "\<And>r. remove_char CHR ''-'' (remove_char CHR '':''
       (replace_char CHR ''-'' CHR '':'' (''-'' @ r))) =
     remove_char CHR ''-'' (remove_char CHR '':'' (replace_char CHR ''-'' CHR '':'' r))"
    by (simp add: remove_char_def replace_char_def)
  have len: "\<And>b. length (hex_byte b) = 2" by (simp add: hex_byte_def)
  from EUI64 have "str_EUI e =
      hex_byte (eui_value e div 2 ^ 56 mod 256) @ ''-'' @
      hex_byte (eui_value e div 2 ^ 48 mod 256) @ ''-'' @ str_eui48 (eui_value e)"
    by (simp add: str_EUI_def)
  then have "length (remove_char CHR ''-'' (remove_char CHR '':''
     (replace_char CHR ''-'' CHR '':'' (str_EUI e)))) = 16"
    by (simp only: hex_byte_remove sep length_append len eui48_text_stripped)
  then show ?thesis by simp
qed

section \<open>The MAC-range codec\<close>

text \<open>What a returning call of \<open>to_mac_range\<close> went through.\<close>

lemma to_mac_range_Inr:
  assumes "to_mac_range nl val = Inr (c, f, l)"
  shows "\<exists>m e. mac_mask val = Some m \<and> m \<le> 48 \<and>
           6 \<le> length (mac_prefix val) \<and> length (mac_prefix val) \<le> 10 \<and>
           EUI nl (mac_padded val) = Inr e \<and>
           py_int16 (mac_padded val) = Some f \<and>
           c = replace_char CHR ''-'' CHR '':'' (str_EUI e) @ ''/'' @ str_int m \<and>
           l = f + 2 ^ nat (48 - m)"
proof -
  from assms obtain m where m: "mac_mask val = Some m"
    by (auto simp: to_mac_range_def split: if_splits option.splits)
  from assms m obtain e where e: "EUI nl (mac_padded val) = Inr e"
    by (auto simp: to_mac_range_def split: if_splits sum.splits)
  from assms m e obtain p where p: "py_int16 (mac_padded val) = Some p"
    by (auto simp: to_mac_range_def split: if_splits option.splits)
  from assms m e p show ?thesis
    by (auto simp: to_mac_range_def split: if_splits)
qed

text \<open>What the codec returns on a prefix of hexadecimal digits.\<close>

lemma to_mac_range_hex:
  assumes "6 \<le> length (mac_prefix val) \<and> length (mac_prefix val) \<le> 10 \<and>
           list_all is_hex (mac_prefix val)"
    and "mac_mask val = Some m" and "m \<le> 48"
    and "replace_char CHR ''-'' CHR '':'' (str_eui48 (hex_to_int (mac_padded val))) @ ''/'' @
         str_int m = c"
    and "hex_to_int (mac_padded val) = f"
    and "f + 2 ^ nat (48 - m) = l"
  shows "to_mac_range nl val = Inr (c, f, l)"
proof -
  have len: "length (mac_padded val) = 12" using assms(1) by (simp add: mac_padded_def)
  have hex: "list_all is_hex (mac_padded val)"
    using assms(1) by (simp add: mac_padded_def is_hex_zeros)
  then have ne: "mac_padded val \<noteq> []" using len by auto
  have e: "EUI nl (mac_padded val) = Inr \<lparr>eui_value = hex_to_int (mac_padded val), eui_module = EUI48\<rparr>"
    using len hex by (rule EUI_bare)
  have p: "py_int16 (mac_padded val) = Some (hex_to_int (mac_padded val))"
    using hex ne by (rule py_int16_hex)
  show ?thesis
    using assms by (simp add: to_mac_range_def e p str_EUI_def)
qed

text \<open>The padded prefix: twelve characters, no \<^verbatim>\<open>-\<close>, and a \<^verbatim>\<open>0\<close> at the end.\<close>

lemma mac_padded_shape:
  assumes "6 \<le> length (mac_prefix val)" "length (mac_prefix val) \<le> 10"
  shows "length (mac_padded val) = 12 \<and> mac_padded val \<noteq> [] \<and>
         \<not> is_space (last (mac_padded val)) \<and> CHR ''-'' \<notin> set (mac_padded val)"
proof -
  define d where "d = 12 - length (mac_prefix val)"
  have d: "0 < d" using assms by (simp add: d_def)
  have p: "mac_padded val = mac_prefix val @ replicate d CHR ''0''"
    by (simp add: mac_padded_def d_def)
  have "replicate d CHR ''0'' \<noteq> []" using d by simp
  then have "last (mac_padded val) = last (replicate d CHR ''0'')"
    unfolding p by (rule last_appendR)
  also have "\<dots> = CHR ''0''" using d by (cases d) simp_all
  finally have l: "last (mac_padded val) = CHR ''0''" .
  have "CHR ''-'' \<notin> set (mac_prefix val)" by (simp add: mac_prefix_def remove_char_def)
  then have "CHR ''-'' \<notin> set (mac_padded val)" unfolding p by simp
  moreover have "length (mac_padded val) = 12" using assms by (simp add: p d_def)
  ultimately show ?thesis using l by (auto simp: is_space_def)
qed

lemma canonical_prefix_length:
  "10 < length (mac_prefix (replace_char CHR ''-'' CHR '':'' (str_EUI e) @ ''/'' @ r))"
proof -
  let ?t = "replace_char CHR ''-'' CHR '':'' (str_EUI e)"
  have "takeWhile (\<lambda>x. x \<noteq> CHR ''/'') (?t @ ''/'' @ r) = ?t"
    using mac_text_no_slash [of e] by (subst takeWhile_append2) auto
  then show ?thesis
    by (simp only: mac_prefix_def hd_split_str mac_text_stripped)
qed

lemma to_mac_range_bounds:
  assumes "to_mac_range nl val = Inr (cidr, first_address, last_address)"
  shows "first_address < last_address \<and> 0 \<le> first_address \<and> first_address < 2 ^ 48 \<and>
         (CHR ''/'' \<notin> set val \<longrightarrow> last_address \<le> 2 ^ 48)"
proof -
  from to_mac_range_Inr [OF assms] obtain m where m: "mac_mask val = Some m" "m \<le> 48"
    and len: "6 \<le> length (mac_prefix val)" "length (mac_prefix val) \<le> 10"
    and f: "py_int16 (mac_padded val) = Some first_address"
    and l: "last_address = first_address + 2 ^ nat (48 - m)"
    by blast
  define n where "n = length (mac_prefix val)"
  define d where "d = 12 - n"
  have nd: "n + d = 12" using len by (simp add: n_def d_def)
  have p: "mac_padded val = mac_prefix val @ replicate d CHR ''0''"
    by (simp add: mac_padded_def d_def n_def)
  from mac_padded_shape [OF len] py_int16_drop [OF f]
  obtain k where k: "list_all is_hex (drop k (mac_padded val))"
    "first_address = hex_to_int (drop k (mac_padded val))"
    by blast
  from hex_to_int_drop_pad [of k "mac_prefix val" d] k p
  obtain q where q: "0 \<le> q" "q < 16 ^ n" "first_address = q * 16 ^ d"
    by (auto simp: n_def)
  have full: "(16::int) ^ n * 16 ^ d = 2 ^ 48"
    using nd by (simp flip: power_add)
  have "q * 16 ^ d < 16 ^ n * 16 ^ d" using q(2) by simp
  then have fb: "0 \<le> first_address" "first_address < 2 ^ 48"
    using q(1,3) full by simp_all
  have fl: "first_address < last_address" using l by simp
  have "last_address \<le> 2 ^ 48" if ns: "CHR ''/'' \<notin> set val"
  proof -
    have "m = 48 - int d * 4"
      using m(1) ns length_split_str [of "CHR ''/''" val] by (simp add: mac_mask_def d_def n_def)
    then have e: "nat (48 - m) = 4 * d" by simp
    have "(2::int) ^ nat (48 - m) = 16 ^ d"
      unfolding e by (simp add: power_mult)
    with q(3) l have "last_address = (q + 1) * 16 ^ d"
      by (simp add: algebra_simps)
    also have "\<dots> \<le> 16 ^ n * 16 ^ d"
      using q(2) by (simp add: mult_right_mono)
    finally show ?thesis using full by simp
  qed
  with fb fl show ?thesis by simp
qed

text \<open>The values the examples use.\<close>

lemma to_mac_range_AA_BB_CC:
  "to_mac_range nl ''AA-BB-CC'' =
     Inr (''AA:BB:CC:00:00:00/24'', 187723558158336, 187723574935552)"
  by (rule to_mac_range_hex [where m = 24]) code_simp+

lemma to_mac_range_canonical_AA_BB_CC:
  "to_mac_range nl ''AA:BB:CC:00:00:00/24'' =
     Inl (InvalidMacAddressRange ''AA:BB:CC:00:00:00/24'')"
proof -
  have "length (mac_prefix ''AA:BB:CC:00:00:00/24'') = 12" by code_simp
  then show ?thesis by (simp add: to_mac_range_def)
qed

text \<open>A prefix that is no MAC notation but a decimal number for \<^verbatim>\<open>int\<close>: \<^verbatim>\<open>netaddr.EUI\<close>
  takes the padded prefix \<^verbatim>\<open>+12345000000\<close> as the decimal 12345000000, and
  \<^verbatim>\<open>int(prefix, 16)\<close> takes it as the hexadecimal 0x12345000000.\<close>

lemma to_mac_range_decimal_prefix:
  "to_mac_range nl ''+12345'' = Inr (''00:02:DF:D1:C0:40/24'', 1250993111040, 1251009888256)"
proof -
  have p: "mac_padded ''+12345'' = ''+12345000000''" "length (mac_prefix ''+12345'') = 6"
    "mac_mask ''+12345'' = Some 24"
    by code_simp+
  have "eui48_str_to_int ''+12345000000'' = None" "py_int ''+12345000000'' = Some 12345000000"
    by code_simp+
  then have e: "EUI nl ''+12345000000'' = Inr \<lparr>eui_value = 12345000000, eui_module = EUI48\<rparr>"
    by (simp add: EUI_def)
  have i: "py_int16 ''+12345000000'' = Some 1250993111040" by code_simp
  have s: "replace_char CHR ''-'' CHR '':'' (str_eui48 12345000000) @ CHR ''/'' # str_int 24 =
           ''00:02:DF:D1:C0:40/24''"
    by code_simp
  show ?thesis by (simp add: to_mac_range_def p e i str_EUI_def s)
qed

lemmas act_defs = seq_def ret_def raise_def lift_def invoke_def on_session_def

text \<open>
  Claim C4, as stated: for every MAC-range text the codec accepts, feeding the canonical
  CIDR string it returned back into the codec succeeds and yields the same triple.

  This fails on the code. The canonical string always spells out all six octets, so its
  prefix has twelve hexadecimal digits, and the codec rejects every prefix of more than
  ten digits (\<^verbatim>\<open>test_to_mac_prefix_too_long_fails\<close> expects that of
  \<^verbatim>\<open>AA-BB-CC-DD-EE-F0\<close>). \<^verbatim>\<open>AA-BB-CC\<close> is accepted and its canonical form
  \<^verbatim>\<open>AA:BB:CC:00:00:00/24\<close> is rejected with \<^verbatim>\<open>InvalidMacAddressRange\<close>.
\<close>

theorem to_mac_range_roundtrip_counterexample:
  "to_mac_range mock_lib ''AA-BB-CC'' =
     Inr (''AA:BB:CC:00:00:00/24'', 187723558158336, 187723574935552) \<and>
   to_mac_range mock_lib ''AA:BB:CC:00:00:00/24'' =
     Inl (InvalidMacAddressRange ''AA:BB:CC:00:00:00/24'')"
  by (simp only: to_mac_range_AA_BB_CC to_mac_range_canonical_AA_BB_CC)

text \<open>
  Claim C4, amended: for every MAC-range text the codec accepts, feeding the canonical
  CIDR string it returned back into the codec raises \<^verbatim>\<open>InvalidMacAddressRange\<close>: the
  codec never accepts its own canonical output. This holds whatever \<^verbatim>\<open>netaddr.EUI\<close> made
  of the padded prefix, since the text of an EUI never has fewer than twelve digits.
\<close>

theorem to_mac_range_canonical_rejected:
  assumes "to_mac_range nl val = Inr (canonical, first_address, last_address)"
  shows "to_mac_range nl canonical = Inl (InvalidMacAddressRange canonical)"
proof -
  from to_mac_range_Inr [OF assms] obtain m e where
    "canonical = replace_char CHR ''-'' CHR '':'' (str_EUI e) @ ''/'' @ str_int m"
    by blast
  then have "10 < length (mac_prefix canonical)"
    using canonical_prefix_length by simp
  then show ?thesis by (simp add: to_mac_range_def)
qed

theorem to_mac_range_canonical_rejected_witness:
  "to_mac_range mock_lib ''aa:bb:cc:dd/32'' =
     Inr (''AA:BB:CC:DD:00:00/32'', 187723572641792, 187723572707328) \<and>
   to_mac_range mock_lib ''AA:BB:CC:DD:00:00/32'' =
     Inl (InvalidMacAddressRange ''AA:BB:CC:DD:00:00/32'') \<and>
   to_mac_range mock_lib ''+12345'' =
     Inr (''00:02:DF:D1:C0:40/24'', 1250993111040, 1251009888256) \<and>
   to_mac_range mock_lib ''00:02:DF:D1:C0:40/24'' =
     Inl (InvalidMacAddressRange ''00:02:DF:D1:C0:40/24'')"
proof -
  have h: "to_mac_range mock_lib ''aa:bb:cc:dd/32'' =
           Inr (''AA:BB:CC:DD:00:00/32'', 187723572641792, 187723572707328)"
    by (rule to_mac_range_hex [where m = 32]) code_simp+
  have g: "to_mac_range mock_lib ''+12345'' =
           Inr (''00:02:DF:D1:C0:40/24'', 1250993111040, 1251009888256)"
    by (rule to_mac_range_decimal_prefix)
  from to_mac_range_canonical_rejected [OF h] to_mac_range_canonical_rejected [OF g] h g
  show ?thesis by simp
qed

text \<open>
  Claim C6: the codec applied to \<^verbatim>\<open>AA-BB-CC\<close> returns exactly
  \<^verbatim>\<open>("AA:BB:CC:00:00:00/24", 0xAABBCC000000, 0xAABBCD000000)\<close>; in general, whenever it
  returns, \<^verbatim>\<open>first\<close> is the value of the zero-padded prefix and \<^verbatim>\<open>last\<close> is
  \<^verbatim>\<open>first + 2^(48 - mask)\<close>, where \<^verbatim>\<open>mask\<close> is the integer after the slash or, without a
  slash, four times the number of characters of the prefix.

  The value of the zero-padded prefix is what \<^verbatim>\<open>int(prefix, 16)\<close> reads in the prefix
  padded with \<^verbatim>\<open>0\<close> to twelve characters; for a prefix of \<open>n\<close> hexadecimal digits that is
  the value of the digits times \<open>16^(12 - n)\<close>.
\<close>

theorem to_mac_range_first_and_last:
  "to_mac_range nl ''AA-BB-CC'' =
     Inr (''AA:BB:CC:00:00:00/24'', 0xAABBCC000000, 0xAABBCD000000) \<and>
   (\<forall>val cidr first_address last_address.
      to_mac_range nl val = Inr (cidr, first_address, last_address) \<longrightarrow>
      (\<exists>m. mac_mask val = Some m \<and>
           py_int16 (mac_prefix val @ replicate (12 - length (mac_prefix val)) CHR ''0'') =
             Some first_address \<and>
           last_address = first_address + 2 ^ nat (48 - m)) \<and>
      (list_all is_hex (mac_prefix val) \<longrightarrow>
         first_address = hex_to_int (mac_prefix val) * 16 ^ (12 - length (mac_prefix val))))"
proof (intro conjI allI impI)
  show "to_mac_range nl ''AA-BB-CC'' =
        Inr (''AA:BB:CC:00:00:00/24'', 0xAABBCC000000, 0xAABBCD000000)"
    using to_mac_range_AA_BB_CC [of nl] by simp
next
  fix val cidr first_address last_address
  assume r: "to_mac_range nl val = Inr (cidr, first_address, last_address)"
  from to_mac_range_Inr [OF r]
  show "\<exists>m. mac_mask val = Some m \<and>
           py_int16 (mac_prefix val @ replicate (12 - length (mac_prefix val)) CHR ''0'') =
             Some first_address \<and>
           last_address = first_address + 2 ^ nat (48 - m)"
    by (auto simp: mac_padded_def)
next
  fix val cidr first_address last_address
  assume r: "to_mac_range nl val = Inr (cidr, first_address, last_address)"
    and h: "list_all is_hex (mac_prefix val)"
  from to_mac_range_Inr [OF r] have len: "6 \<le> length (mac_prefix val)"
    and f: "py_int16 (mac_padded val) = Some first_address"
    by auto
  have "list_all is_hex (mac_padded val)" "mac_padded val \<noteq> []"
    using h len by (auto simp: mac_padded_def is_hex_zeros)
  then have "py_int16 (mac_padded val) = Some (hex_to_int (mac_padded val))"
    by (rule py_int16_hex)
  with f have "first_address = hex_to_int (mac_padded val)" by simp
  then show "first_address = hex_to_int (mac_prefix val) * 16 ^ (12 - length (mac_prefix val))"
    by (simp add: mac_padded_def hex_to_int_pad)
qed

theorem to_mac_range_first_and_last_witness:
  "to_mac_range mock_lib ''AA:BB:CC:D/28'' =
     Inr (''AA:BB:CC:D0:00:00/28'', 187723571789824, 187723572838400) \<and>
   mac_mask ''AA:BB:CC:D/28'' = Some 28 \<and>
   py_int16 (''AABBCCD'' @ replicate 5 CHR ''0'') = Some 187723571789824 \<and>
   (187723572838400 :: int) = 187723571789824 + 2 ^ nat (48 - 28) \<and>
   list_all is_hex ''AABBCCD'' \<and>
   (187723571789824 :: int) = hex_to_int ''AABBCCD'' * 16 ^ 5"
proof -
  have h: "to_mac_range mock_lib ''AA:BB:CC:D/28'' =
           Inr (''AA:BB:CC:D0:00:00/28'', 187723571789824, 187723572838400)"
    by (rule to_mac_range_hex [where m = 28]) code_simp+
  have p: "mac_prefix ''AA:BB:CC:D/28'' = ''AABBCCD''" by code_simp
  have x: "list_all is_hex ''AABBCCD''" by code_simp
  have k: "mac_mask ''AA:BB:CC:D/28'' = Some 28" by code_simp
  from to_mac_range_first_and_last [of mock_lib] h
  have "(\<exists>m. mac_mask ''AA:BB:CC:D/28'' = Some m \<and>
           py_int16 (mac_prefix ''AA:BB:CC:D/28'' @
             replicate (12 - length (mac_prefix ''AA:BB:CC:D/28'')) CHR ''0'') =
             Some 187723571789824 \<and>
           (187723572838400 :: int) = 187723571789824 + 2 ^ nat (48 - m)) \<and>
      (list_all is_hex (mac_prefix ''AA:BB:CC:D/28'') \<longrightarrow>
         (187723571789824 :: int) =
           hex_to_int (mac_prefix ''AA:BB:CC:D/28'') *
           16 ^ (12 - length (mac_prefix ''AA:BB:CC:D/28'')))"
    by blast
  with h p x k show ?thesis by simp
qed

text \<open>
  Claim C7, as stated: whenever the codec returns, \<^verbatim>\<open>first_address < last_address\<close> and
  both bounds are strictly below \<open>2^48\<close>, and every range created from the codec's
  output satisfies this.

  The bound on \<^verbatim>\<open>last_address\<close> fails on the code: \<^verbatim>\<open>last\<close> is \<^verbatim>\<open>first + 2^(48 - mask)\<close>,
  the first address after the range, and the mask is not checked against the prefix.
  \<^verbatim>\<open>FF:FF:FF\<close> gives \<^verbatim>\<open>last = 2^48\<close>, and \<^verbatim>\<open>AA:BB:CC/0\<close> gives \<^verbatim>\<open>last = first + 2^48\<close>.
\<close>

theorem to_mac_range_last_address_counterexample:
  "to_mac_range mock_lib ''FF:FF:FF'' =
     Inr (''FF:FF:FF:00:00:00/24'', 281474959933440, 281474976710656) \<and>
   \<not> (281474976710656 < (2 :: int) ^ 48) \<and>
   to_mac_range mock_lib ''AA:BB:CC/0'' =
     Inr (''AA:BB:CC:00:00:00/0'', 187723558158336, 469198534868992) \<and>
   \<not> (469198534868992 < (2 :: int) ^ 48)"
proof -
  have "to_mac_range mock_lib ''FF:FF:FF'' =
     Inr (''FF:FF:FF:00:00:00/24'', 281474959933440, 281474976710656)"
    by (rule to_mac_range_hex [where m = 24]) code_simp+
  moreover have "to_mac_range mock_lib ''AA:BB:CC/0'' =
     Inr (''AA:BB:CC:00:00:00/0'', 187723558158336, 469198534868992)"
    by (rule to_mac_range_hex [where m = 0]) code_simp+
  ultimately show ?thesis by simp
qed

text \<open>
  Claim C7, amended: whenever the codec returns, \<^verbatim>\<open>first_address < last_address\<close> and
  \<^verbatim>\<open>0 <= first_address < 2^48\<close>; \<^verbatim>\<open>last_address\<close> is at most \<open>2^48\<close> when the text has
  no explicit mask, and is not bounded otherwise. \<^verbatim>\<open>create_mac_address_range\<close>, when it
  returns, has passed exactly the codec's triple to \<^verbatim>\<open>mac_address_range_create\<close>, so the
  range it creates has these properties.
\<close>

theorem to_mac_range_invariant:
  "(to_mac_range nl val = Inr (cidr, first_address, last_address) \<longrightarrow>
      first_address < last_address \<and> 0 \<le> first_address \<and> first_address < 2 ^ 48 \<and>
      (CHR ''/'' \<notin> set val \<longrightarrow> last_address \<le> 2 ^ 48)) \<and>
   (create_mac_address_range env val w = (Inr d, w') \<longrightarrow>
      (\<exists>c f l. to_mac_range (lib env) val = Inr (c, f, l) \<and>
         calls w' = calls w @ [Mac_address_range_create c f l] \<and>
         f < l \<and> 0 \<le> f \<and> f < 2 ^ 48 \<and> (CHR ''/'' \<notin> set val \<longrightarrow> l \<le> 2 ^ 48)))"
proof (rule conjI)
  show "to_mac_range nl val = Inr (cidr, first_address, last_address) \<longrightarrow>
      first_address < last_address \<and> 0 \<le> first_address \<and> first_address < 2 ^ 48 \<and>
      (CHR ''/'' \<notin> set val \<longrightarrow> last_address \<le> 2 ^ 48)"
    using to_mac_range_bounds by blast
next
  show "create_mac_address_range env val w = (Inr d, w') \<longrightarrow>
      (\<exists>c f l. to_mac_range (lib env) val = Inr (c, f, l) \<and>
         calls w' = calls w @ [Mac_address_range_create c f l] \<and>
         f < l \<and> 0 \<le> f \<and> f < 2 ^ 48 \<and> (CHR ''/'' \<notin> set val \<longrightarrow> l \<le> 2 ^ 48))"
  proof
    assume r: "create_mac_address_range env val w = (Inr d, w')"
    then obtain c f l where t: "to_mac_range (lib env) val = Inr (c, f, l)"
      by (cases "to_mac_range (lib env) val")
        (auto simp: create_mac_address_range_def act_defs)
    from r t have "calls w' = calls w @ [Mac_address_range_create c f l]"
      by (auto simp: create_mac_address_range_def act_defs split: prod.splits sum.splits)
    with t to_mac_range_bounds [OF t]
    show "\<exists>c f l. to_mac_range (lib env) val = Inr (c, f, l) \<and>
           calls w' = calls w @ [Mac_address_range_create c f l] \<and>
           f < l \<and> 0 \<le> f \<and> f < 2 ^ 48 \<and> (CHR ''/'' \<notin> set val \<longrightarrow> l \<le> 2 ^ 48)"
      by blast
  qed
qed

theorem to_mac_range_invariant_witness:
  "to_mac_range mock_lib ''AA:BB:CC'' =
     Inr (''AA:BB:CC:00:00:00/24'', 187723558158336, 187723574935552) \<and>
   (187723558158336 :: int) < 187723574935552 \<and> (187723558158336 :: int) < 2 ^ 48 \<and>
   CHR ''/'' \<notin> set ''AA:BB:CC'' \<and> (187723574935552 :: int) \<le> 2 ^ 48 \<and>
   create_mac_address_range mock_mac_ranges ''AA:BB:CC'' start =
     (Inr \<lparr>mrd_id = ''1'', mrd_cidr = ''AA:BB:CC:00:00:00/24''\<rparr>,
      \<lparr>calls = [Mac_address_range_create ''AA:BB:CC:00:00:00/24'' 187723558158336 187723574935552],
       session = empty_session\<rparr>)"
proof -
  have h: "to_mac_range mock_lib ''AA:BB:CC'' =
           Inr (''AA:BB:CC:00:00:00/24'', 187723558158336, 187723574935552)"
    by (rule to_mac_range_hex [where m = 24]) code_simp+
  have l: "lib mock_mac_ranges = mock_lib" by (simp add: mock_mac_ranges_def mock_def)
  have c: "create_mac_address_range mock_mac_ranges ''AA:BB:CC'' start =
     (Inr \<lparr>mrd_id = ''1'', mrd_cidr = ''AA:BB:CC:00:00:00/24''\<rparr>,
      \<lparr>calls = [Mac_address_range_create ''AA:BB:CC:00:00:00/24'' 187723558158336 187723574935552],
       session = empty_session\<rparr>)"
    by (simp add: create_mac_address_range_def act_defs l h)
      (simp add: act_defs mock_mac_ranges_def mock_def answer_def start_def
        make_mac_range_dict_def)
  from to_mac_range_invariant [of mock_lib "''AA:BB:CC''" _ _ _ mock_mac_ranges start] h c
  show ?thesis by simp
qed

section \<open>Facts about sequencing and the trace\<close>

lemma seq_Inr: "m w = (Inr v, w1) \<Longrightarrow> seq m f w = f v w1"
  by (simp add: seq_def)

lemma seq_Inl: "m w = (Inl e, w1) \<Longrightarrow> seq m f w = (Inl e, w1)"
  by (simp add: seq_def)

text \<open>A sequence that returns went through both of its parts.\<close>

lemma seq_returns:
  assumes "seq m f w = (Inr v, w')"
  obtains x w1 where "m w = (Inr x, w1)" "f x w1 = (Inr v, w')"
  using assms by (auto simp: seq_def split: prod.splits sum.splits)

lemma invoke_result:
  "f (session w) = (r, s') \<Longrightarrow> invoke c f w = (r, \<lparr>calls = calls w @ [c], session = s'\<rparr>)"
  by (simp add: invoke_def)

lemma invoke_calls: "invoke c f w = (r, w') \<Longrightarrow> calls w' = calls w @ [c]"
  by (auto simp: invoke_def split: prod.splits)

lemma lift_world: "lift r w = (r', w') \<Longrightarrow> w' = w \<and> r' = r"
  by (simp add: lift_def)

lemma ret_world: "ret v w = (r, w') \<Longrightarrow> w' = w \<and> r = Inr v"
  by (simp add: ret_def)

lemma new_calls_append: "calls w' = calls w @ cs \<Longrightarrow> new_calls w w' = cs"
  by (simp add: new_calls_def)

section \<open>Port creation and deletion\<close>

text \<open>
  Claim C1, as stated: whenever IP allocation succeeds and the following MAC allocation
  fails, \<^verbatim>\<open>create_port\<close> deallocates the just-allocated IP address before the error
  reaches the caller, so that no orphaned active address remains.

  This fails on the code: \<^verbatim>\<open>create_port\<close> has no handler around the two allocations.
  With an IPAM double that records the addresses it has handed out and raises
  \<^verbatim>\<open>MacAddressGenerationFailure\<close> for the MAC, the call raises that error, the last
  collaborator it called is \<^verbatim>\<open>allocate_mac_address\<close> (no deallocator is called), and
  the address \<^verbatim>\<open>ip-1\<close> is still active.
\<close>

theorem create_port_orphaned_ip_counterexample:
  "fst (create_port mock_mac_exhausted port_body start) =
     Inl (MacAddressGenerationFailure ''net-1'') \<and>
   calls (snd (create_port mock_mac_exhausted port_body start)) =
     [Generate_uuid, Network_find ''net-1'', Allocate_ip_address ''net-1'' ''port-1'' 7200,
      Allocate_mac_address ''net-1'' ''port-1'' 7200] \<and>
   active_ips (ext (session (snd (create_port mock_mac_exhausted port_body start)))) = [''ip-1'']"
  by (simp add: create_port_def act_defs mock_mac_exhausted_def mock_def answer_def
      ipam_allocate_ip_def ipam_no_mac_def port_body_def start_def empty_session_def
      net1_def ip1_def)

text \<open>
  Claim C1, amended: whenever IP allocation succeeds and the following MAC allocation
  fails, \<^verbatim>\<open>create_port\<close> propagates the MAC-allocation error at once. It calls no
  collaborator after the failed \<^verbatim>\<open>allocate_mac_address\<close>, in particular no deallocator,
  and leaves the collaborators' state as the failed allocation left it: the
  just-allocated IP address stays allocated.
\<close>

theorem create_port_mac_failure:
  assumes "generate_uuid env s = (Inr port_id, s1)"
    and "network_find_all env (cp_network_id p) s1 = (Inr net, s2)"
    and "net \<noteq> []"
    and "allocate_ip_address env (cp_network_id p) port_id (ipam_reuse_after env) s2 =
           (Inr address, s3)"
    and "allocate_mac_address env (cp_network_id p) port_id (ipam_reuse_after env) s3 =
           (Inl e, s4)"
  shows "create_port env p \<lparr>calls = cs, session = s\<rparr> =
           (Inl e,
            \<lparr>calls = cs @ [Generate_uuid, Network_find (cp_network_id p),
                           Allocate_ip_address (cp_network_id p) port_id (ipam_reuse_after env),
                           Allocate_mac_address (cp_network_id p) port_id (ipam_reuse_after env)],
             session = s4\<rparr>)"
  using assms by (simp add: create_port_def act_defs)

theorem create_port_mac_failure_witness:
  "create_port mock_mac_exhausted port_body \<lparr>calls = [], session = empty_session\<rparr> =
     (Inl (MacAddressGenerationFailure ''net-1''),
      \<lparr>calls = [] @ [Generate_uuid, Network_find ''net-1'',
                     Allocate_ip_address ''net-1'' ''port-1'' 7200,
                     Allocate_mac_address ''net-1'' ''port-1'' 7200],
       session = empty_session\<lparr>ext := \<lparr>active_ips = [''ip-1''], active_macs = []\<rparr>\<rparr>\<rparr>)"
proof -
  let ?s3 = "empty_session\<lparr>ext := \<lparr>active_ips = [''ip-1''], active_macs = []\<rparr>\<rparr>"
  have 1: "generate_uuid mock_mac_exhausted empty_session = (Inr ''port-1'', empty_session)"
    by (simp add: mock_mac_exhausted_def mock_def answer_def)
  have 2: "network_find_all mock_mac_exhausted (cp_network_id port_body) empty_session =
             (Inr [net1], empty_session)"
    by (simp add: mock_mac_exhausted_def mock_def answer_def)
  have 3: "[net1] \<noteq> []" by simp
  have 4: "allocate_ip_address mock_mac_exhausted (cp_network_id port_body) ''port-1''
             (ipam_reuse_after mock_mac_exhausted) empty_session = (Inr ip1, ?s3)"
    by (simp add: mock_mac_exhausted_def mock_def ipam_allocate_ip_def empty_session_def ip1_def)
  have 5: "allocate_mac_address mock_mac_exhausted (cp_network_id port_body) ''port-1''
             (ipam_reuse_after mock_mac_exhausted) ?s3 =
             (Inl (MacAddressGenerationFailure ''net-1''), ?s3)"
    by (simp add: mock_mac_exhausted_def mock_def ipam_no_mac_def port_body_def)
  have r: "ipam_reuse_after mock_mac_exhausted = 7200" "cp_network_id port_body = ''net-1''"
    by (simp_all add: mock_mac_exhausted_def mock_def port_body_def)
  from create_port_mac_failure [OF 1 2 3 4 5, of "[]"] show ?thesis
    by (simp add: r)
qed

text \<open>
  Claim C2, as stated: on deletion of an existing port both deallocators are invoked
  unconditionally; a failure of one does not prevent the other, and both failures are
  collected and surfaced together.

  This fails on the code: \<^verbatim>\<open>delete_port\<close> calls the MAC deallocator and then the IP
  deallocator with no handler. With a MAC deallocator that raises, the call raises that
  error after two collaborator calls, \<^verbatim>\<open>port_find\<close> and \<^verbatim>\<open>deallocate_mac_address\<close>: the
  IP deallocator is not invoked and the port's address \<^verbatim>\<open>ip-1\<close> is still active.
\<close>

theorem delete_port_skips_ip_counterexample:
  "fst (delete_port mock_mac_dealloc_fails ''port-1'' allocated) =
     Inl (BackendFailure ''deallocate_mac_address'') \<and>
   calls (snd (delete_port mock_mac_dealloc_fails ''port-1'' allocated)) =
     [Port_find ''port-1'', Deallocate_mac_address 187723558158337] \<and>
   active_ips (ext (session (snd (delete_port mock_mac_dealloc_fails ''port-1'' allocated)))) =
     [''ip-1'']"
  by (simp add: delete_port_def act_defs mock_mac_dealloc_fails_def mock_def answer_def
      unexpected_def allocated_def empty_session_def port1_def EUI_int_def Let_def)

text \<open>
  Claim C2, amended: on deletion of an existing port whose stored MAC address is an
  integer \<^verbatim>\<open>netaddr.EUI\<close> accepts (\<open>0\<close> to \<open>2^64 - 1\<close>), the MAC deallocator is invoked
  first, with that integer, and the IP deallocator is invoked after it only if the MAC
  deallocator returned. A failure deallocating the MAC address propagates at once: the IP
  addresses are not deallocated and nothing else is called. A failure deallocating the
  IP addresses propagates after the MAC address was deallocated, and nothing else is
  called. Only that one failure is surfaced; none is collected. When both return, the
  port row is deleted next. For any other stored MAC value the error of \<^verbatim>\<open>netaddr.EUI\<close>
  propagates right after the lookup and neither deallocator is called.
\<close>

theorem delete_port_deallocation_order:
  assumes "port_find_one env id' s = (Inr (Some port), s1)"
    and "deallocate_mac_address env (p_mac_address port) s1 = (r1, s2)"
    and "deallocate_ip_address env port (ipam_reuse_after env) s2 = (r2, s3)"
  shows "if 0 \<le> p_mac_address port \<and> p_mac_address port < 2 ^ 64 then
           (case r1 of
              Inl e \<Rightarrow>
                delete_port env id' \<lparr>calls = cs, session = s\<rparr> =
                  (Inl e,
                   \<lparr>calls = cs @ [Port_find id', Deallocate_mac_address (p_mac_address port)],
                    session = s2\<rparr>)
            | Inr _ \<Rightarrow>
                (case r2 of
                   Inl e \<Rightarrow>
                     delete_port env id' \<lparr>calls = cs, session = s\<rparr> =
                       (Inl e,
                        \<lparr>calls = cs @ [Port_find id', Deallocate_mac_address (p_mac_address port),
                                       Deallocate_ip_address port (ipam_reuse_after env)],
                         session = s3\<rparr>)
                 | Inr _ \<Rightarrow>
                     take (length cs + 4)
                       (calls (snd (delete_port env id' \<lparr>calls = cs, session = s\<rparr>))) =
                       cs @ [Port_find id', Deallocate_mac_address (p_mac_address port),
                             Deallocate_ip_address port (ipam_reuse_after env),
                             Port_delete port]))
         else
           delete_port env id' \<lparr>calls = cs, session = s\<rparr> =
             (Inl (EUI_int_error (lib env) (p_mac_address port)),
              \<lparr>calls = cs @ [Port_find id'], session = s1\<rparr>)"
proof (cases "0 \<le> p_mac_address port \<and> p_mac_address port < 2 ^ 64")
  case True
  then have "\<exists>m. EUI_int (lib env) (p_mac_address port) =
      Inr \<lparr>eui_value = p_mac_address port, eui_module = m\<rparr>"
    by (cases "p_mac_address port < 2 ^ 48") (simp_all add: EUI_int_def)
  then obtain m where "EUI_int (lib env) (p_mac_address port) =
      Inr \<lparr>eui_value = p_mac_address port, eui_module = m\<rparr>"
    by blast
  with True assms show ?thesis
    by (auto simp: delete_port_def act_defs Let_def split: sum.splits prod.splits)
next
  case False
  then have "EUI_int (lib env) (p_mac_address port) =
      Inl (EUI_int_error (lib env) (p_mac_address port))"
    by (auto simp: EUI_int_def)
  with False assms have "delete_port env id' \<lparr>calls = cs, session = s\<rparr> =
             (Inl (EUI_int_error (lib env) (p_mac_address port)),
              \<lparr>calls = cs @ [Port_find id'], session = s1\<rparr>)"
    by (simp add: delete_port_def act_defs)
  with False show ?thesis by (simp only: if_False)
qed

theorem delete_port_deallocation_order_witness:
  "delete_port mock_ip_dealloc_fails ''port-1'' \<lparr>calls = [], session = session allocated\<rparr> =
     (Inl (BackendFailure ''deallocate_ip_address''),
      \<lparr>calls = [] @ [Port_find ''port-1'', Deallocate_mac_address 187723558158337,
                     Deallocate_ip_address port1 7200],
       session = empty_session\<lparr>ext := \<lparr>active_ips = [''ip-1''], active_macs = []\<rparr>\<rparr>\<rparr>)"
proof -
  let ?s2 = "empty_session\<lparr>ext := \<lparr>active_ips = [''ip-1''], active_macs = []\<rparr>\<rparr>"
  have 1: "port_find_one mock_ip_dealloc_fails ''port-1'' (session allocated) =
             (Inr (Some port1), session allocated)"
    by (simp add: mock_ip_dealloc_fails_def mock_def answer_def)
  have 2: "p_mac_address port1 = 187723558158337"
    by (simp add: port1_def)
  have 3: "deallocate_mac_address mock_ip_dealloc_fails (p_mac_address port1) (session allocated) =
             (Inr (), ?s2)"
    by (simp add: mock_ip_dealloc_fails_def mock_def ipam_deallocate_mac_def allocated_def
        empty_session_def port1_def)
  have 4: "deallocate_ip_address mock_ip_dealloc_fails port1
             (ipam_reuse_after mock_ip_dealloc_fails) ?s2 =
             (Inl (BackendFailure ''deallocate_ip_address''), ?s2)"
    by (simp add: mock_ip_dealloc_fails_def mock_def unexpected_def)
  have r: "ipam_reuse_after mock_ip_dealloc_fails = 7200"
    by (simp add: mock_ip_dealloc_fails_def mock_def)
  from delete_port_deallocation_order [OF 1 3 4, of "[]"] show ?thesis
    by (simp add: r 2)
qed

text \<open>A stored MAC address beyond 48 bits is an EUI-64 for \<^verbatim>\<open>netaddr.EUI\<close>, and
  \<^verbatim>\<open>delete_port\<close> goes on to both deallocators.\<close>

lemma delete_port_eui64_mac:
  "calls (snd (delete_port
      (mock_ip_dealloc_fails
         \<lparr>port_find_one := (\<lambda>_. answer (Some (port1\<lparr>p_mac_address := 281474976710656\<rparr>)))\<rparr>)
      ''port-1'' allocated)) =
     [Port_find ''port-1'', Deallocate_mac_address 281474976710656,
      Deallocate_ip_address (port1\<lparr>p_mac_address := 281474976710656\<rparr>) 7200]"
  by (simp add: delete_port_def act_defs EUI_int_def Let_def mock_ip_dealloc_fails_def
      mock_def answer_def unexpected_def ipam_deallocate_mac_def allocated_def)

section \<open>Route creation\<close>

lemma net_eq_in: "net_eq a b \<Longrightarrow> net_in a b"
  by (simp add: net_eq_def net_in_def)

text \<open>The loop over the subnet's routes stops at the first route that overlaps.\<close>

lemma check_route_conflict_overlap:
  assumes "list_all (\<lambda>r. parses l (r_cidr r)) routes"
    and "existing \<in> set routes"
    and "IPNetwork l (r_cidr existing) = Inr existing_cidr"
    and "net_in route_cidr existing_cidr \<or> net_in existing_cidr route_cidr"
  shows "\<exists>c \<in> set routes. check_route_conflict l route_cidr routes = Inl (RouteConflict (r_id c) route_cidr)"
  using assms
proof (induction routes)
  case Nil
  then show ?case by simp
next
  case (Cons a routes)
  from Cons.prems(1) obtain n where n: "IPNetwork l (r_cidr a) = Inr n"
    by (auto simp: parses_def split: sum.splits)
  show ?case
  proof (cases "net_in route_cidr n \<or> net_in n route_cidr")
    case True
    with n show ?thesis by auto
  next
    case False
    with n Cons.prems have "existing \<in> set routes" by auto
    with Cons False n show ?thesis by auto
  qed
qed

text \<open>
  Once its subnet lookup has returned something, \<^verbatim>\<open>create_route\<close> raises
  \<^verbatim>\<open>RouteConflict\<close> for a destination that equals, contains or is contained in the
  destination of a route the subnet has (the stored destinations being texts netaddr
  accepts), after the two finds and without calling \<^verbatim>\<open>route_create\<close>.
\<close>

lemma create_route_conflict_after_lookup:
  assumes "subnet_find_all env Builtin_id s = (Inr subnet, s1)"
    and "subnet \<noteq> []"
    and "IPNetwork (lib env) (rb_cidr route) = Inr route_cidr"
    and "route_find_all env (rb_subnet_id route) s1 = (Inr subnet_routes, s2)"
    and "list_all (\<lambda>r. parses (lib env) (r_cidr r)) subnet_routes"
    and "existing \<in> set subnet_routes"
    and "IPNetwork (lib env) (r_cidr existing) = Inr existing_cidr"
    and "net_eq route_cidr existing_cidr \<or> net_in route_cidr existing_cidr \<or>
         net_in existing_cidr route_cidr"
  shows "\<exists>conflicting \<in> set subnet_routes.
           create_route env route \<lparr>calls = cs, session = s\<rparr> =
             (Inl (RouteConflict (r_id conflicting) route_cidr),
              \<lparr>calls = cs @ [Subnet_find Builtin_id, Route_find_all (rb_subnet_id route)],
               session = s2\<rparr>)"
proof -
  from assms(8) have "net_in route_cidr existing_cidr \<or> net_in existing_cidr route_cidr"
    using net_eq_in by blast
  from check_route_conflict_overlap [OF assms(5,6,7) this]
  obtain c where c: "c \<in> set subnet_routes"
    "check_route_conflict (lib env) route_cidr subnet_routes = Inl (RouteConflict (r_id c) route_cidr)"
    by blast
  from assms(1-4) c(2)
  have "create_route env route \<lparr>calls = cs, session = s\<rparr> =
             (Inl (RouteConflict (r_id c) route_cidr),
              \<lparr>calls = cs @ [Subnet_find Builtin_id, Route_find_all (rb_subnet_id route)],
               session = s2\<rparr>)"
    by (simp add: create_route_def act_defs)
  with c(1) show ?thesis by blast
qed

lemma IPNetwork_default:
  "IPNetwork l ''0.0.0.0/0'' = Inr \<lparr>version = 4, ip_value = 0, prefixlen = 0\<rparr>"
proof -
  have o: "dec_octet ''0'' = Some 0"
    by (simp add: dec_octet_def is_digit_def dec_to_int_def)
  have p: "parse_ipv4 ''0.0.0.0'' = Some 0"
    by (simp add: parse_ipv4_def o)
  have i: "py_int ''0'' = Some 0"
    by (simp add: py_int_def py_strip_def is_space_def is_digit_def dec_to_int_def)
  show ?thesis by (simp add: IPNetwork_def p i)
qed

text \<open>With the fixed answers of a mock, as in the repository's tests, the lookup returns
  the subnet whatever it is asked for, and the conflict is found.\<close>

lemma create_route_conflict_after_lookup_example:
  "create_route mock_routes
     \<lparr>rb_subnet_id = ''subnet-1'', rb_cidr = ''0.0.0.0/0'', rb_gateway = Some ''10.0.0.5''\<rparr>
     \<lparr>calls = [], session = empty_session\<rparr> =
   (Inl (RouteConflict ''route-1'' \<lparr>version = 4, ip_value = 0, prefixlen = 0\<rparr>),
    \<lparr>calls = [] @ [Subnet_find Builtin_id, Route_find_all ''subnet-1''],
     session = empty_session\<rparr>)"
proof -
  let ?route = "\<lparr>rb_subnet_id = ''subnet-1'', rb_cidr = ''0.0.0.0/0'', rb_gateway = Some ''10.0.0.5''\<rparr>"
  let ?d = "\<lparr>version = 4, ip_value = 0, prefixlen = 0\<rparr>"
  have 1: "subnet_find_all mock_routes Builtin_id empty_session = (Inr [subnet1], empty_session)"
    by (simp add: mock_routes_def mock_def answer_def)
  have 2: "[subnet1] \<noteq> []" by simp
  have 3: "IPNetwork (lib mock_routes) (rb_cidr ?route) = Inr ?d"
    by (simp add: IPNetwork_default)
  have 4: "route_find_all mock_routes (rb_subnet_id ?route) empty_session =
             (Inr [route1], empty_session)"
    by (simp add: mock_routes_def mock_def answer_def)
  have 5: "list_all (\<lambda>r. parses (lib mock_routes) (r_cidr r)) [route1]"
    by (simp add: parses_def route1_def IPNetwork_default)
  have 6: "route1 \<in> set [route1]" by simp
  have 7: "IPNetwork (lib mock_routes) (r_cidr route1) = Inr ?d"
    by (simp add: route1_def IPNetwork_default)
  have 8: "net_eq ?d ?d \<or> net_in ?d ?d \<or> net_in ?d ?d"
    by (simp add: net_eq_def)
  from create_route_conflict_after_lookup [OF 1 2 3 4 5 6 7 8, of "[]"] show ?thesis
    by (simp add: route1_def)
qed

text \<open>The lookup that decides whether the subnet exists is
  \<^verbatim>\<open>db_api.subnet_find(context, id=id)\<close>. \<^verbatim>\<open>create_route\<close> has no parameter or local named
  \<^verbatim>\<open>id\<close>, so the filter value is Python's builtin function, not \<^verbatim>\<open>subnet_id\<close>. When that
  lookup finds nothing, the call raises \<^verbatim>\<open>SubnetNotFound\<close> and reads no route.\<close>

lemma create_route_subnet_not_found:
  assumes "subnet_find_all env Builtin_id s = (Inr [], s1)"
  shows "create_route env route \<lparr>calls = cs, session = s\<rparr> =
           (Inl (SubnetNotFound (rb_subnet_id route)),
            \<lparr>calls = cs @ [Subnet_find Builtin_id], session = s1\<rparr>)"
  using assms by (simp add: create_route_def act_defs)

text \<open>
  Claim C3, evaluated: for every existing subnet, creating a route whose destination
  equals, contains or is contained in the destination of a route of that subnet fails
  with \<^verbatim>\<open>RouteConflict\<close>; in particular \<^verbatim>\<open>0.0.0.0/0 -> 10.0.0.5\<close> on a subnet that has
  \<^verbatim>\<open>0.0.0.0/0 -> 10.0.0.1\<close>.

  The persistence layer holds the subnet \<^verbatim>\<open>subnet-1\<close> with the route
  \<^verbatim>\<open>0.0.0.0/0 -> 10.0.0.1\<close> and answers each lookup by the filter it is given: asked for
  the subnet with id \<^verbatim>\<open>subnet-1\<close> it returns the subnet, asked for the routes of
  \<^verbatim>\<open>subnet-1\<close> it returns the route. \<^verbatim>\<open>create_route\<close> for \<^verbatim>\<open>0.0.0.0/0 -> 10.0.0.5\<close> on
  \<^verbatim>\<open>subnet-1\<close> raises \<^verbatim>\<open>SubnetNotFound\<close>, not \<^verbatim>\<open>RouteConflict\<close>: its only call is the
  subnet lookup with the builtin \<^verbatim>\<open>id\<close> as filter, which matches no subnet.
\<close>

theorem create_route_existing_subnet_not_found:
  "subnet_find_all mock_routes_by_id (Id ''subnet-1'') empty_session =
     (Inr [subnet1], empty_session) \<and>
   route_find_all mock_routes_by_id ''subnet-1'' empty_session =
     (Inr [route1], empty_session) \<and>
   create_route mock_routes_by_id
     \<lparr>rb_subnet_id = ''subnet-1'', rb_cidr = ''0.0.0.0/0'', rb_gateway = Some ''10.0.0.5''\<rparr>
     \<lparr>calls = [], session = empty_session\<rparr> =
   (Inl (SubnetNotFound ''subnet-1''),
    \<lparr>calls = [Subnet_find Builtin_id], session = empty_session\<rparr>)"
  by (simp add: create_route_def act_defs mock_routes_by_id_def subnets_by_id_def mock_def
      answer_def subnet1_def route1_def)

section \<open>Deleting subnets and networks\<close>

lemma delete_subnet_internal_in_use:
  "s_allocated_ips subnet \<noteq> [] \<Longrightarrow>
     delete_subnet_internal env subnet w = (Inl (SubnetInUse (s_id subnet)), w)"
  by (simp add: delete_subnet_internal_def raise_def)

lemma delete_subnet_internal_trace:
  assumes "delete_subnet_internal env sub w = (r, w')"
  shows "\<exists>cs. calls w' = calls w @ cs \<and> (\<forall>x. Subnet_delete x \<in> set cs \<longrightarrow> s_allocated_ips x = [])"
proof (cases "s_allocated_ips sub = []")
  case True
  with assms have "invoke (Subnet_delete sub) (subnet_delete env sub) w = (r, w')"
    by (simp add: delete_subnet_internal_def)
  then have "calls w' = calls w @ [Subnet_delete sub]"
    by (rule invoke_calls)
  with True have "calls w' = calls w @ [Subnet_delete sub] \<and>
      (\<forall>x. Subnet_delete x \<in> set [Subnet_delete sub] \<longrightarrow> s_allocated_ips x = [])"
    by simp
  then show ?thesis by (rule exI)
next
  case False
  with assms have "calls w' = calls w @ [] \<and>
      (\<forall>x. Subnet_delete x \<in> set [] \<longrightarrow> s_allocated_ips x = [])"
    by (simp add: delete_subnet_internal_def raise_def)
  then show ?thesis by (rule exI)
qed

lemma delete_subnets_trace:
  "delete_subnets env subs w = (r, w') \<Longrightarrow>
     \<exists>cs. calls w' = calls w @ cs \<and> (\<forall>x. Subnet_delete x \<in> set cs \<longrightarrow> s_allocated_ips x = [])"
proof (induction subs arbitrary: w)
  case Nil
  then have "calls w' = calls w @ [] \<and>
      (\<forall>x. Subnet_delete x \<in> set [] \<longrightarrow> s_allocated_ips x = [])"
    by (simp add: ret_def)
  then show ?case by (rule exI)
next
  case (Cons sub subs)
  obtain r0 w0 where h: "delete_subnet_internal env sub w = (r0, w0)" by fastforce
  from delete_subnet_internal_trace [OF h] obtain cs0 where
    cs0: "calls w0 = calls w @ cs0" "\<forall>x. Subnet_delete x \<in> set cs0 \<longrightarrow> s_allocated_ips x = []"
    by blast
  show ?case
  proof (cases r0)
    case (Inl e)
    with h Cons.prems have "w' = w0" by (simp add: seq_def)
    with cs0 have "calls w' = calls w @ cs0 \<and>
        (\<forall>x. Subnet_delete x \<in> set cs0 \<longrightarrow> s_allocated_ips x = [])"
      by simp
    then show ?thesis by (rule exI)
  next
    case (Inr u)
    with h Cons.prems have "delete_subnets env subs w0 = (r, w')" by (simp add: seq_def)
    from Cons.IH [OF this] obtain cs1 where
      "calls w' = calls w0 @ cs1" "\<forall>x. Subnet_delete x \<in> set cs1 \<longrightarrow> s_allocated_ips x = []"
      by blast
    with cs0 have "calls w' = calls w @ (cs0 @ cs1) \<and>
        (\<forall>x. Subnet_delete x \<in> set (cs0 @ cs1) \<longrightarrow> s_allocated_ips x = [])"
      by auto
    then show ?thesis by (rule exI)
  qed
qed

text \<open>The loop of \<^verbatim>\<open>delete_network\<close> that has deleted the subnets before a subnet in use
  stops there.\<close>

lemma delete_subnets_reach:
  "delete_subnets env before w = (Inr (), w1) \<Longrightarrow> s_allocated_ips subnet \<noteq> [] \<Longrightarrow>
     delete_subnets env (before @ subnet # after) w = (Inl (SubnetInUse (s_id subnet)), w1)"
proof (induction before arbitrary: w)
  case Nil
  then show ?case
    by (simp add: ret_def seq_def delete_subnet_internal_in_use)
next
  case (Cons b before)
  from Cons.prems(1)
  have "seq (delete_subnet_internal env b) (\<lambda>_. delete_subnets env before) w = (Inr (), w1)"
    by simp
  then obtain x w0 where
    x: "delete_subnet_internal env b w = (Inr x, w0)" "delete_subnets env before w0 = (Inr (), w1)"
    by (rule seq_returns)
  from Cons.IH [OF x(2) Cons.prems(2)] x(1) show ?case by (simp add: seq_def)
qed

lemma delete_network_trace:
  assumes "delete_network env id' w = (r, w')"
  shows "\<exists>cs. calls w' = calls w @ cs \<and> (\<forall>x. Subnet_delete x \<in> set cs \<longrightarrow> s_allocated_ips x = [])"
proof -
  obtain r0 w0 where f: "invoke (Network_find id') (network_find_one env id') w = (r0, w0)"
    by fastforce
  then have c0: "calls w0 = calls w @ [Network_find id']" by (rule invoke_calls)
  have stop: ?thesis if "calls w' = calls w0"
  proof -
    from that c0 have "calls w' = calls w @ [Network_find id'] \<and>
        (\<forall>x. Subnet_delete x \<in> set [Network_find id'] \<longrightarrow> s_allocated_ips x = [])"
      by simp
    then show ?thesis by (rule exI)
  qed
  show ?thesis
  proof (cases r0)
    case (Inl e)
    with f assms have "w' = w0" by (simp add: delete_network_def seq_def)
    then show ?thesis using stop by simp
  next
    case (Inr found)
    show ?thesis
    proof (cases found)
      case None
      with Inr f assms have "w' = w0" by (simp add: delete_network_def seq_def raise_def)
      then show ?thesis using stop by simp
    next
      case (Some net)
      show ?thesis
      proof (cases "n_ports net = []")
        case False
        with Some Inr f assms have "w' = w0" by (simp add: delete_network_def seq_def raise_def)
        then show ?thesis using stop by simp
      next
        case True
        obtain r1 w1 where d: "invoke (Driver_delete_network id') (driver_delete_network env id') w0 = (r1, w1)"
          by fastforce
        then have c1: "calls w1 = calls w0 @ [Driver_delete_network id']" by (rule invoke_calls)
        show ?thesis
        proof (cases r1)
          case (Inl e)
          with d True Some Inr f assms have "w' = w1" by (simp add: delete_network_def seq_def)
          with c0 c1 have "calls w' = calls w @ [Network_find id', Driver_delete_network id'] \<and>
              (\<forall>x. Subnet_delete x \<in> set [Network_find id', Driver_delete_network id'] \<longrightarrow>
                 s_allocated_ips x = [])"
            by simp
          then show ?thesis by (rule exI)
        next
          case (Inr u)
          obtain r2 w2 where l: "delete_subnets env (n_subnets net) w1 = (r2, w2)" by fastforce
          from delete_subnets_trace [OF l] obtain cs2 where
            c2: "calls w2 = calls w1 @ cs2" "\<forall>x. Subnet_delete x \<in> set cs2 \<longrightarrow> s_allocated_ips x = []"
            by blast
          show ?thesis
          proof (cases r2)
            case (Inl e)
            with l d \<open>r1 = Inr u\<close> True Some \<open>r0 = Inr found\<close> f assms have "w' = w2"
              by (simp add: delete_network_def seq_def)
            with c0 c1 c2
            have "calls w' = calls w @ ([Network_find id', Driver_delete_network id'] @ cs2) \<and>
                (\<forall>x. Subnet_delete x \<in> set ([Network_find id', Driver_delete_network id'] @ cs2) \<longrightarrow>
                   s_allocated_ips x = [])"
              by simp
            then show ?thesis by (rule exI)
          next
            case (Inr v)
            with l d \<open>r1 = Inr u\<close> True Some \<open>r0 = Inr found\<close> f assms
            have "invoke (Network_delete net) (network_delete env net) w2 = (r, w')"
              by (simp add: delete_network_def seq_def)
            then have "calls w' = calls w2 @ [Network_delete net]" by (rule invoke_calls)
            with c0 c1 c2
            have "calls w' =
                calls w @ ([Network_find id', Driver_delete_network id'] @ cs2 @ [Network_delete net]) \<and>
                (\<forall>x. Subnet_delete x \<in>
                     set ([Network_find id', Driver_delete_network id'] @ cs2 @ [Network_delete net]) \<longrightarrow>
                   s_allocated_ips x = [])"
              by simp
            then show ?thesis by (rule exI)
          qed
        qed
      qed
    qed
  qed
qed

text \<open>
  Claim C9: a subnet that still has allocated IP addresses is never deleted. For
  \<^verbatim>\<open>delete_subnet\<close>: if the subnet found has a non-empty \<^verbatim>\<open>allocated_ips\<close>, the call
  raises \<^verbatim>\<open>SubnetInUse\<close> having called nothing but the find. For \<^verbatim>\<open>delete_network\<close>:
  whatever the collaborators answer, \<^verbatim>\<open>subnet_delete\<close> is never called on a subnet whose
  \<^verbatim>\<open>allocated_ips\<close> is non-empty; and when the loop over the network's subnets comes to
  such a subnet (the network has no ports, the driver and the deletions of the subnets
  before it returned), the call raises \<^verbatim>\<open>SubnetInUse\<close> for it with the collaborators
  left as they were when the loop came to it: neither that subnet, nor a later one,
  nor the network row is deleted.
\<close>

theorem subnet_in_use_not_deleted:
  assumes "s_allocated_ips subnet \<noteq> []"
  shows "(subnet_find_one env id' (session w) = (Inr (Some subnet), s1) \<longrightarrow>
            delete_subnet env id' w =
              (Inl (SubnetInUse (s_id subnet)),
               \<lparr>calls = calls w @ [Subnet_find (Id id')], session = s1\<rparr>)) \<and>
         Subnet_delete subnet \<notin> set (new_calls w (snd (delete_network env net_id w))) \<and>
         (network_find_one env net_id (session w) = (Inr (Some net), s2) \<and> n_ports net = [] \<and>
          driver_delete_network env net_id s2 = (Inr (), s3) \<and>
          n_subnets net = before @ subnet # after \<and>
          delete_subnets env before
            \<lparr>calls = calls w @ [Network_find net_id, Driver_delete_network net_id], session = s3\<rparr> =
            (Inr (), w4) \<longrightarrow>
            delete_network env net_id w = (Inl (SubnetInUse (s_id subnet)), w4))"
proof (intro conjI impI)
  assume "subnet_find_one env id' (session w) = (Inr (Some subnet), s1)"
  then show "delete_subnet env id' w =
              (Inl (SubnetInUse (s_id subnet)),
               \<lparr>calls = calls w @ [Subnet_find (Id id')], session = s1\<rparr>)"
    using assms by (simp add: delete_subnet_def seq_def invoke_def delete_subnet_internal_in_use)
next
  obtain r w' where d: "delete_network env net_id w = (r, w')" by fastforce
  from delete_network_trace [OF d] obtain cs where
    "calls w' = calls w @ cs" "\<forall>x. Subnet_delete x \<in> set cs \<longrightarrow> s_allocated_ips x = []"
    by blast
  with assms d show "Subnet_delete subnet \<notin> set (new_calls w (snd (delete_network env net_id w)))"
    by (auto simp: new_calls_def)
next
  assume h: "network_find_one env net_id (session w) = (Inr (Some net), s2) \<and> n_ports net = [] \<and>
          driver_delete_network env net_id s2 = (Inr (), s3) \<and>
          n_subnets net = before @ subnet # after \<and>
          delete_subnets env before
            \<lparr>calls = calls w @ [Network_find net_id, Driver_delete_network net_id], session = s3\<rparr> =
            (Inr (), w4)"
  then have "delete_subnets env before
            \<lparr>calls = calls w @ [Network_find net_id, Driver_delete_network net_id], session = s3\<rparr> =
            (Inr (), w4)"
    by simp
  from delete_subnets_reach [OF this assms, of after] h
  have "delete_subnets env (n_subnets net)
            \<lparr>calls = calls w @ [Network_find net_id, Driver_delete_network net_id], session = s3\<rparr> =
            (Inl (SubnetInUse (s_id subnet)), w4)"
    by simp
  with h show "delete_network env net_id w = (Inl (SubnetInUse (s_id subnet)), w4)"
    by (simp add: delete_network_def seq_def invoke_def)
qed

theorem subnet_in_use_not_deleted_witness:
  "s_allocated_ips subnet_in_use \<noteq> [] \<and>
   delete_subnet mock_delete ''subnet-2'' start =
     (Inl (SubnetInUse ''subnet-2''),
      \<lparr>calls = [Subnet_find (Id ''subnet-2'')], session = empty_session\<rparr>) \<and>
   Subnet_delete subnet_in_use \<notin> set (new_calls start (snd (delete_network mock_delete ''net-1'' start))) \<and>
   delete_network mock_delete ''net-1'' start =
     (Inl (SubnetInUse ''subnet-2''),
      \<lparr>calls = [Network_find ''net-1'', Driver_delete_network ''net-1'', Subnet_delete subnet1],
       session = empty_session\<rparr>)"
proof -
  let ?net = "net1\<lparr>n_subnets := [subnet1, subnet_in_use]\<rparr>"
  let ?w3 = "\<lparr>calls = [Network_find ''net-1'', Driver_delete_network ''net-1'', Subnet_delete subnet1],
       session = empty_session\<rparr>"
  have a: "s_allocated_ips subnet_in_use \<noteq> []" by (simp add: subnet_in_use_def)
  have 1: "subnet_find_one mock_delete ''subnet-2'' (session start) =
             (Inr (Some subnet_in_use), empty_session)"
    by (simp add: mock_delete_def mock_def answer_def start_def)
  have 2: "network_find_one mock_delete ''net-1'' (session start) = (Inr (Some ?net), empty_session)"
    by (simp add: mock_delete_def mock_def answer_def start_def)
  have 3: "n_ports ?net = []" by (simp add: net1_def)
  have 4: "driver_delete_network mock_delete ''net-1'' empty_session = (Inr (), empty_session)"
    by (simp add: mock_delete_def mock_def answer_def)
  have 5: "n_subnets ?net = [subnet1] @ subnet_in_use # []" by simp
  have 6: "delete_subnets mock_delete [subnet1]
            \<lparr>calls = calls start @ [Network_find ''net-1'', Driver_delete_network ''net-1''],
             session = empty_session\<rparr> = (Inr (), ?w3)"
    by (simp add: delete_subnet_internal_def act_defs mock_delete_def mock_def answer_def
        start_def subnet1_def)
  from subnet_in_use_not_deleted [OF a, where env = mock_delete and id' = "''subnet-2''"
      and w = start and ?s1.0 = empty_session and net_id = "''net-1''" and net = ?net
      and ?s2.0 = empty_session and ?s3.0 = empty_session and before = "[subnet1]"
      and after = "[]" and ?w4.0 = ?w3]
    a 1 2 3 4 5 6
  show ?thesis by (simp add: start_def subnet_in_use_def new_calls_def subnet1_def)
qed

section \<open>Creating and updating subnets\<close>

lemma IPNetwork_10_0_0_0_24:
  "IPNetwork l ''10.0.0.0/24'' = Inr \<lparr>version = 4, ip_value = 167772160, prefixlen = 24\<rparr>"
proof -
  have o: "dec_octet ''0'' = Some 0" "dec_octet ''10'' = Some 10"
    by (simp_all add: dec_octet_def is_digit_def dec_to_int_def)
  have p: "parse_ipv4 ''10.0.0.0'' = Some 167772160"
    by (simp add: parse_ipv4_def o)
  have i: "py_int ''24'' = Some 24"
    by (simp add: py_int_def py_strip_def is_space_def is_digit_def dec_to_int_def)
  show ?thesis by (simp add: IPNetwork_def p i)
qed

lemma str_IPAddress_10_0_0_1: "str_IPAddress l 167772161 = Inr ''10.0.0.1''"
proof -
  have "str_nat 10 = ''10''" "str_nat 0 = ''0''" "str_nat 1 = ''1''"
    by code_simp+
  then show ?thesis by (simp add: str_IPAddress_def str_ipv4_def str_int_def)
qed

lemma first_gateway_10_0_0_0_24:
  "str_IPAddress l (net_first \<lparr>version = 4, ip_value = 167772160, prefixlen = 24\<rparr> + 1) =
     Inr ''10.0.0.1''"
proof -
  have "net_first \<lparr>version = 4, ip_value = 167772160, prefixlen = 24\<rparr> + 1 = 167772161"
    by (simp add: net_first_def width_def)
  then show ?thesis by (simp only: str_IPAddress_10_0_0_1)
qed

lemma is_default_route_synthetic:
  "is_default_route l \<lparr>destination = str_DEFAULT_ROUTE, nexthop = g\<rparr>"
  by (simp add: is_default_route_def str_DEFAULT_ROUTE_def IPNetwork_default net_eq_def
      DEFAULT_ROUTE_def)

text \<open>What the search for a default route among the supplied routes says.\<close>

lemma find_default_route_None:
  "find_default_route l routes = Inr None \<Longrightarrow> filter (is_default_route l) routes = []"
  by (induction routes) (auto simp: is_default_route_def split: sum.splits if_splits)

lemma find_default_route_Some:
  "find_default_route l routes = Inr (Some r) \<Longrightarrow> r \<in> set routes \<and> is_default_route l r"
  by (induction routes) (auto simp: is_default_route_def split: sum.splits if_splits)

lemma make_subnet_dict_fields:
  "make_subnet_dict l subnet = Inr d \<Longrightarrow>
     sd_id d = s_id subnet \<and> sd_routes d = map make_route_dict (s_routes subnet) \<and>
     sd_host_routes d = map host_route_of (s_routes subnet)"
  by (auto simp: make_subnet_dict_def split: sum.splits)

text \<open>The two loops that create name servers and routes: what they add to the
  dictionary and to the trace when they return.\<close>

lemma create_dns_returns:
  "create_dns env ips sid d w = (Inr d', w') \<Longrightarrow>
     sd_host_routes d' = sd_host_routes d \<and> sd_routes d' = sd_routes d \<and>
     sd_gateway_ip d' = sd_gateway_ip d \<and> sd_id d' = sd_id d \<and>
     (\<exists>cs. calls w' = calls w @ cs \<and>
        filter is_route_create cs = [] \<and> filter is_route_delete cs = [])"
proof (induction ips arbitrary: d w)
  case Nil
  then have "d' = d" "calls w' = calls w @ []" by (simp_all add: ret_def)
  then show ?case by (metis filter.simps(1))
next
  case (Cons ip ips)
  let ?d1 = "d\<lparr>sd_dns_nameservers := sd_dns_nameservers d @ [ip]\<rparr>"
  from Cons.prems obtain a w0 where
    a: "lift (IPAddress (lib env) ip) w = (Inr a, w0)"
    and r: "seq (invoke (Dns_create a sid) (dns_create env a sid))
              (\<lambda>_. create_dns env ips sid ?d1) w0 = (Inr d', w')"
    by (auto elim: seq_returns)
  from a have w0: "w0 = w" by (simp add: lift_def)
  from r obtain u w1 where
    i: "invoke (Dns_create a sid) (dns_create env a sid) w0 = (Inr u, w1)"
    and l: "create_dns env ips sid ?d1 w1 = (Inr d', w')"
    by (rule seq_returns)
  from invoke_calls [OF i] w0 have c1: "calls w1 = calls w @ [Dns_create a sid]" by simp
  from Cons.IH [OF l] obtain cs where
    f: "sd_host_routes d' = sd_host_routes ?d1" "sd_routes d' = sd_routes ?d1"
       "sd_gateway_ip d' = sd_gateway_ip ?d1" "sd_id d' = sd_id ?d1"
    and cs: "calls w' = calls w1 @ cs" "filter is_route_create cs = []"
       "filter is_route_delete cs = []"
    by blast
  from c1 cs have "calls w' = calls w @ (Dns_create a sid # cs) \<and>
      filter is_route_create (Dns_create a sid # cs) = [] \<and>
      filter is_route_delete (Dns_create a sid # cs) = []"
    by simp
  then have "\<exists>cs. calls w' = calls w @ cs \<and>
        filter is_route_create cs = [] \<and> filter is_route_delete cs = []"
    by (rule exI)
  with f show ?case by simp
qed

lemma create_routes_returns:
  "create_routes env routes sid d w = (Inr d', w') \<Longrightarrow>
     d' = d\<lparr>sd_host_routes := sd_host_routes d @ routes\<rparr> \<and>
     calls w' = calls w @ map (route_create_of sid) routes"
proof (induction routes arbitrary: d w)
  case Nil
  then show ?case by (simp add: ret_def)
next
  case (Cons route routes)
  let ?d1 = "d\<lparr>sd_host_routes := sd_host_routes d @ [route]\<rparr>"
  from Cons.prems
  have "seq (invoke (Route_create (destination route) (nexthop route) sid)
               (route_create env (destination route) (nexthop route) sid))
          (\<lambda>_. create_routes env routes sid ?d1) w = (Inr d', w')"
    by simp
  then obtain u w1 where
    i: "invoke (Route_create (destination route) (nexthop route) sid)
          (route_create env (destination route) (nexthop route) sid) w = (Inr u, w1)"
    and l: "create_routes env routes sid ?d1 w1 = (Inr d', w')"
    by (rule seq_returns)
  from invoke_calls [OF i] Cons.IH [OF l] show ?case
    by (simp add: route_create_of_def)
qed

lemma filter_route_create_map:
  "filter is_route_create (map (route_create_of sid) routes) = map (route_create_of sid) routes"
  by (induction routes) (simp_all add: route_create_of_def)

text \<open>What a returning call of \<^verbatim>\<open>create_subnet\<close> went through: the gateway it computed,
  what the search for a default route found, and what it added.\<close>

lemma create_subnet_returns:
  assumes "create_subnet env s w = (Inr d, w')"
  shows "\<exists>cidr gateway_ip default_route pre.
           IPNetwork (lib env) (cs_cidr s) = Inr cidr \<and>
           (case cs_gateway_ip s of
              ATTR_NOT_SPECIFIED \<Rightarrow>
                \<exists>g. str_IPAddress (lib env) (net_first cidr + 1) = Inr g \<and> gateway_ip = Some g
            | Given g \<Rightarrow> gateway_ip = g) \<and>
           find_default_route (lib env) (attr_list (cs_host_routes s)) = Inr default_route \<and>
           sd_gateway_ip d =
             Some (case default_route of None \<Rightarrow> gateway_ip | Some r \<Rightarrow> nexthop r) \<and>
           drop (length (sd_routes d)) (sd_host_routes d) =
             (case default_route of
                None \<Rightarrow> attr_list (cs_host_routes s) @
                         [\<lparr>destination = str_DEFAULT_ROUTE, nexthop = gateway_ip\<rparr>]
              | Some _ \<Rightarrow> attr_list (cs_host_routes s)) \<and>
           calls w' = calls w @ pre @
             map (route_create_of (sd_id d))
               (case default_route of
                  None \<Rightarrow> attr_list (cs_host_routes s) @
                           [\<lparr>destination = str_DEFAULT_ROUTE, nexthop = gateway_ip\<rparr>]
                | Some _ \<Rightarrow> attr_list (cs_host_routes s)) \<and>
           filter is_route_create pre = []"
proof -
  let ?routes = "attr_list (cs_host_routes s)"
  from assms obtain net w1 where
    n: "invoke (Network_find (cs_network_id s)) (network_find_one env (cs_network_id s)) w = (Inr net, w1)"
    and r1: "(case net of None \<Rightarrow> raise (NetworkNotFound (cs_network_id s))
       | Some _ \<Rightarrow>
     seq (lift (IPNetwork (lib env) (cs_cidr s))) (\<lambda>cidr.
     seq (case cs_gateway_ip s of
            ATTR_NOT_SPECIFIED \<Rightarrow>
              seq (lift (str_IPAddress (lib env) (net_first cidr + 1))) (\<lambda>g. ret (Some g))
          | Given g \<Rightarrow> ret g) (\<lambda>gateway_ip.
     let dns_ips = attr_list (cs_dns_nameservers s);
         routes = attr_list (cs_host_routes s)
     in
     seq (lift (find_default_route (lib env) routes)) (\<lambda>default_route.
     let routes' = (case default_route of
                      None \<Rightarrow> routes @ [\<lparr>destination = str_DEFAULT_ROUTE, nexthop = gateway_ip\<rparr>]
                    | Some _ \<Rightarrow> routes);
         gateway_ip' = (case default_route of None \<Rightarrow> gateway_ip | Some r \<Rightarrow> nexthop r)
     in
     seq (invoke (Subnet_create (kwargs_of_body s)) (subnet_create env (kwargs_of_body s))) (\<lambda>new_subnet.
     seq (lift (make_subnet_dict (lib env) new_subnet)) (\<lambda>subnet_dict.
     seq (create_dns env dns_ips (s_id new_subnet) subnet_dict) (\<lambda>subnet_dict.
     seq (create_routes env routes' (s_id new_subnet) subnet_dict) (\<lambda>subnet_dict.
     ret (subnet_dict\<lparr>sd_gateway_ip := Some gateway_ip'\<rparr>))))))))) w1 = (Inr d, w')"
    unfolding create_subnet_def by (rule seq_returns)
  from invoke_calls [OF n] have c1: "calls w1 = calls w @ [Network_find (cs_network_id s)]" .
  from r1 obtain nn where "net = Some nn" by (cases net) (auto simp: raise_def)
  with r1 obtain cidr w2 where
    ci: "lift (IPNetwork (lib env) (cs_cidr s)) w1 = (Inr cidr, w2)"
    and r2: "seq (case cs_gateway_ip s of
            ATTR_NOT_SPECIFIED \<Rightarrow>
              seq (lift (str_IPAddress (lib env) (net_first cidr + 1))) (\<lambda>g. ret (Some g))
          | Given g \<Rightarrow> ret g) (\<lambda>gateway_ip.
     let dns_ips = attr_list (cs_dns_nameservers s);
         routes = attr_list (cs_host_routes s)
     in
     seq (lift (find_default_route (lib env) routes)) (\<lambda>default_route.
     let routes' = (case default_route of
                      None \<Rightarrow> routes @ [\<lparr>destination = str_DEFAULT_ROUTE, nexthop = gateway_ip\<rparr>]
                    | Some _ \<Rightarrow> routes);
         gateway_ip' = (case default_route of None \<Rightarrow> gateway_ip | Some r \<Rightarrow> nexthop r)
     in
     seq (invoke (Subnet_create (kwargs_of_body s)) (subnet_create env (kwargs_of_body s))) (\<lambda>new_subnet.
     seq (lift (make_subnet_dict (lib env) new_subnet)) (\<lambda>subnet_dict.
     seq (create_dns env dns_ips (s_id new_subnet) subnet_dict) (\<lambda>subnet_dict.
     seq (create_routes env routes' (s_id new_subnet) subnet_dict) (\<lambda>subnet_dict.
     ret (subnet_dict\<lparr>sd_gateway_ip := Some gateway_ip'\<rparr>))))))) w2 = (Inr d, w')"
    by (auto elim: seq_returns)
  from ci have w2: "w2 = w1" and cidr: "IPNetwork (lib env) (cs_cidr s) = Inr cidr"
    by (simp_all add: lift_def)
  from r2 obtain gateway_ip w3 where
    g: "(case cs_gateway_ip s of
            ATTR_NOT_SPECIFIED \<Rightarrow>
              seq (lift (str_IPAddress (lib env) (net_first cidr + 1))) (\<lambda>g. ret (Some g))
          | Given g \<Rightarrow> ret g) w2 = (Inr gateway_ip, w3)"
    and r3: "seq (lift (find_default_route (lib env) ?routes)) (\<lambda>default_route.
     let routes' = (case default_route of
                      None \<Rightarrow> ?routes @ [\<lparr>destination = str_DEFAULT_ROUTE, nexthop = gateway_ip\<rparr>]
                    | Some _ \<Rightarrow> ?routes);
         gateway_ip' = (case default_route of None \<Rightarrow> gateway_ip | Some r \<Rightarrow> nexthop r)
     in
     seq (invoke (Subnet_create (kwargs_of_body s)) (subnet_create env (kwargs_of_body s))) (\<lambda>new_subnet.
     seq (lift (make_subnet_dict (lib env) new_subnet)) (\<lambda>subnet_dict.
     seq (create_dns env (attr_list (cs_dns_nameservers s)) (s_id new_subnet) subnet_dict) (\<lambda>subnet_dict.
     seq (create_routes env routes' (s_id new_subnet) subnet_dict) (\<lambda>subnet_dict.
     ret (subnet_dict\<lparr>sd_gateway_ip := Some gateway_ip'\<rparr>)))))) w3 = (Inr d, w')"
    by (auto elim: seq_returns simp: Let_def)
  from g have w3: "w3 = w2"
    and gw: "case cs_gateway_ip s of
              ATTR_NOT_SPECIFIED \<Rightarrow>
                \<exists>g. str_IPAddress (lib env) (net_first cidr + 1) = Inr g \<and> gateway_ip = Some g
            | Given g \<Rightarrow> gateway_ip = g"
    by (auto simp: act_defs split: attr.splits sum.splits)
  let ?gw = gateway_ip
  from r3 obtain default_route w4 where
    df: "lift (find_default_route (lib env) ?routes) w3 = (Inr default_route, w4)"
    and r4: "(let routes' = (case default_route of
                      None \<Rightarrow> ?routes @ [\<lparr>destination = str_DEFAULT_ROUTE, nexthop = gateway_ip\<rparr>]
                    | Some _ \<Rightarrow> ?routes);
         gateway_ip' = (case default_route of None \<Rightarrow> gateway_ip | Some r \<Rightarrow> nexthop r)
     in
     seq (invoke (Subnet_create (kwargs_of_body s)) (subnet_create env (kwargs_of_body s))) (\<lambda>new_subnet.
     seq (lift (make_subnet_dict (lib env) new_subnet)) (\<lambda>subnet_dict.
     seq (create_dns env (attr_list (cs_dns_nameservers s)) (s_id new_subnet) subnet_dict) (\<lambda>subnet_dict.
     seq (create_routes env routes' (s_id new_subnet) subnet_dict) (\<lambda>subnet_dict.
     ret (subnet_dict\<lparr>sd_gateway_ip := Some gateway_ip'\<rparr>)))))) w4 = (Inr d, w')"
    by (rule seq_returns)
  from df have w4: "w4 = w3"
    and dr: "find_default_route (lib env) ?routes = Inr default_route"
    by (simp_all add: lift_def)
  define routes' where "routes' = (case default_route of
                      None \<Rightarrow> ?routes @ [\<lparr>destination = str_DEFAULT_ROUTE, nexthop = gateway_ip\<rparr>]
                    | Some _ \<Rightarrow> ?routes)"
  define gateway_ip' where
    "gateway_ip' = (case default_route of None \<Rightarrow> gateway_ip | Some r \<Rightarrow> nexthop r)"
  from r4 have r5:
    "seq (invoke (Subnet_create (kwargs_of_body s)) (subnet_create env (kwargs_of_body s))) (\<lambda>new_subnet.
     seq (lift (make_subnet_dict (lib env) new_subnet)) (\<lambda>subnet_dict.
     seq (create_dns env (attr_list (cs_dns_nameservers s)) (s_id new_subnet) subnet_dict) (\<lambda>subnet_dict.
     seq (create_routes env routes' (s_id new_subnet) subnet_dict) (\<lambda>subnet_dict.
     ret (subnet_dict\<lparr>sd_gateway_ip := Some gateway_ip'\<rparr>))))) w4 = (Inr d, w')"
    by (simp add: Let_def routes'_def gateway_ip'_def)
  then obtain new_subnet w5 where
    sc: "invoke (Subnet_create (kwargs_of_body s)) (subnet_create env (kwargs_of_body s)) w4 =
           (Inr new_subnet, w5)"
    and r6: "seq (lift (make_subnet_dict (lib env) new_subnet)) (\<lambda>subnet_dict.
     seq (create_dns env (attr_list (cs_dns_nameservers s)) (s_id new_subnet) subnet_dict) (\<lambda>subnet_dict.
     seq (create_routes env routes' (s_id new_subnet) subnet_dict) (\<lambda>subnet_dict.
     ret (subnet_dict\<lparr>sd_gateway_ip := Some gateway_ip'\<rparr>)))) w5 = (Inr d, w')"
    by (rule seq_returns)
  from invoke_calls [OF sc] have c5: "calls w5 = calls w4 @ [Subnet_create (kwargs_of_body s)]" .
  from r6 obtain d0 w6 where
    md: "lift (make_subnet_dict (lib env) new_subnet) w5 = (Inr d0, w6)"
    and r7: "seq (create_dns env (attr_list (cs_dns_nameservers s)) (s_id new_subnet) d0) (\<lambda>subnet_dict.
     seq (create_routes env routes' (s_id new_subnet) subnet_dict) (\<lambda>subnet_dict.
     ret (subnet_dict\<lparr>sd_gateway_ip := Some gateway_ip'\<rparr>))) w6 = (Inr d, w')"
    by (rule seq_returns)
  from md have w6: "w6 = w5" and d0: "make_subnet_dict (lib env) new_subnet = Inr d0"
    by (simp_all add: lift_def)
  from r7 obtain d1 w7 where
    cd: "create_dns env (attr_list (cs_dns_nameservers s)) (s_id new_subnet) d0 w6 = (Inr d1, w7)"
    and r8: "seq (create_routes env routes' (s_id new_subnet) d1) (\<lambda>subnet_dict.
     ret (subnet_dict\<lparr>sd_gateway_ip := Some gateway_ip'\<rparr>)) w7 = (Inr d, w')"
    by (rule seq_returns)
  from r8 obtain d2 w8 where
    cr: "create_routes env routes' (s_id new_subnet) d1 w7 = (Inr d2, w8)"
    and r9: "ret (d2\<lparr>sd_gateway_ip := Some gateway_ip'\<rparr>) w8 = (Inr d, w')"
    by (rule seq_returns)
  from r9 have d: "d = d2\<lparr>sd_gateway_ip := Some gateway_ip'\<rparr>" and w8: "w' = w8"
    by (simp_all add: ret_def)
  from create_dns_returns [OF cd] obtain cs where
    f1: "sd_host_routes d1 = sd_host_routes d0" "sd_routes d1 = sd_routes d0" "sd_id d1 = sd_id d0"
    and cs: "calls w7 = calls w6 @ cs" "filter is_route_create cs = []"
    by blast
  from create_routes_returns [OF cr] have
    f2: "d2 = d1\<lparr>sd_host_routes := sd_host_routes d1 @ routes'\<rparr>"
    and c8: "calls w8 = calls w7 @ map (route_create_of (s_id new_subnet)) routes'"
    by simp_all
  from make_subnet_dict_fields [OF d0] have
    f0: "sd_id d0 = s_id new_subnet" "length (sd_routes d0) = length (sd_host_routes d0)"
    by simp_all
  have id: "sd_id d = s_id new_subnet" using d f2 f1 f0 by simp
  have hr: "drop (length (sd_routes d)) (sd_host_routes d) = routes'"
    using d f2 f1 f0 by simp
  have gwd: "sd_gateway_ip d = Some gateway_ip'" using d by simp
  let ?pre = "[Network_find (cs_network_id s), Subnet_create (kwargs_of_body s)] @ cs"
  have tr: "calls w' = calls w @ ?pre @ map (route_create_of (sd_id d)) routes'"
    using w8 c8 cs(1) w6 c5 w4 w3 w2 c1 id by simp
  have np: "filter is_route_create ?pre = []" using cs(2) by simp
  from cidr gw dr gwd hr tr np show ?thesis
    unfolding routes'_def gateway_ip'_def by blast
qed

lemma find_default_route_first:
  "find_default_route l routes = Inr x \<Longrightarrow>
     x = (case filter (is_default_route l) routes of [] \<Rightarrow> None | r # rs \<Rightarrow> Some r)"
  by (induction routes) (auto simp: is_default_route_def split: sum.splits if_splits)

text \<open>
  Claim C5: creating a subnet with cidr \<^verbatim>\<open>10.0.0.0/24\<close>, no explicit \<^verbatim>\<open>gateway_ip\<close> and
  no default route among the supplied host routes yields \<^verbatim>\<open>gateway_ip\<close> \<^verbatim>\<open>"10.0.0.1"\<close>
  and exactly one default route, \<^verbatim>\<open>0.0.0.0/0 -> 10.0.0.1\<close>; if the caller supplies a
  route whose destination is the wildcard network, the next hop of (the first such)
  route becomes the gateway and no synthetic default route is added.

  Stated for every returning call whose persistence layer hands back the new subnet
  without routes (the \<^verbatim>\<open>routes\<close> key of the result is empty): the returned
  \<^verbatim>\<open>host_routes\<close> are the supplied routes, followed in the first case by the one
  synthetic default route, and \<^verbatim>\<open>route_create\<close> is called for exactly these, in order.
\<close>

theorem create_subnet_default_route:
  assumes "create_subnet env s w = (Inr d, w')"
    and "sd_routes d = []"
  shows "(cs_cidr s = ''10.0.0.0/24'' \<and> cs_gateway_ip s = ATTR_NOT_SPECIFIED \<and>
          filter (is_default_route (lib env)) (attr_list (cs_host_routes s)) = [] \<longrightarrow>
            sd_gateway_ip d = Some (Some ''10.0.0.1'') \<and>
            sd_host_routes d =
              attr_list (cs_host_routes s) @
              [\<lparr>destination = ''0.0.0.0/0'', nexthop = Some ''10.0.0.1''\<rparr>] \<and>
            filter (is_default_route (lib env)) (sd_host_routes d) =
              [\<lparr>destination = ''0.0.0.0/0'', nexthop = Some ''10.0.0.1''\<rparr>] \<and>
            filter is_route_create (new_calls w w') =
              map (route_create_of (sd_id d)) (sd_host_routes d)) \<and>
         (filter (is_default_route (lib env)) (attr_list (cs_host_routes s)) \<noteq> [] \<longrightarrow>
            sd_gateway_ip d =
              Some (nexthop (hd (filter (is_default_route (lib env)) (attr_list (cs_host_routes s))))) \<and>
            sd_host_routes d = attr_list (cs_host_routes s) \<and>
            filter is_route_create (new_calls w w') =
              map (route_create_of (sd_id d)) (attr_list (cs_host_routes s)))"
proof -
  let ?routes = "attr_list (cs_host_routes s)"
  let ?syn = "\<lparr>destination = ''0.0.0.0/0'', nexthop = Some ''10.0.0.1''\<rparr>"
  from create_subnet_returns [OF assms(1)] obtain cidr gateway_ip default_route pre where
    cidr: "IPNetwork (lib env) (cs_cidr s) = Inr cidr"
    and gw: "case cs_gateway_ip s of
              ATTR_NOT_SPECIFIED \<Rightarrow>
                \<exists>g. str_IPAddress (lib env) (net_first cidr + 1) = Inr g \<and> gateway_ip = Some g
            | Given g \<Rightarrow> gateway_ip = g"
    and df: "find_default_route (lib env) ?routes = Inr default_route"
    and gd: "sd_gateway_ip d =
             Some (case default_route of None \<Rightarrow> gateway_ip | Some r \<Rightarrow> nexthop r)"
    and hr: "drop (length (sd_routes d)) (sd_host_routes d) =
             (case default_route of
                None \<Rightarrow> ?routes @ [\<lparr>destination = str_DEFAULT_ROUTE, nexthop = gateway_ip\<rparr>]
              | Some _ \<Rightarrow> ?routes)"
    and tr: "calls w' = calls w @ pre @
             map (route_create_of (sd_id d))
               (case default_route of
                  None \<Rightarrow> ?routes @ [\<lparr>destination = str_DEFAULT_ROUTE, nexthop = gateway_ip\<rparr>]
                | Some _ \<Rightarrow> ?routes)"
    and np: "filter is_route_create pre = []"
    by blast
  from hr assms(2) have hr': "sd_host_routes d =
             (case default_route of
                None \<Rightarrow> ?routes @ [\<lparr>destination = str_DEFAULT_ROUTE, nexthop = gateway_ip\<rparr>]
              | Some _ \<Rightarrow> ?routes)"
    by simp
  from tr np hr' have cr: "filter is_route_create (new_calls w w') =
      map (route_create_of (sd_id d)) (sd_host_routes d)"
    by (simp add: new_calls_def filter_route_create_map)
  note first = find_default_route_first [OF df]
  show ?thesis
  proof (intro conjI impI)
    assume h: "cs_cidr s = ''10.0.0.0/24'' \<and> cs_gateway_ip s = ATTR_NOT_SPECIFIED \<and>
          filter (is_default_route (lib env)) ?routes = []"
    with first have none: "default_route = None" by simp
    from h cidr have "cidr = \<lparr>version = 4, ip_value = 167772160, prefixlen = 24\<rparr>"
      by (simp add: IPNetwork_10_0_0_0_24)
    with h gw have g: "gateway_ip = Some ''10.0.0.1''"
      by (simp add: first_gateway_10_0_0_0_24)
    from gd none g show "sd_gateway_ip d = Some (Some ''10.0.0.1'')" by simp
    from hr' none g show r: "sd_host_routes d = ?routes @ [?syn]"
      by (simp add: str_DEFAULT_ROUTE_def)
    from r h is_default_route_synthetic [of "lib env" "Some ''10.0.0.1''"]
    show "filter (is_default_route (lib env)) (sd_host_routes d) = [?syn]"
      by (simp add: str_DEFAULT_ROUTE_def)
    from cr show "filter is_route_create (new_calls w w') =
      map (route_create_of (sd_id d)) (sd_host_routes d)" .
  next
    assume h: "filter (is_default_route (lib env)) ?routes \<noteq> []"
    with first have some: "default_route = Some (hd (filter (is_default_route (lib env)) ?routes))"
      by (cases "filter (is_default_route (lib env)) ?routes") simp_all
    from gd some show "sd_gateway_ip d =
        Some (nexthop (hd (filter (is_default_route (lib env)) ?routes)))"
      by simp
    from hr' some show r: "sd_host_routes d = ?routes" by simp
    from cr r show "filter is_route_create (new_calls w w') =
        map (route_create_of (sd_id d)) ?routes"
      by simp
  qed
qed

theorem create_subnet_default_route_witness:
  "create_subnet mock_subnets subnet_body start =
     (Inr \<lparr>sd_id = ''subnet-1'', sd_name = ''sub'', sd_tenant_id = ''tenant'',
           sd_network_id = ''net-1'', sd_ip_version = 4, sd_dns_nameservers = [],
           sd_cidr = ''10.0.0.0/24'', sd_enable_dhcp = False, sd_routes = [],
           sd_host_routes = [\<lparr>destination = ''0.0.0.0/0'', nexthop = Some ''10.0.0.1''\<rparr>],
           sd_gateway_ip = Some (Some ''10.0.0.1'')\<rparr>,
      \<lparr>calls = [Network_find ''net-1'', Subnet_create (kwargs_of_body subnet_body),
                Route_create ''0.0.0.0/0'' (Some ''10.0.0.1'') ''subnet-1''],
       session = empty_session\<rparr>) \<and>
   filter (is_default_route mock_lib) [\<lparr>destination = ''0.0.0.0/0'', nexthop = Some ''10.0.0.1''\<rparr>] =
     [\<lparr>destination = ''0.0.0.0/0'', nexthop = Some ''10.0.0.1''\<rparr>] \<and>
   create_subnet mock_subnets
     (subnet_body\<lparr>cs_host_routes :=
        Given [\<lparr>destination = ''0.0.0.0/0'', nexthop = Some ''10.0.0.254''\<rparr>]\<rparr>) start =
     (Inr \<lparr>sd_id = ''subnet-1'', sd_name = ''sub'', sd_tenant_id = ''tenant'',
           sd_network_id = ''net-1'', sd_ip_version = 4, sd_dns_nameservers = [],
           sd_cidr = ''10.0.0.0/24'', sd_enable_dhcp = False, sd_routes = [],
           sd_host_routes = [\<lparr>destination = ''0.0.0.0/0'', nexthop = Some ''10.0.0.254''\<rparr>],
           sd_gateway_ip = Some (Some ''10.0.0.254'')\<rparr>,
      \<lparr>calls = [Network_find ''net-1'',
                Subnet_create
                  (kwargs_of_body
                     (subnet_body\<lparr>cs_host_routes :=
                        Given [\<lparr>destination = ''0.0.0.0/0'', nexthop = Some ''10.0.0.254''\<rparr>]\<rparr>)),
                Route_create ''0.0.0.0/0'' (Some ''10.0.0.254'') ''subnet-1''],
       session = empty_session\<rparr>)"
proof -
  let ?syn = "\<lparr>destination = ''0.0.0.0/0'', nexthop = Some ''10.0.0.1''\<rparr>"
  let ?given = "\<lparr>destination = ''0.0.0.0/0'', nexthop = Some ''10.0.0.254''\<rparr>"
  let ?body2 = "subnet_body\<lparr>cs_host_routes := Given [?given]\<rparr>"
  have l: "lib mock_subnets = mock_lib" by (simp add: mock_subnets_def mock_def)
  have evals: "IPNetwork mock_lib ''10.0.0.0/24'' =
      Inr \<lparr>version = 4, ip_value = 167772160, prefixlen = 24\<rparr>"
    "str_IPAddress mock_lib
       (net_first \<lparr>version = 4, ip_value = 167772160, prefixlen = 24\<rparr> + 1) = Inr ''10.0.0.1''"
    "IPNetwork mock_lib ''0.0.0.0/0'' = Inr \<lparr>version = 4, ip_value = 0, prefixlen = 0\<rparr>"
    by (rule IPNetwork_10_0_0_0_24 first_gateway_10_0_0_0_24 IPNetwork_default)+
  have d: "is_default_route mock_lib ?syn" "is_default_route mock_lib ?given"
    by (simp_all add: is_default_route_def evals net_eq_def DEFAULT_ROUTE_def)
  have 1: "create_subnet mock_subnets subnet_body start =
     (Inr \<lparr>sd_id = ''subnet-1'', sd_name = ''sub'', sd_tenant_id = ''tenant'',
           sd_network_id = ''net-1'', sd_ip_version = 4, sd_dns_nameservers = [],
           sd_cidr = ''10.0.0.0/24'', sd_enable_dhcp = False, sd_routes = [],
           sd_host_routes = [?syn], sd_gateway_ip = Some (Some ''10.0.0.1'')\<rparr>,
      \<lparr>calls = [Network_find ''net-1'', Subnet_create (kwargs_of_body subnet_body),
                Route_create ''0.0.0.0/0'' (Some ''10.0.0.1'') ''subnet-1''],
       session = empty_session\<rparr>)"
    by (simp add: create_subnet_def act_defs l evals mock_subnets_def mock_def answer_def
        subnet_body_def kwargs_of_body_def attr_list_def make_subnet_dict_def start_def
        str_DEFAULT_ROUTE_def Let_def)
  have 2: "create_subnet mock_subnets ?body2 start =
     (Inr \<lparr>sd_id = ''subnet-1'', sd_name = ''sub'', sd_tenant_id = ''tenant'',
           sd_network_id = ''net-1'', sd_ip_version = 4, sd_dns_nameservers = [],
           sd_cidr = ''10.0.0.0/24'', sd_enable_dhcp = False, sd_routes = [],
           sd_host_routes = [?given], sd_gateway_ip = Some (Some ''10.0.0.254'')\<rparr>,
      \<lparr>calls = [Network_find ''net-1'', Subnet_create (kwargs_of_body ?body2),
                Route_create ''0.0.0.0/0'' (Some ''10.0.0.254'') ''subnet-1''],
       session = empty_session\<rparr>)"
    by (simp add: create_subnet_def act_defs l evals mock_subnets_def mock_def answer_def
        subnet_body_def kwargs_of_body_def attr_list_def make_subnet_dict_def start_def
        net_eq_def DEFAULT_ROUTE_def Let_def)
  have h1: "cs_cidr subnet_body = ''10.0.0.0/24'' \<and> cs_gateway_ip subnet_body = ATTR_NOT_SPECIFIED \<and>
      filter (is_default_route (lib mock_subnets)) (attr_list (cs_host_routes subnet_body)) = []"
    by (simp add: subnet_body_def attr_list_def)
  have h2: "filter (is_default_route (lib mock_subnets)) (attr_list (cs_host_routes ?body2)) \<noteq> []"
    using d by (simp add: attr_list_def l)
  from create_subnet_default_route [OF 1] h1
  have "filter (is_default_route (lib mock_subnets)) [?syn] = [?syn]"
    by simp
  moreover from create_subnet_default_route [OF 2] h2
  have "sd_gateway_ip
          \<lparr>sd_id = ''subnet-1'', sd_name = ''sub'', sd_tenant_id = ''tenant'',
           sd_network_id = ''net-1'', sd_ip_version = 4, sd_dns_nameservers = [],
           sd_cidr = ''10.0.0.0/24'', sd_enable_dhcp = False, sd_routes = [],
           sd_host_routes = [?given], sd_gateway_ip = Some (Some ''10.0.0.254'')\<rparr> =
        Some (nexthop (hd (filter (is_default_route (lib mock_subnets))
                (attr_list (cs_host_routes ?body2)))))"
    using d l by (simp add: attr_list_def)
  ultimately show ?thesis using 1 2 l by simp
qed

subsection \<open>\<^verbatim>\<open>update_subnet\<close>\<close>

lemma delete_routes_returns:
  "delete_routes env models w = (Inr u, w') \<Longrightarrow> calls w' = calls w @ map Route_delete models"
proof (induction models arbitrary: w)
  case Nil
  then show ?case by (simp add: ret_def)
next
  case (Cons m rest)
  from Cons.prems
  have "seq (invoke (Route_delete m) (route_delete env m)) (\<lambda>_. delete_routes env rest) w =
        (Inr u, w')"
    by simp
  then obtain x w1 where a: "invoke (Route_delete m) (route_delete env m) w = (Inr x, w1)"
    and b: "delete_routes env rest w1 = (Inr u, w')"
    by (rule seq_returns)
  from invoke_calls [OF a] Cons.IH [OF b] show ?case by simp
qed

lemma delete_dns_returns:
  "delete_dns env models w = (Inr u, w') \<Longrightarrow> calls w' = calls w @ map Dns_delete models"
proof (induction models arbitrary: w)
  case Nil
  then show ?case by (simp add: ret_def)
next
  case (Cons m rest)
  from Cons.prems
  have "seq (invoke (Dns_delete m) (dns_delete env m)) (\<lambda>_. delete_dns env rest) w =
        (Inr u, w')"
    by simp
  then obtain x w1 where a: "invoke (Dns_delete m) (dns_delete env m) w = (Inr x, w1)"
    and b: "delete_dns env rest w1 = (Inr u, w')"
    by (rule seq_returns)
  from invoke_calls [OF a] Cons.IH [OF b] show ?case by simp
qed

lemma filter_dns_delete:
  "filter is_route_delete (map Dns_delete models) = [] \<and>
   filter is_route_create (map Dns_delete models) = []"
  by (induction models) simp_all

lemma filter_route_delete_create:
  "filter is_route_delete (map (route_create_of sid) routes) = []"
  by (induction routes) (simp_all add: route_create_of_def)

text \<open>The loop over the supplied routes of an update: every route is created and appended
  to \<^verbatim>\<open>host_routes\<close>, and each default route among them overwrites \<^verbatim>\<open>gateway_ip\<close>.\<close>

lemma update_routes_returns:
  "update_routes env routes sid d w = (Inr d', w') \<Longrightarrow>
     sd_host_routes d' = sd_host_routes d @ routes \<and>
     sd_gateway_ip d' =
       (case filter (is_default_route (lib env)) routes of
          [] \<Rightarrow> sd_gateway_ip d
        | r # rs \<Rightarrow> Some (nexthop (last (r # rs)))) \<and>
     sd_id d' = sd_id d \<and>
     calls w' = calls w @ map (route_create_of sid) routes"
proof (induction routes arbitrary: d w)
  case Nil
  then show ?case by (simp add: ret_def)
next
  case (Cons route rest)
  from Cons.prems
  have "seq (invoke (Route_create (destination route) (nexthop route) sid)
               (route_create env (destination route) (nexthop route) sid))
          (\<lambda>_. seq (lift (IPNetwork (lib env) (destination route)))
             (\<lambda>n. let d1 = (if net_eq n DEFAULT_ROUTE
                             then d\<lparr>sd_gateway_ip := Some (nexthop route)\<rparr> else d)
                   in update_routes env rest sid
                        (d1\<lparr>sd_host_routes := sd_host_routes d1 @ [route]\<rparr>))) w =
        (Inr d', w')"
    by simp
  then obtain x w1 where
    a: "invoke (Route_create (destination route) (nexthop route) sid)
          (route_create env (destination route) (nexthop route) sid) w = (Inr x, w1)"
    and b: "seq (lift (IPNetwork (lib env) (destination route)))
             (\<lambda>n. let d1 = (if net_eq n DEFAULT_ROUTE
                             then d\<lparr>sd_gateway_ip := Some (nexthop route)\<rparr> else d)
                   in update_routes env rest sid
                        (d1\<lparr>sd_host_routes := sd_host_routes d1 @ [route]\<rparr>)) w1 =
        (Inr d', w')"
    by (rule seq_returns)
  from b obtain n w2 where
    c: "lift (IPNetwork (lib env) (destination route)) w1 = (Inr n, w2)"
    and e: "(let d1 = (if net_eq n DEFAULT_ROUTE
                       then d\<lparr>sd_gateway_ip := Some (nexthop route)\<rparr> else d)
             in update_routes env rest sid
                  (d1\<lparr>sd_host_routes := sd_host_routes d1 @ [route]\<rparr>)) w2 = (Inr d', w')"
    by (rule seq_returns)
  from lift_world [OF c] have w2: "w2 = w1" and n: "IPNetwork (lib env) (destination route) = Inr n"
    by simp_all
  from n have df: "is_default_route (lib env) route = net_eq n DEFAULT_ROUTE"
    by (simp add: is_default_route_def)
  from invoke_calls [OF a] have c1: "calls w1 = calls w @ [route_create_of sid route]"
    by (simp add: route_create_of_def)
  show ?case
  proof (cases "net_eq n DEFAULT_ROUTE")
    case True
    let ?d2 = "d\<lparr>sd_gateway_ip := Some (nexthop route),
                  sd_host_routes := sd_host_routes d @ [route]\<rparr>"
    from e True w2 have "update_routes env rest sid ?d2 w1 = (Inr d', w')"
      by simp
    from Cons.IH [OF this] c1 df True show ?thesis
      by (simp split: list.splits)
  next
    case False
    let ?d2 = "d\<lparr>sd_host_routes := sd_host_routes d @ [route]\<rparr>"
    from e False w2 have "update_routes env rest sid ?d2 w1 = (Inr d', w')"
      by simp
    from Cons.IH [OF this] c1 df False show ?thesis
      by (simp split: list.splits)
  qed
qed

text \<open>The gateway block deletes no route, and touches no route at all when no gateway is
  supplied or the supplied routes contain a default route.\<close>

lemma update_gateway_trace:
  assumes "update_gateway env id' routes g w = (Inr u, w')"
  shows "\<exists>cs. calls w' = calls w @ cs \<and> filter is_route_delete cs = [] \<and>
           (\<not> truthy g \<or> filter (is_default_route (lib env)) routes \<noteq> [] \<longrightarrow> cs = [])"
proof (cases "truthy g")
  case False
  with assms have "calls w' = calls w @ []" by (simp add: update_gateway_def ret_def)
  then show ?thesis by (metis filter.simps(1))
next
  case True
  with assms have
    "seq (lift (find_default_route (lib env) routes)) (\<lambda>default_route.
        case default_route of
          Some _ \<Rightarrow> ret ()
        | None \<Rightarrow>
            seq (invoke (Route_find_one str_DEFAULT_ROUTE id')
                   (route_find_one env str_DEFAULT_ROUTE id')) (\<lambda>route_model.
            case route_model of
              Some m \<Rightarrow> invoke (Route_update m g) (route_update env m g)
            | None \<Rightarrow>
                seq (invoke (Route_create str_DEFAULT_ROUTE g id')
                       (route_create env str_DEFAULT_ROUTE g id')) (\<lambda>_. ret ()))) w =
     (Inr u, w')"
    by (simp add: update_gateway_def)
  then obtain df w1 where a: "lift (find_default_route (lib env) routes) w = (Inr df, w1)"
    and b: "(case df of
          Some _ \<Rightarrow> ret ()
        | None \<Rightarrow>
            seq (invoke (Route_find_one str_DEFAULT_ROUTE id')
                   (route_find_one env str_DEFAULT_ROUTE id')) (\<lambda>route_model.
            case route_model of
              Some m \<Rightarrow> invoke (Route_update m g) (route_update env m g)
            | None \<Rightarrow>
                seq (invoke (Route_create str_DEFAULT_ROUTE g id')
                       (route_create env str_DEFAULT_ROUTE g id')) (\<lambda>_. ret ()))) w1 =
     (Inr u, w')"
    by (rule seq_returns)
  from lift_world [OF a] have w1: "w1 = w" and df: "find_default_route (lib env) routes = Inr df"
    by simp_all
  show ?thesis
  proof (cases df)
    case (Some r)
    with b w1 have "calls w' = calls w @ []" by (simp add: ret_def)
    then show ?thesis by (metis filter.simps(1))
  next
    case None
    with df have nodf: "filter (is_default_route (lib env)) routes = []"
      by (simp add: find_default_route_None)
    from b None w1 obtain rm w2 where
      c: "invoke (Route_find_one str_DEFAULT_ROUTE id')
            (route_find_one env str_DEFAULT_ROUTE id') w = (Inr rm, w2)"
      and e: "(case rm of
              Some m \<Rightarrow> invoke (Route_update m g) (route_update env m g)
            | None \<Rightarrow>
                seq (invoke (Route_create str_DEFAULT_ROUTE g id')
                       (route_create env str_DEFAULT_ROUTE g id')) (\<lambda>_. ret ())) w2 =
              (Inr u, w')"
      by (auto elim: seq_returns)
    from invoke_calls [OF c]
    have c2: "calls w2 = calls w @ [Route_find_one str_DEFAULT_ROUTE id']" .
    show ?thesis
    proof (cases rm)
      case (Some m)
      with e have "invoke (Route_update m g) (route_update env m g) w2 = (Inr u, w')" by simp
      from invoke_calls [OF this] c2
      have "calls w' = calls w @ [Route_find_one str_DEFAULT_ROUTE id', Route_update m g]"
        by simp
      moreover have "filter is_route_delete
          [Route_find_one str_DEFAULT_ROUTE id', Route_update m g] = []"
        by simp
      ultimately show ?thesis using True nodf by blast
    next
      case None
      with e obtain x w3 where
        f: "invoke (Route_create str_DEFAULT_ROUTE g id')
              (route_create env str_DEFAULT_ROUTE g id') w2 = (Inr x, w3)"
        and h: "ret () w3 = (Inr u, w')"
        by (auto elim: seq_returns)
      from ret_world [OF h] invoke_calls [OF f] c2
      have "calls w' =
          calls w @ [Route_find_one str_DEFAULT_ROUTE id', Route_create str_DEFAULT_ROUTE g id']"
        by simp
      moreover have "filter is_route_delete
          [Route_find_one str_DEFAULT_ROUTE id', Route_create str_DEFAULT_ROUTE g id'] = []"
        by simp
      ultimately show ?thesis using True nodf by blast
    qed
  qed
qed

lemma replace_dns_returns:
  assumes "replace_dns env subnet_db sid ips d w = (Inr d', w')"
  shows "sd_host_routes d' = sd_host_routes d \<and> sd_gateway_ip d' = sd_gateway_ip d \<and>
         sd_id d' = sd_id d \<and>
         (\<exists>cs. calls w' = calls w @ cs \<and>
            filter is_route_create cs = [] \<and> filter is_route_delete cs = [])"
proof -
  from assms obtain d1 w1 where
    a: "(if ips \<noteq> [] then
            seq (delete_dns env (s_dns_nameservers subnet_db)) (\<lambda>_.
            ret (d\<lparr>sd_dns_nameservers := []\<rparr>))
          else ret d) w = (Inr d1, w1)"
    and b: "create_dns env ips sid d1 w1 = (Inr d', w')"
    unfolding replace_dns_def by (rule seq_returns)
  have "sd_host_routes d1 = sd_host_routes d \<and> sd_gateway_ip d1 = sd_gateway_ip d \<and>
        sd_id d1 = sd_id d \<and>
        (\<exists>cs. calls w1 = calls w @ cs \<and>
           filter is_route_create cs = [] \<and> filter is_route_delete cs = [])"
  proof (cases "ips = []")
    case True
    with a have "d1 = d" "calls w1 = calls w @ []" by (simp_all add: ret_def)
    then show ?thesis by (metis filter.simps(1))
  next
    case False
    with a have "seq (delete_dns env (s_dns_nameservers subnet_db)) (\<lambda>_.
            ret (d\<lparr>sd_dns_nameservers := []\<rparr>)) w = (Inr d1, w1)"
      by simp
    then obtain x w0 where c: "delete_dns env (s_dns_nameservers subnet_db) w = (Inr x, w0)"
      and e: "ret (d\<lparr>sd_dns_nameservers := []\<rparr>) w0 = (Inr d1, w1)"
      by (rule seq_returns)
    from ret_world [OF e] have "w1 = w0" "d1 = d\<lparr>sd_dns_nameservers := []\<rparr>" by simp_all
    with delete_dns_returns [OF c]
    have "d1 = d\<lparr>sd_dns_nameservers := []\<rparr>"
      "calls w1 = calls w @ map Dns_delete (s_dns_nameservers subnet_db)"
      by simp_all
    with filter_dns_delete [of "s_dns_nameservers subnet_db"] show ?thesis
      by simp
  qed
  then obtain cs1 where 1: "sd_host_routes d1 = sd_host_routes d"
    "sd_gateway_ip d1 = sd_gateway_ip d" "sd_id d1 = sd_id d"
    "calls w1 = calls w @ cs1" "filter is_route_create cs1 = []" "filter is_route_delete cs1 = []"
    by blast
  from create_dns_returns [OF b] obtain cs2 where 2: "sd_host_routes d' = sd_host_routes d1"
    "sd_gateway_ip d' = sd_gateway_ip d1" "sd_id d' = sd_id d1"
    "calls w' = calls w1 @ cs2" "filter is_route_create cs2 = []" "filter is_route_delete cs2 = []"
    by blast
  from 1 2 have "calls w' = calls w @ (cs1 @ cs2) \<and> filter is_route_create (cs1 @ cs2) = [] \<and>
      filter is_route_delete (cs1 @ cs2) = []"
    by simp
  then have "\<exists>cs. calls w' = calls w @ cs \<and>
            filter is_route_create cs = [] \<and> filter is_route_delete cs = []"
    by (rule exI)
  with 1 2 show ?thesis by simp
qed

lemma replace_routes_returns:
  assumes "replace_routes env subnet_db sid routes d w = (Inr d', w')"
    and "routes \<noteq> []"
  shows "sd_host_routes d' = routes \<and>
         sd_gateway_ip d' = Some (last_default_gateway (lib env) routes) \<and>
         sd_id d' = sd_id d \<and>
         calls w' = calls w @ map Route_delete (s_routes subnet_db) @
                    map (route_create_of sid) routes"
proof -
  let ?d1 = "d\<lparr>sd_host_routes := [], sd_gateway_ip := Some None\<rparr>"
  from assms have
    "seq (seq (delete_routes env (s_routes subnet_db)) (\<lambda>_. ret ?d1))
       (\<lambda>subnet_dict. update_routes env routes sid subnet_dict) w = (Inr d', w')"
    by (simp add: replace_routes_def)
  then obtain d1 w1 where
    a: "seq (delete_routes env (s_routes subnet_db)) (\<lambda>_. ret ?d1) w = (Inr d1, w1)"
    and b: "update_routes env routes sid d1 w1 = (Inr d', w')"
    by (rule seq_returns)
  from a obtain x w0 where c: "delete_routes env (s_routes subnet_db) w = (Inr x, w0)"
    and e: "ret ?d1 w0 = (Inr d1, w1)"
    by (rule seq_returns)
  from ret_world [OF e] have d1: "d1 = ?d1" and w1: "w1 = w0" by simp_all
  from delete_routes_returns [OF c] w1
  have c1: "calls w1 = calls w @ map Route_delete (s_routes subnet_db)" by simp
  from update_routes_returns [OF b] d1 c1 show ?thesis
    by (simp add: last_default_gateway_def split: list.splits)
qed

text \<open>
  Claim C8, counterexample: the update of a subnet that has the route
  \<^verbatim>\<open>0.0.0.0/0 -> 10.0.0.1\<close>, with the host-routes list \<^verbatim>\<open>[]\<close>, deletes no route (the only
  calls are the lookup and \<^verbatim>\<open>subnet_update\<close>) and returns the old route and the old
  gateway: \<^verbatim>\<open>if routes:\<close> skips the replacement for an empty list.
\<close>

theorem update_subnet_empty_routes_counterexample:
  "update_subnet mock_subnets ''subnet-1'' (update_body\<lparr>us_host_routes := Some []\<rparr>) start =
     (Inr \<lparr>sd_id = ''subnet-1'', sd_name = ''sub'', sd_tenant_id = ''tenant'',
           sd_network_id = ''net-1'', sd_ip_version = 4, sd_dns_nameservers = [],
           sd_cidr = ''10.0.0.0/24'', sd_enable_dhcp = False,
           sd_routes = [\<lparr>rd_id = ''route-1'', rd_cidr = ''0.0.0.0/0'',
                         rd_gateway = Some ''10.0.0.1'', rd_subnet_id = ''subnet-1''\<rparr>],
           sd_host_routes = [\<lparr>destination = ''0.0.0.0/0'', nexthop = Some ''10.0.0.1''\<rparr>],
           sd_gateway_ip = Some (Some ''10.0.0.1'')\<rparr>,
      \<lparr>calls = [Subnet_find (Id ''subnet-1''),
                Subnet_update subnet1 \<lparr>uk_name = None, uk_enable_dhcp = None\<rparr>],
       session = empty_session\<rparr>)"
  by (simp add: update_subnet_def update_gateway_def replace_dns_def replace_routes_def
      truthy_def act_defs mock_subnets_def mock_def answer_def update_body_def start_def
      Let_def subnet1_def route1_def make_subnet_dict_def make_route_dict_def
      host_route_of_def IPNetwork_default net_eq_def DEFAULT_ROUTE_def)

text \<open>
  Claim C8, amended: for every returning update of a subnet that supplies a
  \<^bold>\<open>non-empty\<close> host-routes list, the calls made are some calls that delete no route, then
  \<^verbatim>\<open>route_delete\<close> for every route the looked-up subnet record holds, then \<^verbatim>\<open>route_create\<close>
  for every supplied route, in order, and nothing else; the returned \<^verbatim>\<open>host_routes\<close> are
  the supplied routes; the returned \<^verbatim>\<open>gateway_ip\<close> is the next hop of the (last) default
  route of the list, \<^verbatim>\<open>None\<close> if the list has none. The calls before the deletions create
  no route either, unless a gateway is supplied together with a list that has no default
  route.
\<close>

theorem update_subnet_replaces_routes:
  assumes "update_subnet env id' s w = (Inr d, w')"
    and "subnet_find_one env id' (session w) = (Inr (Some subnet_db), s1)"
    and "us_host_routes s = Some routes"
    and "routes \<noteq> []"
  shows "sd_host_routes d = routes \<and>
         sd_gateway_ip d = Some (last_default_gateway (lib env) routes) \<and>
         (\<exists>pre. new_calls w w' =
                  pre @ map Route_delete (s_routes subnet_db) @
                  map (route_create_of (sd_id d)) routes \<and>
                filter is_route_delete pre = [] \<and>
                (\<not> truthy (us_gateway_ip s) \<or>
                 filter (is_default_route (lib env)) routes \<noteq> [] \<longrightarrow>
                   filter is_route_create pre = []))"
proof -
  let ?dns = "case us_dns_nameservers s of None \<Rightarrow> [] | Some ds \<Rightarrow> ds"
  let ?kw = "\<lparr>uk_name = us_name s, uk_enable_dhcp = us_enable_dhcp s\<rparr>"
  let ?w1 = "\<lparr>calls = calls w @ [Subnet_find (Id id')], session = s1\<rparr>"
  from invoke_result [where f = "subnet_find_one env id'" and w = w, OF assms(2)]
  have "invoke (Subnet_find (Id id')) (subnet_find_one env id') w = (Inr (Some subnet_db), ?w1)" .
  with assms(1,3) have
    "seq (update_gateway env id' routes (us_gateway_ip s)) (\<lambda>_.
     seq (invoke (Subnet_update subnet_db ?kw) (subnet_update env subnet_db ?kw)) (\<lambda>subnet.
     seq (lift (make_subnet_dict (lib env) subnet)) (\<lambda>subnet_dict.
     seq (replace_dns env subnet_db (s_id subnet) ?dns subnet_dict) (\<lambda>subnet_dict.
     replace_routes env subnet_db (s_id subnet) routes subnet_dict)))) ?w1 = (Inr d, w')"
    by (simp add: update_subnet_def seq_Inr Let_def)
  then obtain u w2 where
    a: "update_gateway env id' routes (us_gateway_ip s) ?w1 = (Inr u, w2)"
    and b: "seq (invoke (Subnet_update subnet_db ?kw) (subnet_update env subnet_db ?kw)) (\<lambda>subnet.
     seq (lift (make_subnet_dict (lib env) subnet)) (\<lambda>subnet_dict.
     seq (replace_dns env subnet_db (s_id subnet) ?dns subnet_dict) (\<lambda>subnet_dict.
     replace_routes env subnet_db (s_id subnet) routes subnet_dict))) w2 = (Inr d, w')"
    by (rule seq_returns)
  from b obtain subnet w3 where
    c: "invoke (Subnet_update subnet_db ?kw) (subnet_update env subnet_db ?kw) w2 =
        (Inr subnet, w3)"
    and e: "seq (lift (make_subnet_dict (lib env) subnet)) (\<lambda>subnet_dict.
     seq (replace_dns env subnet_db (s_id subnet) ?dns subnet_dict) (\<lambda>subnet_dict.
     replace_routes env subnet_db (s_id subnet) routes subnet_dict)) w3 = (Inr d, w')"
    by (rule seq_returns)
  from e obtain d0 w4 where
    f: "lift (make_subnet_dict (lib env) subnet) w3 = (Inr d0, w4)"
    and g: "seq (replace_dns env subnet_db (s_id subnet) ?dns d0) (\<lambda>subnet_dict.
     replace_routes env subnet_db (s_id subnet) routes subnet_dict) w4 = (Inr d, w')"
    by (rule seq_returns)
  from g obtain d1 w5 where
    h: "replace_dns env subnet_db (s_id subnet) ?dns d0 w4 = (Inr d1, w5)"
    and i: "replace_routes env subnet_db (s_id subnet) routes d1 w5 = (Inr d, w')"
    by (rule seq_returns)
  from lift_world [OF f] have w4: "w4 = w3" and "make_subnet_dict (lib env) subnet = Inr d0"
    by simp_all
  then have id0: "sd_id d0 = s_id subnet" by (simp add: make_subnet_dict_fields)
  from update_gateway_trace [OF a] obtain cs1 where
    1: "calls w2 = calls w @ Subnet_find (Id id') # cs1" "filter is_route_delete cs1 = []"
    "\<not> truthy (us_gateway_ip s) \<or> filter (is_default_route (lib env)) routes \<noteq> [] \<longrightarrow> cs1 = []"
    by auto
  from invoke_calls [OF c] w4
  have 2: "calls w4 = calls w2 @ [Subnet_update subnet_db ?kw]" by simp
  from replace_dns_returns [OF h] obtain cs2 where
    3: "sd_id d1 = sd_id d0" "calls w5 = calls w4 @ cs2" "filter is_route_create cs2 = []"
    "filter is_route_delete cs2 = []"
    by blast
  from replace_routes_returns [OF i assms(4)]
  have 4: "sd_host_routes d = routes"
    "sd_gateway_ip d = Some (last_default_gateway (lib env) routes)"
    "sd_id d = sd_id d1"
    "calls w' = calls w5 @ map Route_delete (s_routes subnet_db) @
                map (route_create_of (s_id subnet)) routes"
    by simp_all
  let ?pre = "Subnet_find (Id id') # cs1 @ Subnet_update subnet_db ?kw # cs2"
  from 1 2 3 4 id0
  have "new_calls w w' =
          ?pre @ map Route_delete (s_routes subnet_db) @ map (route_create_of (sd_id d)) routes"
    by (simp add: new_calls_def)
  moreover from 1 3 have "filter is_route_delete ?pre = []" by simp
  moreover from 1 3 have "\<not> truthy (us_gateway_ip s) \<or>
      filter (is_default_route (lib env)) routes \<noteq> [] \<longrightarrow> filter is_route_create ?pre = []"
    by auto
  ultimately have "\<exists>pre. new_calls w w' =
                  pre @ map Route_delete (s_routes subnet_db) @
                  map (route_create_of (sd_id d)) routes \<and>
                filter is_route_delete pre = [] \<and>
                (\<not> truthy (us_gateway_ip s) \<or>
                 filter (is_default_route (lib env)) routes \<noteq> [] \<longrightarrow>
                   filter is_route_create pre = [])"
    by blast
  with 4 show ?thesis by simp
qed

theorem update_subnet_replaces_routes_witness:
  "update_subnet mock_subnets ''subnet-1''
     (update_body\<lparr>us_host_routes :=
        Some [\<lparr>destination = ''0.0.0.0/0'', nexthop = Some ''10.0.0.5''\<rparr>]\<rparr>) start =
     (Inr \<lparr>sd_id = ''subnet-1'', sd_name = ''sub'', sd_tenant_id = ''tenant'',
           sd_network_id = ''net-1'', sd_ip_version = 4, sd_dns_nameservers = [],
           sd_cidr = ''10.0.0.0/24'', sd_enable_dhcp = False,
           sd_routes = [\<lparr>rd_id = ''route-1'', rd_cidr = ''0.0.0.0/0'',
                         rd_gateway = Some ''10.0.0.1'', rd_subnet_id = ''subnet-1''\<rparr>],
           sd_host_routes = [\<lparr>destination = ''0.0.0.0/0'', nexthop = Some ''10.0.0.5''\<rparr>],
           sd_gateway_ip = Some (Some ''10.0.0.5'')\<rparr>,
      \<lparr>calls = [Subnet_find (Id ''subnet-1''),
                Subnet_update subnet1 \<lparr>uk_name = None, uk_enable_dhcp = None\<rparr>,
                Route_delete route1,
                Route_create ''0.0.0.0/0'' (Some ''10.0.0.5'') ''subnet-1''],
       session = empty_session\<rparr>) \<and>
   last_default_gateway mock_lib [\<lparr>destination = ''0.0.0.0/0'', nexthop = Some ''10.0.0.5''\<rparr>] =
     Some ''10.0.0.5''"
proof -
  let ?r = "\<lparr>destination = ''0.0.0.0/0'', nexthop = Some ''10.0.0.5''\<rparr>"
  let ?body = "update_body\<lparr>us_host_routes := Some [?r]\<rparr>"
  have l: "lib mock_subnets = mock_lib" by (simp add: mock_subnets_def mock_def)
  have run: "update_subnet mock_subnets ''subnet-1'' ?body start =
     (Inr \<lparr>sd_id = ''subnet-1'', sd_name = ''sub'', sd_tenant_id = ''tenant'',
           sd_network_id = ''net-1'', sd_ip_version = 4, sd_dns_nameservers = [],
           sd_cidr = ''10.0.0.0/24'', sd_enable_dhcp = False,
           sd_routes = [\<lparr>rd_id = ''route-1'', rd_cidr = ''0.0.0.0/0'',
                         rd_gateway = Some ''10.0.0.1'', rd_subnet_id = ''subnet-1''\<rparr>],
           sd_host_routes = [?r], sd_gateway_ip = Some (Some ''10.0.0.5'')\<rparr>,
      \<lparr>calls = [Subnet_find (Id ''subnet-1''),
                Subnet_update subnet1 \<lparr>uk_name = None, uk_enable_dhcp = None\<rparr>,
                Route_delete route1,
                Route_create ''0.0.0.0/0'' (Some ''10.0.0.5'') ''subnet-1''],
       session = empty_session\<rparr>)"
    by (simp add: update_subnet_def update_gateway_def replace_dns_def replace_routes_def
        truthy_def act_defs mock_subnets_def mock_def answer_def update_body_def start_def
        Let_def subnet1_def route1_def make_subnet_dict_def make_route_dict_def
        host_route_of_def IPNetwork_default net_eq_def DEFAULT_ROUTE_def)
  have found: "subnet_find_one mock_subnets ''subnet-1'' (session start) =
      (Inr (Some subnet1), empty_session)"
    by (simp add: mock_subnets_def mock_def answer_def start_def)
  have given: "us_host_routes ?body = Some [?r]" "[?r] \<noteq> []"
    by simp_all
  from update_subnet_replaces_routes [OF run found given] l
  have "last_default_gateway mock_lib [?r] = Some ''10.0.0.5''"
    by simp
  with run show ?thesis by simp
qed

section \<open>Updating an IP address\<close>

text \<open>
  Claim C10, evaluated: the address \<^verbatim>\<open>ip-1\<close> is associated with \<^verbatim>\<open>port-1\<close> and \<^verbatim>\<open>port-2\<close>,
  and the request carries \<^verbatim>\<open>port_ids = []\<close>. The loop over \<^verbatim>\<open>old_ports\<close> removes the address
  from \<^verbatim>\<open>port-1\<close>; the backref takes \<^verbatim>\<open>port-1\<close> out of \<^verbatim>\<open>address['ports']\<close>, which is the
  list the loop is walking, so \<^verbatim>\<open>port-2\<close> moves to position 0 and the iterator, now at
  position 1, stops. The call returns \<^verbatim>\<open>port_ids = ["port-2"]\<close>, and \<^verbatim>\<open>port-2\<close> still has
  the address. The lookup is the only collaborator called.
\<close>

theorem update_ip_address_skips_second_port:
  "fst (update_ip_address mock_addresses ''tenant'' ''ip-1'' (Some []) shared) =
     Inr \<lparr>ipd_id = ''ip-1'', ipd_network_id = ''net-1'', ipd_address = ''10.0.0.2'',
          ipd_port_ids = [''port-2''], ipd_subnet_id = ''subnet-1''\<rparr> \<and>
   port_ip_addresses
     (session (snd (update_ip_address mock_addresses ''tenant'' ''ip-1'' (Some []) shared)))
     ''port-1'' = [] \<and>
   port_ip_addresses
     (session (snd (update_ip_address mock_addresses ''tenant'' ''ip-1'' (Some []) shared)))
     ''port-2'' = [ip1] \<and>
   ip_address_ports
     (session (snd (update_ip_address mock_addresses ''tenant'' ''ip-1'' (Some []) shared)))
     ''ip-1'' = [port2] \<and>
   calls (snd (update_ip_address mock_addresses ''tenant'' ''ip-1'' (Some []) shared)) =
     [Ip_address_find ''ip-1'' ''tenant'']"
proof -
  let ?s0 = "session shared"
  let ?s1 = "?s0\<lparr>port_ip_addresses := (port_ip_addresses ?s0)(''port-1'' := []),
                  ip_address_ports := (ip_address_ports ?s0)(''ip-1'' := [port2])\<rparr>"
  have ids: "ip_id ip1 = ''ip-1''" "p_id port1 = ''port-1''" "p_id port2 = ''port-2''"
    by (simp_all add: ip1_def port1_def port2_def)
  have ports0: "ip_address_ports ?s0 ''ip-1'' = [port1, port2]"
    "port_ip_addresses ?s0 ''port-1'' = [ip1]"
    by (simp_all add: shared_def)
  have step1: "ip_addresses_remove port1 ip1 ?s0 = (Inr (), ?s1)"
    by (simp add: ip_addresses_remove_def ids ports0)
  have ports1: "ip_address_ports ?s1 ''ip-1'' = [port2]" by simp
  have stop: "remove_old_ports ip1 (Suc 0) ?s1 = (Inr (), ?s1)"
    by (subst remove_old_ports.simps) (simp add: ids)
  have loop: "remove_old_ports ip1 0 ?s0 = (Inr (), ?s1)"
    by (subst remove_old_ports.simps) (simp add: ids ports0 step1 stop)
  have found: "ip_address_find_one mock_addresses ''ip-1'' ''tenant'' ?s0 = (Inr (Some ip1), ?s0)"
    by (simp add: mock_addresses_def mock_def answer_def)
  have run: "update_ip_address mock_addresses ''tenant'' ''ip-1'' (Some []) shared =
     (Inr \<lparr>ipd_id = ''ip-1'', ipd_network_id = ''net-1'', ipd_address = ''10.0.0.2'',
           ipd_port_ids = [''port-2''], ipd_subnet_id = ''subnet-1''\<rparr>,
      \<lparr>calls = [Ip_address_find ''ip-1'' ''tenant''], session = ?s1\<rparr>)"
    by (simp add: update_ip_address_def act_defs found loop make_ip_dict_def ids)
      (simp add: ip1_def shared_def)
  show ?thesis
    by (simp add: run) (simp add: shared_def)
qed

text \<open>With a single port the loop does what the claim says: the association is removed
  on both sides and the returned \<^verbatim>\<open>port_ids\<close> is empty.\<close>

lemma update_ip_address_single_port:
  "fst (update_ip_address mock_addresses ''tenant'' ''ip-1'' (Some []) single) =
     Inr \<lparr>ipd_id = ''ip-1'', ipd_network_id = ''net-1'', ipd_address = ''10.0.0.2'',
          ipd_port_ids = [], ipd_subnet_id = ''subnet-1''\<rparr> \<and>
   port_ip_addresses
     (session (snd (update_ip_address mock_addresses ''tenant'' ''ip-1'' (Some []) single)))
     ''port-1'' = []"
proof -
  let ?s0 = "session single"
  let ?s1 = "?s0\<lparr>port_ip_addresses := (port_ip_addresses ?s0)(''port-1'' := []),
                  ip_address_ports := (ip_address_ports ?s0)(''ip-1'' := [])\<rparr>"
  have ids: "ip_id ip1 = ''ip-1''" "p_id port1 = ''port-1''"
    by (simp_all add: ip1_def port1_def)
  have ports0: "ip_address_ports ?s0 ''ip-1'' = [port1]"
    "port_ip_addresses ?s0 ''port-1'' = [ip1]"
    by (simp_all add: single_def)
  have step1: "ip_addresses_remove port1 ip1 ?s0 = (Inr (), ?s1)"
    by (simp add: ip_addresses_remove_def ids ports0)
  have stop: "remove_old_ports ip1 (Suc 0) ?s1 = (Inr (), ?s1)"
    by (subst remove_old_ports.simps) (simp add: ids)
  have loop: "remove_old_ports ip1 0 ?s0 = (Inr (), ?s1)"
    by (subst remove_old_ports.simps) (simp add: ids ports0 step1 stop)
  have found: "ip_address_find_one mock_addresses ''ip-1'' ''tenant'' ?s0 = (Inr (Some ip1), ?s0)"
    by (simp add: mock_addresses_def mock_def answer_def)
  have run: "update_ip_address mock_addresses ''tenant'' ''ip-1'' (Some []) single =
     (Inr \<lparr>ipd_id = ''ip-1'', ipd_network_id = ''net-1'', ipd_address = ''10.0.0.2'',
           ipd_port_ids = [], ipd_subnet_id = ''subnet-1''\<rparr>,
      \<lparr>calls = [Ip_address_find ''ip-1'' ''tenant''], session = ?s1\<rparr>)"
    by (simp add: update_ip_address_def act_defs found loop make_ip_dict_def ids)
      (simp add: ip1_def single_def)
  show ?thesis
    by (simp add: run)
qed

end
